(* ===== verification/Prelude.thy ===== *)
theory Prelude
  imports Main
begin

text \<open>
  Shared vocabulary of the development: the JavaScript values the sources
  manipulate (JSON documents from the content store and from webhook bodies),
  the few pieces of JavaScript semantics the code relies on (property access,
  optional chaining, truthiness, \<open>||\<close>, \<open>ToString\<close> in template literals), the
  React element tree the components build, the exceptions the code can raise,
  and the generic lemmas on them that the component theories share.
\<close>

named_theorems js_simps "evaluation rules of the JavaScript value model"
named_theorems render_good "rules: a rendering step fails only as the renderer can, and keeps links safe"

section \<open>JSON values\<close>

text \<open>
  A value parsed by \<open>JSON.parse\<close> (\<open>req.json()\<close>, the content-store client).
  Numbers are integers: no code of the repository reads a fractional number.
  Objects are association lists in source order.
\<close>

datatype json =
    JNull
  | JBool bool
  | JNum int
  | JStr string
  | JArr "json list"
  | JObj "(string \<times> json) list"

text \<open>
  Property access \<open>v.k\<close>; \<open>None\<close> is \<open>undefined\<close>. For an object, \<open>JSON.parse\<close>
  keeps the last of duplicate keys, hence the lookup in the reversed list.
  The keys the code reads (\<open>_type\<close>, \<open>slug\<close>, \<open>current\<close>, \<open>href\<close>, \<open>asset\<close>, ...)
  are not properties of strings, numbers, booleans or arrays, nor of
  \<open>Object.prototype\<close>; reading \<open>null.k\<close> throws and is handled by the callers.
\<close>

fun get_prop :: "json \<Rightarrow> string \<Rightarrow> json option" where
  "get_prop (JObj kvs) k = map_of (rev kvs) k"
| "get_prop _ k = None"

text \<open>Optional chaining \<open>v?.k\<close> on a possibly undefined value.\<close>

definition opt_prop :: "json option \<Rightarrow> string \<Rightarrow> json option" where
  "opt_prop v k = (case v of None \<Rightarrow> None | Some JNull \<Rightarrow> None | Some x \<Rightarrow> get_prop x k)"

text \<open>JavaScript truthiness of a JSON value and of a possibly undefined one.\<close>

fun truthy :: "json \<Rightarrow> bool" where
  "truthy JNull = False"
| "truthy (JBool b) = b"
| "truthy (JNum n) = (n \<noteq> 0)"
| "truthy (JStr s) = (s \<noteq> [])"
| "truthy (JArr _) = True"
| "truthy (JObj _) = True"

definition truthy_opt :: "json option \<Rightarrow> bool" where
  "truthy_opt v = (case v of None \<Rightarrow> False | Some x \<Rightarrow> truthy x)"

text \<open>\<open>a || b\<close>: \<open>a\<close> when it is truthy, otherwise \<open>b\<close>.\<close>

definition js_or :: "json option \<Rightarrow> json \<Rightarrow> json" where
  "js_or a b = (if truthy_opt a then the a else b)"

text \<open>A field of TypeScript type \<open>string\<close>: present and a string.\<close>

definition is_str :: "json option \<Rightarrow> bool" where
  "is_str v = (case v of Some (JStr _) \<Rightarrow> True | _ \<Rightarrow> False)"

text \<open>An optional field \<open>k?: string\<close>: absent or a string.\<close>

definition opt_str :: "json option \<Rightarrow> bool" where
  "opt_str v = (case v of None \<Rightarrow> True | Some (JStr _) \<Rightarrow> True | _ \<Rightarrow> False)"

section \<open>Strings\<close>

text \<open>Decimal notation of integers, as \<open>Number.prototype.toString\<close> prints them.\<close>

fun nat_str :: "nat \<Rightarrow> string" where
  "nat_str n = (if n < 10 then [char_of (48 + n)] else nat_str (n div 10) @ [char_of (48 + n mod 10)])"

definition int_str :: "int \<Rightarrow> string" where
  "int_str i = (if i < 0 then CHR ''-'' # nat_str (nat (- i)) else nat_str (nat i))"

fun join :: "string \<Rightarrow> string list \<Rightarrow> string" where
  "join sep [] = []"
| "join sep [x] = x"
| "join sep (x # xs) = x @ sep @ join sep xs"

text \<open>
  \<open>ToString\<close>, as a template literal \<open>`...${v}`\<close> and \<open>encodeURIComponent\<close>
  apply it: arrays join their elements with commas, \<open>null\<close> elements
  becoming empty; objects print as \<open>[object Object]\<close>.
\<close>

fun json_str :: "json \<Rightarrow> string" where
  "json_str JNull = ''null''"
| "json_str (JBool b) = (if b then ''true'' else ''false'')"
| "json_str (JNum n) = int_str n"
| "json_str (JStr s) = s"
| "json_str (JArr vs) = join '','' (map (\<lambda>v. if v = JNull then [] else json_str v) vs)"
| "json_str (JObj _) = ''[object Object]''"

definition js_to_string :: "json option \<Rightarrow> string" where
  "js_to_string v = (case v of None \<Rightarrow> ''undefined'' | Some x \<Rightarrow> json_str x)"

definition starts_with :: "string \<Rightarrow> string \<Rightarrow> bool" where
  "starts_with s p \<longleftrightarrow> take (length p) s = p"

text \<open>ASCII lower case, as the Fetch API's \<open>Headers\<close> compares header names.\<close>

definition ascii_lower :: "char \<Rightarrow> char" where
  "ascii_lower c = (if (65::nat) \<le> of_char c \<and> of_char c \<le> (90::nat) then char_of (of_char c + (32::nat)) else c)"

section \<open>Exceptions and results\<close>

text \<open>The exceptions the modelled code can raise.\<close>

datatype js_error =
    TypeError string
  | URIError
  | ObjectAsReactChild
  | BuilderError string

type_synonym 'a result = "js_error + 'a"

text \<open>Sequencing of throwing computations: the first exception propagates.\<close>

definition bind_res :: "'a result \<Rightarrow> ('a \<Rightarrow> 'b result) \<Rightarrow> 'b result" where
  "bind_res r f = (case r of Inl e \<Rightarrow> Inl e | Inr x \<Rightarrow> f x)"

fun map_res :: "('a \<Rightarrow> 'b result) \<Rightarrow> 'a list \<Rightarrow> 'b list result" where
  "map_res f [] = Inr []"
| "map_res f (x # xs) = bind_res (f x) (\<lambda>y. bind_res (map_res f xs) (\<lambda>ys. Inr (y # ys)))"

section \<open>React elements\<close>

text \<open>
  The element tree JSX builds: an element names its tag or component
  (\<open>div\<close>, \<open>Image\<close>, \<open>SyntaxHighlighterPrism\<close>), carries its props with the
  \<open>undefined\<close> ones left out, and its children; text is a leaf.
\<close>

datatype node =
    Txt string
  | El string "(string \<times> json) list" "node list"

text \<open>
  What React renders for an expression \<open>{v}\<close> in child position: nothing for
  \<open>undefined\<close>, \<open>null\<close>, booleans and the empty string, text for strings and
  numbers, each element for arrays, and an error for a plain object.
\<close>

fun json_child :: "json \<Rightarrow> node list result"
  and json_children :: "json list \<Rightarrow> node list result" where
  "json_child JNull = Inr []"
| "json_child (JBool _) = Inr []"
| "json_child (JNum n) = Inr [Txt (int_str n)]"
| "json_child (JStr s) = Inr (if s = [] then [] else [Txt s])"
| "json_child (JArr vs) = json_children vs"
| "json_child (JObj _) = Inl ObjectAsReactChild"
| "json_children [] = Inr []"
| "json_children (v # vs) =
     bind_res (json_child v) (\<lambda>c. bind_res (json_children vs) (\<lambda>cs. Inr (c @ cs)))"

text \<open>A child expression \<open>{v}\<close> where \<open>v\<close> may be \<open>undefined\<close>.\<close>

definition opt_child :: "json option \<Rightarrow> node list result" where
  "opt_child v = (case v of None \<Rightarrow> Inr [] | Some x \<Rightarrow> json_child x)"

text \<open>
  \<open>{v && <e/>}\<close>: the element when \<open>v\<close> is truthy, otherwise React renders the
  falsy value itself (so \<open>0\<close> shows as the text \<open>0\<close>).
\<close>

definition jsx_and :: "json option \<Rightarrow> node result \<Rightarrow> node list result" where
  "jsx_and v e = (if truthy_opt v then bind_res e (\<lambda>x. Inr [x]) else opt_child v)"

text \<open>The props of an element, the \<open>undefined\<close> ones left out.\<close>

definition props :: "(string \<times> json option) list \<Rightarrow> (string \<times> json) list" where
  "props ps = [(k, the v). (k, v) \<leftarrow> ps, v \<noteq> None]"

fun tag_of :: "node \<Rightarrow> string" where
  "tag_of (Txt _) = []"
| "tag_of (El t _ _) = t"

fun children_of :: "node \<Rightarrow> node list" where
  "children_of (Txt _) = []"
| "children_of (El _ _ cs) = cs"

fun props_of :: "node \<Rightarrow> (string \<times> json) list" where
  "props_of (Txt _) = []"
| "props_of (El _ ps _) = ps"

text \<open>
  The text a reader sees: the text leaves, except under an element hidden by
  \<open>style={{display: 'none'}}\<close>.
\<close>

fun visible_text :: "node \<Rightarrow> string" where
  "visible_text (Txt s) = s"
| "visible_text (El t ps cs) =
     (if map_of ps ''style'' = Some (JObj [(''display'', JStr ''none'')]) then []
      else concat (map visible_text cs))"

text \<open>
  Every element that opens its link in a new tab (\<open>target="_blank"\<close>) also
  carries \<open>rel="noopener noreferrer"\<close>, at every depth of the tree.
\<close>

fun safe_links :: "node \<Rightarrow> bool" where
  "safe_links (Txt _) = True"
| "safe_links (El t ps cs) =
     ((map_of ps ''target'' = Some (JStr ''_blank'') \<longrightarrow> map_of ps ''rel'' = Some (JStr ''noopener noreferrer''))
      \<and> list_all safe_links cs)"

section \<open>Generic lemmas\<close>

lemma bind_res_simps [simp]:
  "bind_res (Inl e) f = Inl e"
  "bind_res (Inr x) f = f x"
  by (simp_all add: bind_res_def)

lemma bind_res_eq_Inr [simp]:
  "bind_res r f = Inr y \<longleftrightarrow> (\<exists>x. r = Inr x \<and> f x = Inr y)"
  by (cases r) auto

lemma map_res_Inr_iff:
  "map_res f xs = Inr ys \<longleftrightarrow> list_all2 (\<lambda>x y. f x = Inr y) xs ys"
proof (induction xs arbitrary: ys)
  case Nil
  then show ?case by auto
next
  case (Cons x xs)
  then show ?case by (cases ys) auto
qed

lemma map_res_total:
  assumes "\<And>x. x \<in> set xs \<Longrightarrow> \<exists>y. f x = Inr y"
  shows "\<exists>ys. map_res f xs = Inr ys"
  using assms by (induction xs) force+

lemma map_res_Inl:
  "x \<in> set xs \<Longrightarrow> f x = Inl e \<Longrightarrow> \<exists>e'. map_res f xs = Inl e'"
proof (induction xs)
  case Nil
  then show ?case by simp
next
  case (Cons y ys)
  show ?case
  proof (cases "f y")
    case (Inl e1)
    then show ?thesis by simp
  next
    case (Inr z)
    with Cons show ?thesis by (auto split: sum.split)
  qed
qed

lemma map_res_length: "map_res f xs = Inr ys \<Longrightarrow> length ys = length xs"
  by (simp add: map_res_Inr_iff list_all2_lengthD)

lemma map_res_map_eq:
  "map_res f xs = Inr ys \<Longrightarrow> (\<And>x y. f x = Inr y \<Longrightarrow> g y = h x) \<Longrightarrow> map g ys = map h xs"
proof (induction xs arbitrary: ys)
  case Nil
  then show ?case by simp
next
  case (Cons x xs)
  from Cons.prems(1) obtain y ys' where "f x = Inr y" "map_res f xs = Inr ys'" "ys = y # ys'"
    by auto
  with Cons.IH Cons.prems(2) show ?case by simp
qed

lemma map_res_isl_cong:
  "(\<And>x. x \<in> set xs \<Longrightarrow> isl (f x) = isl (g x)) \<Longrightarrow> isl (map_res f xs) = isl (map_res g xs)"
proof (induction xs)
  case Nil
  then show ?case by simp
next
  case (Cons x xs)
  have hx: "isl (f x) = isl (g x)" by (rule Cons.prems) simp
  have IH: "isl (map_res f xs) = isl (map_res g xs)" by (rule Cons.IH) (rule Cons.prems, simp)
  show ?case using hx IH
    by (cases "f x"; cases "g x"; cases "map_res f xs"; cases "map_res g xs") simp_all
qed

lemma map_res_map [simp]: "map_res (\<lambda>x. Inr (g x)) xs = Inr (map g xs)"
  by (induction xs) auto

lemma truthy_opt_simps [simp, js_simps]:
  "truthy_opt None = False"
  "truthy_opt (Some v) = truthy v"
  by (simp_all add: truthy_opt_def)

lemma opt_prop_None [simp, js_simps]: "opt_prop None k = None"
  by (simp add: opt_prop_def)

lemma js_or_simps [simp, js_simps]:
  "truthy_opt a \<Longrightarrow> js_or a b = the a"
  "\<not> truthy_opt a \<Longrightarrow> js_or a b = b"
  by (simp_all add: js_or_def)

lemma js_to_string_simps [simp, js_simps]:
  "js_to_string None = ''undefined''"
  "js_to_string (Some (JStr s)) = s"
  by (simp_all add: js_to_string_def)

lemma starts_with_Nil [simp]: "starts_with s [] = True"
  by (simp add: starts_with_def)

lemma starts_with_Cons [simp]:
  "starts_with s (c # p) \<longleftrightarrow> (\<exists>s'. s = c # s' \<and> starts_with s' p)"
  by (cases s) (auto simp: starts_with_def)

lemma opt_child_simps [simp, js_simps]:
  "opt_child None = Inr []"
  "opt_child (Some v) = json_child v"
  by (simp_all add: opt_child_def)

lemma jsx_and_truthy [simp]: "truthy_opt v \<Longrightarrow> jsx_and v e = bind_res e (\<lambda>x. Inr [x])"
  by (simp add: jsx_and_def)

lemma jsx_and_falsy [simp]: "\<not> truthy_opt v \<Longrightarrow> jsx_and v e = opt_child v"
  by (simp add: jsx_and_def)

lemma props_simps [simp]:
  "props [] = []"
  "props ((k, None) # ps) = props ps"
  "props ((k, Some v) # ps) = (k, v) # props ps"
  by (simp_all add: props_def)

lemma map_of_props_None:
  "k \<notin> fst ` set ps \<Longrightarrow> map_of (props ps) k = None"
  by (induction ps) (auto simp: props_def)

lemma opt_prop_Some [simp, js_simps]: "opt_prop (Some v) k = get_prop v k"
  by (cases v) (simp_all add: opt_prop_def)

lemma nat_str_nonempty [simp]: "nat_str n \<noteq> []"
  by (subst nat_str.simps) simp

declare nat_str.simps [simp del]

lemma int_str_nonempty [simp]: "int_str i \<noteq> []"
  by (simp add: int_str_def)

lemma is_str_iff: "is_str v \<longleftrightarrow> (\<exists>s. v = Some (JStr s))"
  by (auto simp: is_str_def split: option.split json.split)

lemma isl_bind_res: "isl (bind_res r f) \<longleftrightarrow> isl r \<or> isl (f (projr r))"
  by (cases r) auto

lemma isl_map_res: "isl (map_res f xs) \<longleftrightarrow> \<not> list_all (\<lambda>x. \<not> isl (f x)) xs"
  by (induction xs) (auto simp: isl_bind_res)

end
