(* ===== verification/Revalidate.thy ===== *)
theory Revalidate
  imports Prelude
begin

text \<open>
  The revalidation webhook, \<open>src/app/api/revalidate/route.ts\<close>: the handler
  \<open>POST\<close> parses the body, checks the shared secret header against the
  configured \<open>SANITY_WEBHOOK_SECRET\<close>, selects the paths to invalidate from the
  body's \<open>_type\<close> and \<open>slug.current\<close>, calls \<open>revalidatePath\<close> once per path and
  answers 200; a thrown exception answers 500. The page cache that
  \<open>revalidatePath\<close> acts on belongs to the framework; it is modelled as the log
  of calls and the set of paths marked stale.
\<close>

section \<open>Requests, responses and the invalidation state\<close>

text \<open>
  A request: its header list, and its body as \<open>req.json()\<close> parses it
  (\<open>None\<close> when the body is not JSON and \<open>req.json()\<close> rejects).
\<close>

record request =
  req_headers :: "(string \<times> string) list"
  req_body :: "json option"

datatype response = Response (status: nat) (payload: json)

record cache_state =
  revalidated :: "string list"
  stale :: "string set"

text \<open>
  \<open>Headers.get\<close>: header names compare case-insensitively, and the values of
  a header sent several times are joined with \<open>", "\<close>.
\<close>

definition headers_get :: "(string \<times> string) list \<Rightarrow> string \<Rightarrow> string option" where
  "headers_get hs n =
     (case [snd h. h \<leftarrow> hs, map ascii_lower (fst h) = map ascii_lower n] of
        [] \<Rightarrow> None
      | vs \<Rightarrow> Some (join '', '' vs))"

text \<open>
  \<open>revalidatePath(path)\<close> on the page cache: the call is logged and the path
  marked stale. What it also does to the data cache, dropping the entries the
  path's page fetched, is modelled with the site (\<open>purge_paths\<close> of the Site
  theory).
\<close>

definition revalidatePath :: "string \<Rightarrow> cache_state \<Rightarrow> cache_state" where
  "revalidatePath p st = st\<lparr>revalidated := revalidated st @ [p], stale := insert p (stale st)\<rparr>"

text \<open>The loop \<open>for (const path of pathsToRevalidate) revalidatePath(path)\<close>.\<close>

fun revalidate_all :: "string list \<Rightarrow> cache_state \<Rightarrow> cache_state" where
  "revalidate_all [] st = st"
| "revalidate_all (p # ps) st = revalidate_all ps (revalidatePath p st)"

section \<open>Path selection\<close>

text \<open>\<open>body.slug?.current\<close>, for a body that is not \<open>null\<close>.\<close>

definition slug_current :: "json \<Rightarrow> json option" where
  "slug_current body = opt_prop (get_prop body ''slug'') ''current''"

text \<open>
  Lines 17--29: start from \<open>['/']\<close>; for \<open>_type === 'post'\<close> push
  \<open>'/blog'\<close>, and \<open>`/blog/${body.slug.current}`\<close> when the slug is truthy.
\<close>

definition paths_to_revalidate :: "json \<Rightarrow> string list" where
  "paths_to_revalidate body =
     [''/''] @
     (if get_prop body ''_type'' = Some (JStr ''post'')
      then [''/blog''] @
           (if truthy_opt (slug_current body)
            then [''/blog/'' @ js_to_string (slug_current body)] else [])
      else [])"

section \<open>The handler\<close>

text \<open>
  \<open>secret !== process.env.SANITY_WEBHOOK_SECRET\<close>: the header is a string or
  \<open>null\<close>, the variable a string or \<open>undefined\<close>; they are strictly equal only
  when both are the same string.
\<close>

definition secret_matches :: "string option \<Rightarrow> string option \<Rightarrow> bool" where
  "secret_matches hdr env = (case (hdr, env) of (Some h, Some e) \<Rightarrow> h = e | _ \<Rightarrow> False)"

definition ok_response :: response where
  "ok_response = Response 200 (JObj [(''revalidated'', JBool True), (''message'', JStr ''Revalidation triggered'')])"

definition unauthorized_response :: response where
  "unauthorized_response = Response 401 (JObj [(''message'', JStr ''Invalid secret'')])"

definition error_response :: response where
  "error_response = Response 500 (JObj [(''revalidated'', JBool False), (''message'', JStr ''Error revalidating'')])"

text \<open>
  \<open>POST env req st\<close>, with \<open>env\<close> the configured secret. The order is the
  source's: \<open>await req.json()\<close> (line 7) runs before the secret check, and
  the destructuring \<open>const { _type } = body\<close> (line 17) throws a
  \<open>TypeError\<close> when the body is \<open>null\<close>; both exceptions reach the
  \<open>catch\<close> before any \<open>revalidatePath\<close> call.
\<close>

definition POST :: "string option \<Rightarrow> request \<Rightarrow> cache_state \<Rightarrow> response \<times> cache_state" where
  "POST env req st =
     (case req_body req of
        None \<Rightarrow> (error_response, st)
      | Some body \<Rightarrow>
          if \<not> secret_matches (headers_get (req_headers req) ''x-webhook-secret'') env
          then (unauthorized_response, st)
          else if body = JNull then (error_response, st)
          else (ok_response, revalidate_all (paths_to_revalidate body) st))"

section \<open>Lemmas\<close>

lemma revalidate_all_state:
  "revalidate_all ps st = st\<lparr>revalidated := revalidated st @ ps, stale := stale st \<union> set ps\<rparr>"
  by (induction ps arbitrary: st) (auto simp: revalidatePath_def)

lemma response_status [simp]:
  "status ok_response = 200" "status unauthorized_response = 401" "status error_response = 500"
  by (simp_all add: ok_response_def unauthorized_response_def error_response_def)

lemma secret_matches_iff [simp]:
  "secret_matches hdr env \<longleftrightarrow> (\<exists>s. hdr = Some s \<and> env = Some s)"
  by (auto simp: secret_matches_def split: option.splits)

lemma length_paths_to_revalidate: "length (paths_to_revalidate body) \<le> 3"
  by (simp add: paths_to_revalidate_def)

lemmas handler_simps = POST_def revalidate_all_state paths_to_revalidate_def slug_current_def

section \<open>Properties\<close>

text \<open>
  C1. Path selection for any document type other than \<open>post\<close> (including a
  body with no \<open>_type\<close>) invalidates exactly the home page.
\<close>

theorem paths_non_post:
  assumes "get_prop body ''_type'' \<noteq> Some (JStr ''post'')"
  shows "paths_to_revalidate body = [''/'']"
  using assms by (simp add: paths_to_revalidate_def)

theorem paths_non_post_witness:
  "get_prop (JObj [(''_type'', JStr ''author'')]) ''_type'' \<noteq> Some (JStr ''post'') \<and>
   paths_to_revalidate (JObj [(''_type'', JStr ''author'')]) = [''/'']"
  using paths_non_post [of "JObj [(''_type'', JStr ''author'')]"] by simp

text \<open>
  C2. A \<open>post\<close> body whose \<open>slug.current\<close> is a non-empty string invalidates the
  home page, the blog index and that post's page, in this order.
\<close>

theorem paths_post_slug:
  assumes "s \<noteq> []"
  shows "paths_to_revalidate (JObj [(''_type'', JStr ''post''), (''slug'', JObj [(''current'', JStr s)])])
           = [''/'', ''/blog'', ''/blog/'' @ s]"
  using assms by (simp add: paths_to_revalidate_def slug_current_def)

theorem paths_post_slug_witness:
  "paths_to_revalidate (JObj [(''_type'', JStr ''post''), (''slug'', JObj [(''current'', JStr ''hello'')])])
     = [''/'', ''/blog'', ''/blog/hello'']"
  using paths_post_slug [of "''hello''"] by simp

text \<open>
  C3. A \<open>post\<close> body whose \<open>slug.current\<close> is falsy (absent, \<open>null\<close>, or the
  empty string) invalidates the home page and the blog index only: no
  per-post path is produced for an empty slug.
\<close>

theorem paths_post_falsy_slug:
  assumes "get_prop body ''_type'' = Some (JStr ''post'')"
    and "\<not> truthy_opt (slug_current body)"
  shows "paths_to_revalidate body = [''/'', ''/blog'']"
  using assms by (simp add: paths_to_revalidate_def)

theorem paths_post_falsy_slug_witness:
  "paths_to_revalidate (JObj [(''_type'', JStr ''post''), (''slug'', JObj [(''current'', JStr [])])])
     = [''/'', ''/blog'']"
proof -
  let ?b = "JObj [(''_type'', JStr ''post''), (''slug'', JObj [(''current'', JStr [])])]"
  have "get_prop ?b ''_type'' = Some (JStr ''post'')" and "\<not> truthy_opt (slug_current ?b)"
    by (simp_all add: slug_current_def)
  then show ?thesis by (rule paths_post_falsy_slug)
qed

text \<open>
  C4. The path set is well formed for every body: it has no duplicates, starts
  with the home page \<open>/\<close>, holds at most three paths, and every path is
  absolute.
\<close>

theorem paths_well_formed:
  "distinct (paths_to_revalidate body) \<and> hd (paths_to_revalidate body) = ''/'' \<and>
   length (paths_to_revalidate body) \<le> 3 \<and>
   list_all (\<lambda>p. starts_with p ''/'') (paths_to_revalidate body)"
  by (simp add: paths_to_revalidate_def)

text \<open>
  C5. A request with a parseable body whose secret header does not equal the
  configured secret is answered 401 and triggers no invalidation.
\<close>

theorem POST_unauthorized:
  assumes "req_body req = Some body"
    and "\<not> secret_matches (headers_get (req_headers req) ''x-webhook-secret'') env"
  shows "POST env req st = (unauthorized_response, st)"
  using assms by (simp add: POST_def)

theorem POST_unauthorized_witness:
  "POST (Some ''k'') \<lparr>req_headers = [(''x-webhook-secret'', ''bad'')], req_body = Some (JObj [])\<rparr> \<lparr>revalidated = [], stale = {}\<rparr>
     = (unauthorized_response, \<lparr>revalidated = [], stale = {}\<rparr>)"
  by (rule POST_unauthorized) (simp_all add: headers_get_def)

text \<open>
  C6. A request whose body is not JSON is answered 500 and triggers no
  invalidation, whatever its secret header: the body is parsed before the
  secret is checked.
\<close>

theorem POST_malformed_body:
  assumes "req_body req = None"
  shows "POST env req st = (error_response, st)"
  using assms by (simp add: POST_def)

theorem POST_malformed_body_witness:
  "POST (Some ''k'') \<lparr>req_headers = [(''x-webhook-secret'', ''bad'')], req_body = None\<rparr> \<lparr>revalidated = [], stale = {}\<rparr>
     = (error_response, \<lparr>revalidated = [], stale = {}\<rparr>)"
  by (rule POST_malformed_body) simp

text \<open>
  C7. An authorised request with a non-null body is answered 200, and its
  effect is exactly one \<open>revalidatePath\<close> call per selected path, in the
  selection's order, each path then being stale.
\<close>

theorem POST_authorized:
  assumes "req_body req = Some body" and "body \<noteq> JNull"
    and "headers_get (req_headers req) ''x-webhook-secret'' = Some s" and "env = Some s"
  shows "POST env req st =
           (ok_response, st\<lparr>revalidated := revalidated st @ paths_to_revalidate body,
                            stale := stale st \<union> set (paths_to_revalidate body)\<rparr>)"
  using assms by (simp add: POST_def revalidate_all_state)

theorem POST_authorized_witness:
  "POST (Some ''k'') \<lparr>req_headers = [(''x-webhook-secret'', ''k'')], req_body = Some (JObj [(''_type'', JStr ''page'')])\<rparr>
      \<lparr>revalidated = [], stale = {}\<rparr>
     = (ok_response, \<lparr>revalidated = [''/''], stale = {''/''}\<rparr>)"
proof -
  let ?r = "\<lparr>req_headers = [(''x-webhook-secret'', ''k'')], req_body = Some (JObj [(''_type'', JStr ''page'')])\<rparr>"
  have "headers_get (req_headers ?r) ''x-webhook-secret'' = Some ''k''"
    by (simp add: headers_get_def)
  from POST_authorized [of ?r "JObj [(''_type'', JStr ''page'')]", OF _ _ this, of "Some ''k''"]
  show ?thesis
    by (simp add: paths_to_revalidate_def)
qed

text \<open>
  C8. An authorised request whose JSON body is \<open>null\<close> is answered 500 and
  triggers no invalidation: destructuring \<open>_type\<close> from \<open>null\<close> throws.
\<close>

theorem POST_null_body:
  assumes "req_body req = Some JNull"
  shows "POST env req st \<in> {(unauthorized_response, st), (error_response, st)}"
  using assms by (simp add: POST_def)

theorem POST_null_body_witness:
  "POST (Some ''k'') \<lparr>req_headers = [(''x-webhook-secret'', ''k'')], req_body = Some JNull\<rparr> \<lparr>revalidated = [], stale = {}\<rparr>
     = (error_response, \<lparr>revalidated = [], stale = {}\<rparr>) \<and>
   POST (Some ''k'') \<lparr>req_headers = [(''x-webhook-secret'', ''k'')], req_body = Some JNull\<rparr> \<lparr>revalidated = [], stale = {}\<rparr>
     \<in> {(unauthorized_response, \<lparr>revalidated = [], stale = {}\<rparr>), (error_response, \<lparr>revalidated = [], stale = {}\<rparr>)}"
  using POST_null_body [of "\<lparr>req_headers = [(''x-webhook-secret'', ''k'')], req_body = Some JNull\<rparr>" "Some ''k''" "\<lparr>revalidated = [], stale = {}\<rparr>"]
  by (simp add: POST_def headers_get_def)

text \<open>
  C9. When no webhook secret is configured, no request is ever answered 200
  and no request triggers an invalidation.
\<close>

theorem POST_env_unset:
  "status (fst (POST None req st)) \<noteq> 200 \<and> snd (POST None req st) = st"
  by (simp add: POST_def split: option.split)

text \<open>
  A request that sends the correct secret header twice is refused with
  401: \<open>Headers.get\<close> joins the two values into \<open>"k, k"\<close>.
\<close>

theorem POST_duplicate_secret_header:
  "POST (Some ''k'') \<lparr>req_headers = [(''x-webhook-secret'', ''k''), (''X-Webhook-Secret'', ''k'')],
                      req_body = Some (JObj [])\<rparr> st = (unauthorized_response, st)"
proof -
  have "headers_get [(''x-webhook-secret'', ''k''), (''X-Webhook-Secret'', ''k'')] ''x-webhook-secret'' = Some ''k, k''"
    by code_simp
  then show ?thesis by (simp add: POST_def)
qed

text \<open>
  C10. One webhook request triggers at most three \<open>revalidatePath\<close> calls, and
  it only appends to the log of calls: the log after the request is the log
  before it followed by at most three paths.
\<close>

theorem POST_revalidate_bound:
  "\<exists>ps. revalidated (snd (POST env req st)) = revalidated st @ ps \<and> length ps \<le> 3"
proof (cases "req_body req")
  case None
  then show ?thesis by (simp add: POST_def)
next
  case (Some body)
  with length_paths_to_revalidate [of body] show ?thesis
    by (auto simp: POST_def revalidate_all_state)
qed

end
