(* ===== verification/PortableText.thy ===== *)
theory PortableText
  imports Prelude
begin

text \<open>
  The document-to-view mapper. \<open>src/app/components/PortableTextComponents.tsx\<close>
  defines the dispatch table \<open>PortableTextComponents\<close> that the post page hands
  to \<open>@portabletext/react\<close>: components for the embedded object types
  (\<open>image\<close>, \<open>code\<close>, \<open>callout\<close>), the block styles, the list kinds, the
  list-item kinds and the marks. The table and its two helper components
  (\<open>MemoizedImage\<close>, \<open>CodeBlock\<close>) are modelled from the source, each entry a
  function to a React element; the library's traversal of a document and its
  fallbacks for kinds the table lacks are modelled from its documented
  behaviour (the spec's "unknown kinds degrade gracefully").
\<close>

section \<open>Portable Text documents\<close>

text \<open>
  A span of text with its marks (decorator names, or keys of the block's mark
  definitions); a block with its style, list-item kind, spans and mark
  definitions; or an embedded object, kept as the JSON value the type
  components receive as \<open>value\<close>.
\<close>

datatype pt_span = Span (span_text: string) (span_marks: "string list")

datatype pt_node =
    Block (blk_style: "string option") (blk_list_item: "string option")
          (blk_children: "pt_span list") (blk_mark_defs: "json list")
  | Obj json

section \<open>The components of the table\<close>

text \<open>The props interface \<open>MemoizedImageProps\<close> (lines 8--15).\<close>

definition is_MemoizedImageProps :: "json option \<Rightarrow> json option \<Rightarrow> json option \<Rightarrow> json option \<Rightarrow> bool" where
  "is_MemoizedImageProps src alt className caption \<longleftrightarrow>
     is_str src \<and> is_str alt \<and> opt_str className \<and> opt_str caption"

text \<open>\<open>MemoizedImage\<close> (lines 18--33): a figure with the image and an optional caption.\<close>

definition MemoizedImage ::
  "json option \<Rightarrow> json option \<Rightarrow> int \<Rightarrow> int \<Rightarrow> json option \<Rightarrow> json option \<Rightarrow> node result" where
  "MemoizedImage src alt width height className caption =
     bind_res
       (jsx_and caption
          (bind_res (opt_child caption)
             (\<lambda>cs. Inr (El ''figcaption'' [(''className'', JStr ''text-center text-sm text-gray-500 mt-2'')] cs))))
       (\<lambda>cap. Inr (El ''figure'' [(''className'', JStr ''my-8'')]
          (El ''Image'' (props [(''src'', Some (js_or src (JStr ''''))),
                                (''alt'', Some (js_or alt (JStr '' ''))),
                                (''width'', Some (JNum width)), (''height'', Some (JNum height)),
                                (''className'', className), (''loading'', Some (JStr ''lazy'')),
                                (''sizes'', Some (JStr ''(max-width: 768px) 100vw, 800px''))]) []
           # cap)))"

text \<open>The props interface \<open>CodeBlockProps\<close> (lines 37--42).\<close>

definition is_CodeBlockProps :: "json option \<Rightarrow> json option \<Rightarrow> json option \<Rightarrow> bool" where
  "is_CodeBlockProps language code filename \<longleftrightarrow> opt_str language \<and> is_str code \<and> opt_str filename"

text \<open>
  What the highlighter makes of its children. \<open>SyntaxHighlighterPrism\<close> of
  \<open>react-syntax-highlighter\<close> does not render its children as React does:
  it reads them as the code, \<open>code = (Array.isArray(children) ? children[0] :
  children) || ''\<close>, and splits that into lines with string methods, so a
  code that is then not a string throws a \<open>TypeError\<close>.
\<close>

definition highlighter_code :: "json option \<Rightarrow> string result" where
  "highlighter_code children =
     (let c = (case children of Some (JArr vs) \<Rightarrow> (case vs of [] \<Rightarrow> None | v # _ \<Rightarrow> Some v) | _ \<Rightarrow> children) in
      case js_or c (JStr []) of JStr s \<Rightarrow> Inr s | _ \<Rightarrow> Inl (TypeError ''code.split''))"

text \<open>
  \<open>CodeBlock\<close> (lines 45--67): the highlighter, keyed by the language (default
  \<open>typescript\<close>), showing the code it read, and the file name under it when
  there is one. The highlighter renders before its sibling, so its exception
  comes first. The \<open>Suspense\<close> fallback is not part of the output: nothing
  inside suspends.
\<close>

definition CodeBlock :: "json option \<Rightarrow> json option \<Rightarrow> json option \<Rightarrow> node result" where
  "CodeBlock language code filename =
     bind_res (highlighter_code code) (\<lambda>src.
     bind_res (jsx_and filename
                 (bind_res (opt_child filename)
                    (\<lambda>cs. Inr (El ''div'' [(''className'', JStr ''text-xs text-gray-500 mt-1 px-1'')] cs))))
       (\<lambda>fn. Inr (El ''Suspense'' []
          [El ''div'' [(''className'', JStr ''my-6 rounded-lg overflow-hidden'')]
             (El ''SyntaxHighlighterPrism''
                 [(''language'', js_or language (JStr ''typescript'')), (''style'', JStr ''atomDark''),
                  (''className'', JStr ''text-sm''),
                  (''customStyle'', JObj [(''borderRadius'', JStr ''0.5rem''), (''padding'', JStr ''1.25rem''),
                                          (''margin'', JStr ''0'')])]
                 [Txt src]
              # fn)])))"

text \<open>The \<open>types\<close> entries (lines 72--96).\<close>

definition render_image :: "json \<Rightarrow> node result" where
  "render_image value =
     MemoizedImage (opt_prop (get_prop value ''asset'') ''url'') (get_prop value ''alt'') 800 500
       (Some (JStr ''rounded-lg shadow-md mx-auto'')) (get_prop value ''caption'')"

definition render_code :: "json \<Rightarrow> node result" where
  "render_code value = CodeBlock (get_prop value ''language'') (get_prop value ''code'') (get_prop value ''filename'')"

definition callout_border :: "json \<Rightarrow> string" where
  "callout_border value =
     (if get_prop value ''tone'' = Some (JStr ''warning'') then ''border-yellow-500'' else ''border-blue-500'')"

definition render_callout :: "json \<Rightarrow> node result" where
  "render_callout value =
     bind_res (opt_child (get_prop value ''title'')) (\<lambda>title.
     bind_res (opt_child (get_prop value ''text'')) (\<lambda>text.
       Inr (El ''div'' [(''className'', JStr (''p-4 my-6 border-l-4 bg-gray-50 rounded-r-lg '' @ callout_border value))]
              [El ''div'' [(''className'', JStr ''font-semibold'')] title, El ''div'' [] text])))"

definition pt_types :: "string \<Rightarrow> (json \<Rightarrow> node result) option" where
  "pt_types t =
     (if t = ''image'' then Some render_image
      else if t = ''code'' then Some render_code
      else if t = ''callout'' then Some render_callout
      else None)"

text \<open>The \<open>block\<close> entries (lines 97--110): one wrapper per style.\<close>

definition styled :: "string \<Rightarrow> string \<Rightarrow> node list \<Rightarrow> node" where
  "styled tag cls cs = El tag [(''className'', JStr cls)] cs"

definition pt_block_style :: "string \<Rightarrow> (node list \<Rightarrow> node) option" where
  "pt_block_style s =
     (if s = ''h1'' then Some (styled ''h1'' ''text-4xl font-bold my-6 text-gray-800'')
      else if s = ''h2'' then Some (styled ''h2'' ''text-3xl font-semibold my-5 text-gray-800'')
      else if s = ''h3'' then Some (styled ''h3'' ''text-2xl font-semibold my-4 text-gray-800'')
      else if s = ''h4'' then Some (styled ''h4'' ''text-xl font-semibold my-3 text-gray-800'')
      else if s = ''h5'' then Some (styled ''h5'' ''text-lg font-semibold my-3 text-gray-800'')
      else if s = ''h6'' then Some (styled ''h6'' ''text-base font-semibold my-3 text-gray-800'')
      else if s = ''normal'' then Some (styled ''p'' ''text-lg leading-relaxed my-4 text-gray-700'')
      else if s = ''blockquote'' then
        Some (styled ''blockquote'' ''border-l-4 border-blue-500 pl-6 py-1 my-6 italic bg-blue-50 rounded-r-lg text-gray-700'')
      else None)"

text \<open>The \<open>list\<close> and \<open>listItem\<close> entries (lines 111--118).\<close>

definition pt_list :: "string \<Rightarrow> (node list \<Rightarrow> node) option" where
  "pt_list k =
     (if k = ''bullet'' then Some (styled ''ul'' ''list-disc pl-6 my-6 space-y-2'')
      else if k = ''number'' then Some (styled ''ol'' ''list-decimal pl-6 my-6 space-y-2'')
      else None)"

definition pt_list_item :: "string \<Rightarrow> (node list \<Rightarrow> node) option" where
  "pt_list_item k =
     (if k = ''bullet'' \<or> k = ''number'' then Some (styled ''li'' ''text-gray-700'') else None)"

text \<open>
  The \<open>marks\<close> entries (lines 119--137). A link reads \<open>value.href.startsWith('/')\<close>:
  a relative target stays in the tab, any other opens a new tab with
  \<open>rel="noopener noreferrer"\<close>; without a string \<open>href\<close> the call throws.
\<close>

definition link_mark :: "json option \<Rightarrow> node list \<Rightarrow> node result" where
  "link_mark value cs =
     (case opt_prop value ''href'' of
        Some (JStr h) \<Rightarrow>
          Inr (El ''a'' ([(''href'', JStr h),
                          (''className'', JStr ''text-blue-600 hover:text-blue-800 hover:underline transition-colors duration-200'')]
                         @ (if starts_with h ''/'' then []
                            else [(''target'', JStr ''_blank''), (''rel'', JStr ''noopener noreferrer'')])) cs)
      | _ \<Rightarrow> Inl (TypeError ''value.href.startsWith''))"

definition pt_mark :: "string \<Rightarrow> (json option \<Rightarrow> node list \<Rightarrow> node result) option" where
  "pt_mark m =
     (if m = ''strong'' then Some (\<lambda>_ cs. Inr (styled ''strong'' ''font-bold text-gray-900'' cs))
      else if m = ''em'' then Some (\<lambda>_ cs. Inr (styled ''em'' ''italic text-gray-800'' cs))
      else if m = ''code'' then
        Some (\<lambda>_ cs. Inr (styled ''code'' ''px-1.5 py-0.5 bg-gray-100 rounded text-sm font-mono text-gray-800'' cs))
      else if m = ''link'' then Some link_mark
      else None)"

section \<open>The renderer's fallbacks\<close>

text \<open>
  What \<open>@portabletext/react\<close> renders for a kind the table lacks: a hidden
  element carrying a warning for an unknown object type, a plain paragraph for
  an unknown style, a plain list or item for an unknown list kind, and a span
  with a marker class for an unknown mark.
\<close>

definition hidden_style :: json where
  "hidden_style = JObj [(''display'', JStr ''none'')]"

definition unknown_type :: "string \<Rightarrow> node" where
  "unknown_type t =
     El ''div'' [(''style'', hidden_style)]
       [Txt (''Unknown block type \"'' @ t @ ''\", specify a component for it in the `components.types` prop'')]"

definition unknown_block_style :: "node list \<Rightarrow> node" where
  "unknown_block_style cs = El ''p'' [] cs"

definition unknown_list :: "node list \<Rightarrow> node" where
  "unknown_list cs = El ''ul'' [] cs"

definition unknown_list_item :: "node list \<Rightarrow> node" where
  "unknown_list_item cs = El ''li'' [] cs"

definition unknown_mark :: "string \<Rightarrow> node list \<Rightarrow> node" where
  "unknown_mark m cs = El ''span'' [(''className'', JStr (''unknown__pt__mark__'' @ m))] cs"

section \<open>Rendering a document\<close>

text \<open>
  A mark name resolves to the mark definition with that \<open>_key\<close>, whose
  \<open>_type\<close> selects the component and which is passed as \<open>value\<close>; a name with
  no definition is a decorator and gets no value.
\<close>

definition resolve_mark :: "json list \<Rightarrow> string \<Rightarrow> string \<times> json option" where
  "resolve_mark defs m =
     (case find (\<lambda>d. get_prop d ''_key'' = Some (JStr m)) defs of
        Some d \<Rightarrow> (js_to_string (get_prop d ''_type''), Some d)
      | None \<Rightarrow> (m, None))"

definition render_mark :: "json list \<Rightarrow> string \<Rightarrow> node list \<Rightarrow> node result" where
  "render_mark defs m cs =
     (case resolve_mark defs m of
        (ty, value) \<Rightarrow>
          (case pt_mark ty of Some f \<Rightarrow> f value cs | None \<Rightarrow> Inr (unknown_mark ty cs)))"

text \<open>The marks of a span wrap its text, the first mark outermost.\<close>

fun wrap_marks :: "json list \<Rightarrow> string list \<Rightarrow> node list \<Rightarrow> node list result" where
  "wrap_marks defs [] cs = Inr cs"
| "wrap_marks defs (m # ms) cs =
     bind_res (wrap_marks defs ms cs) (\<lambda>inner. bind_res (render_mark defs m inner) (\<lambda>n. Inr [n]))"

definition render_span :: "json list \<Rightarrow> pt_span \<Rightarrow> node list result" where
  "render_span defs sp = wrap_marks defs (span_marks sp) [Txt (span_text sp)]"

definition render_spans :: "json list \<Rightarrow> pt_span list \<Rightarrow> node list result" where
  "render_spans defs sps = bind_res (map_res (render_span defs) sps) (\<lambda>css. Inr (concat css))"

definition block_style_name :: "string option \<Rightarrow> string" where
  "block_style_name s = (case s of None \<Rightarrow> ''normal'' | Some x \<Rightarrow> x)"

definition apply_block_style :: "string \<Rightarrow> node list \<Rightarrow> node" where
  "apply_block_style s cs = (case pt_block_style s of Some f \<Rightarrow> f cs | None \<Rightarrow> unknown_block_style cs)"

text \<open>An embedded object dispatches on its \<open>_type\<close>.\<close>

definition render_object :: "json \<Rightarrow> node result" where
  "render_object value =
     (let t = js_to_string (get_prop value ''_type'') in
      case pt_types t of Some f \<Rightarrow> f value | None \<Rightarrow> Inr (unknown_type t))"

text \<open>
  A block outside a list is its spans wrapped in its style's component. In a
  list item, a style other than \<open>normal\<close> wraps the spans inside the item.
\<close>

fun render_block :: "pt_node \<Rightarrow> node result" where
  "render_block (Block st _ sps defs) =
     bind_res (render_spans defs sps) (\<lambda>cs. Inr (apply_block_style (block_style_name st) cs))"
| "render_block (Obj v) = render_object v"

fun render_list_item :: "string \<Rightarrow> pt_node \<Rightarrow> node result" where
  "render_list_item k (Block st li sps defs) =
     bind_res (render_spans defs sps) (\<lambda>cs.
       (let inner = (if block_style_name st = ''normal'' then cs
                     else [apply_block_style (block_style_name st) cs]) in
        Inr (case pt_list_item k of Some f \<Rightarrow> f inner | None \<Rightarrow> unknown_list_item inner)))"
| "render_list_item k (Obj v) = render_object v"

definition render_list :: "string \<Rightarrow> node list \<Rightarrow> node" where
  "render_list k items = (case pt_list k of Some f \<Rightarrow> f items | None \<Rightarrow> unknown_list items)"

fun list_kind :: "pt_node \<Rightarrow> string option" where
  "list_kind (Block _ li _ _) = li"
| "list_kind (Obj _) = None"

text \<open>
  The document: consecutive blocks of the same list-item kind are grouped into
  one list element, every other node is rendered on its own.
\<close>

function (domintros) render_doc :: "pt_node list \<Rightarrow> node list result" where
  "render_doc [] = Inr []"
| "render_doc (n # ns) =
     (case list_kind n of
        None \<Rightarrow> bind_res (render_block n) (\<lambda>x. bind_res (render_doc ns) (\<lambda>xs. Inr (x # xs)))
      | Some k \<Rightarrow>
          bind_res (map_res (render_list_item k) (n # takeWhile (\<lambda>m. list_kind m = Some k) ns)) (\<lambda>items.
          bind_res (render_doc (dropWhile (\<lambda>m. list_kind m = Some k) ns)) (\<lambda>xs.
            Inr (render_list k items # xs))))"
  by pat_completeness auto
termination
  by (relation "measure length") (auto simp: le_imp_less_Suc length_dropWhile_le)

section \<open>Documents as the content store sends them\<close>

text \<open>
  \<open>@portabletext/react\<close> reads a body given as JSON: an array of nodes (or
  a single node). A node is read as a block when it has the shape the
  toolkit's \<open>isPortableTextBlock\<close> checks: a string \<open>_type\<close> not starting with
  \<open>@\<close>, \<open>markDefs\<close> absent, falsy or an array of definitions with a string
  \<open>_key\<close>, and a \<open>children\<close> array whose elements are objects with a
  \<open>_type\<close>. The checks run left to right and stop at the first that fails;
  reading a property of a \<open>null\<close> element throws. A block with a string
  \<open>listItem\<close> (and a numeric or absent \<open>level\<close>) is a list item; any other
  block whose \<open>_type\<close> has a component in the table goes to that component,
  as does every node that is not a block. A block's \<open>style\<close>, \<open>listItem\<close>,
  spans (with \<open>text\<close> and \<open>marks\<close>) and \<open>markDefs\<close> are read from it; inline
  objects among its children are read as empty spans. Reading the top-level
  value \<open>null\<close> throws.
\<close>

definition json_string :: "json option \<Rightarrow> string option" where
  "json_string v = (case v of Some (JStr s) \<Rightarrow> Some s | _ \<Rightarrow> None)"

definition json_items :: "json option \<Rightarrow> json list" where
  "json_items v = (case v of Some (JArr xs) \<Rightarrow> xs | _ \<Rightarrow> [])"

text \<open>\<open>xs.every(p)\<close> for a test that throws on \<open>null\<close> and otherwise reads an object.\<close>

fun every_obj :: "(json \<Rightarrow> bool) \<Rightarrow> json list \<Rightarrow> bool result" where
  "every_obj p [] = Inr True"
| "every_obj p (x # xs) = (if x = JNull then Inl (TypeError ''in'') else if p x then every_obj p xs else Inr False)"

definition is_pt_block :: "json \<Rightarrow> bool result" where
  "is_pt_block v =
     (if v = JNull then Inl (TypeError ''node._type'')
      else if \<not> (case get_prop v ''_type'' of Some (JStr t) \<Rightarrow> take 1 t \<noteq> ''@'' | _ \<Rightarrow> False) then Inr False
      else bind_res (case get_prop v ''markDefs'' of
                       Some (JArr ds) \<Rightarrow> every_obj (\<lambda>d. is_str (get_prop d ''_key'')) ds
                     | Some d \<Rightarrow> Inr (\<not> truthy d)
                     | None \<Rightarrow> Inr True)
             (\<lambda>m. if \<not> m then Inr False
                  else case get_prop v ''children'' of
                         Some (JArr cs) \<Rightarrow> every_obj (\<lambda>c. case c of JObj _ \<Rightarrow> get_prop c ''_type'' \<noteq> None | _ \<Rightarrow> False) cs
                       | _ \<Rightarrow> Inr False))"

definition is_list_item :: "json \<Rightarrow> bool" where
  "is_list_item v \<longleftrightarrow>
     is_str (get_prop v ''listItem'') \<and> (case get_prop v ''level'' of None \<Rightarrow> True | Some (JNum _) \<Rightarrow> True | _ \<Rightarrow> False)"

definition span_of_json :: "json \<Rightarrow> pt_span" where
  "span_of_json c =
     Span (case json_string (get_prop c ''text'') of Some t \<Rightarrow> t | None \<Rightarrow> [])
          (concat (map (\<lambda>m. case m of JStr s \<Rightarrow> [s] | _ \<Rightarrow> []) (json_items (get_prop c ''marks''))))"

definition pt_of_json :: "json \<Rightarrow> pt_node result" where
  "pt_of_json v =
     bind_res (is_pt_block v) (\<lambda>blk.
       if blk \<and> (is_list_item v \<or> pt_types (js_to_string (get_prop v ''_type'')) = None)
       then Inr (Block (json_string (get_prop v ''style''))
                       (if is_list_item v then json_string (get_prop v ''listItem'') else None)
                       (map span_of_json (json_items (get_prop v ''children''))) (json_items (get_prop v ''markDefs'')))
       else Inr (Obj v))"

definition body_nodes :: "json \<Rightarrow> pt_node list result" where
  "body_nodes v = (case v of JArr xs \<Rightarrow> map_res pt_of_json xs | _ \<Rightarrow> map_res pt_of_json [v])"

section \<open>Specification and proof vocabulary\<close>

text \<open>
  The spec's table for block styles (section 4.5): each heading level and the
  block quote keep their tag, everything else is a paragraph.
\<close>

definition spec_block_tag :: "string \<Rightarrow> string" where
  "spec_block_tag s = (if s \<in> set [''h1'', ''h2'', ''h3'', ''h4'', ''h5'', ''h6'', ''blockquote''] then s else ''p'')"

text \<open>
  The exceptions the renderer can raise: a link whose \<open>href\<close> is not a string,
  a text field that is a plain object, and a code the highlighter cannot split. \<open>good_res P r\<close> says a result is
  either one of them or a value satisfying \<open>P\<close>.
\<close>

definition render_error :: "js_error \<Rightarrow> bool" where
  "render_error e \<longleftrightarrow>
     e = TypeError ''value.href.startsWith'' \<or> e = ObjectAsReactChild \<or> e = TypeError ''code.split''"

definition good_res :: "('a \<Rightarrow> bool) \<Rightarrow> 'a result \<Rightarrow> bool" where
  "good_res P r = (case r of Inl e \<Rightarrow> render_error e | Inr x \<Rightarrow> P x)"

text \<open>A sample document with one external link.\<close>

definition ext_link_doc :: "pt_node list" where
  "ext_link_doc = [Block None None [Span ''docs'' [''k'']]
                      [JObj [(''_key'', JStr ''k''), (''_type'', JStr ''link''), (''href'', JStr ''https://example.org'')]]]"

text \<open>
  When rendering succeeds, read off the document: a child expression holds no
  plain object (\<open>child_ok\<close>), each embedded object's text fields are such
  expressions and a code object's code is one the highlighter reads
  (\<open>object_ok\<close>), and every mark that resolves to a link has a
  string \<open>href\<close> (\<open>mark_ok\<close>).
\<close>

fun child_ok :: "json \<Rightarrow> bool"
  and children_ok :: "json list \<Rightarrow> bool" where
  "child_ok (JArr vs) = children_ok vs"
| "child_ok (JObj _) = False"
| "child_ok _ = True"
| "children_ok [] = True"
| "children_ok (v # vs) = (child_ok v \<and> children_ok vs)"

definition opt_child_ok :: "json option \<Rightarrow> bool" where
  "opt_child_ok v = (case v of None \<Rightarrow> True | Some x \<Rightarrow> child_ok x)"

text \<open>A code field the highlighter accepts: after taking an array's first element, a string or falsy.\<close>

definition code_ok :: "json option \<Rightarrow> bool" where
  "code_ok c =
     (case c of
        None \<Rightarrow> True
      | Some (JArr vs) \<Rightarrow> (case vs of [] \<Rightarrow> True | v # _ \<Rightarrow> is_str (Some v) \<or> \<not> truthy v)
      | Some v \<Rightarrow> is_str (Some v) \<or> \<not> truthy v)"

definition object_ok :: "json \<Rightarrow> bool" where
  "object_ok v =
     (let t = js_to_string (get_prop v ''_type'') in
      if t = ''image'' then opt_child_ok (get_prop v ''caption'')
      else if t = ''code'' then code_ok (get_prop v ''code'') \<and> opt_child_ok (get_prop v ''filename'')
      else if t = ''callout'' then opt_child_ok (get_prop v ''title'') \<and> opt_child_ok (get_prop v ''text'')
      else True)"

definition mark_ok :: "json list \<Rightarrow> string \<Rightarrow> bool" where
  "mark_ok defs m =
     (case resolve_mark defs m of
        (ty, value) \<Rightarrow> ty \<noteq> ''link'' \<or> json_string (opt_prop value ''href'') \<noteq> None)"

fun node_ok :: "pt_node \<Rightarrow> bool" where
  "node_ok (Block _ _ sps defs) = list_all (\<lambda>sp. list_all (mark_ok defs) (span_marks sp)) sps"
| "node_ok (Obj v) = object_ok v"

section \<open>Lemmas\<close>

lemma good_res_Inr [simp]: "good_res P (Inr x) = P x"
  by (simp add: good_res_def)

lemma good_res_Inl [simp]: "good_res P (Inl e) = render_error e"
  by (simp add: good_res_def)

lemma good_bind [render_good]:
  "good_res P r \<Longrightarrow> (\<And>x. r = Inr x \<Longrightarrow> P x \<Longrightarrow> good_res Q (f x)) \<Longrightarrow> good_res Q (bind_res r f)"
  by (cases r) auto

lemma good_map_res [render_good]:
  "(\<And>x. x \<in> set xs \<Longrightarrow> good_res P (f x)) \<Longrightarrow> good_res (list_all P) (map_res f xs)"
proof (induction xs)
  case Nil
  then show ?case by simp
next
  case (Cons x xs)
  then show ?case by (fastforce intro!: good_bind)
qed

lemma json_child_good [render_good]:
  "good_res (list_all safe_links) (json_child v)"
  "good_res (list_all safe_links) (json_children vs)"
proof (induction v and vs rule: json_child_json_children.induct)
  case (8 v vs)
  then show ?case by (auto intro!: good_bind)
qed (simp_all add: render_error_def)

lemma opt_child_good [render_good]: "good_res (list_all safe_links) (opt_child v)"
  by (cases v) (simp_all add: json_child_good)

lemma jsx_and_good [render_good]:
  "good_res safe_links e \<Longrightarrow> good_res (list_all safe_links) (jsx_and v e)"
  by (auto simp: jsx_and_def opt_child_good intro!: good_bind)

lemma styled_safe [simp]: "safe_links (styled t c cs) = list_all safe_links cs"
  by (simp add: styled_def)

lemma MemoizedImage_good [render_good]: "good_res safe_links (MemoizedImage src alt w h cls cap)"
  unfolding MemoizedImage_def
  by (rule good_bind render_good)+ (simp_all add: map_of_props_None)

lemma highlighter_code_good [render_good]: "good_res (\<lambda>_. True) (highlighter_code c)"
  by (auto simp: highlighter_code_def render_error_def Let_def split: json.split)

lemma CodeBlock_good [render_good]: "good_res safe_links (CodeBlock lang code fname)"
  unfolding CodeBlock_def
  by (rule good_bind render_good)+ simp_all

lemma render_callout_good [render_good]: "good_res safe_links (render_callout v)"
  unfolding render_callout_def
  by (rule good_bind render_good)+ simp_all

lemma render_object_good [render_good]: "good_res safe_links (render_object v)"
  by (auto simp: render_object_def pt_types_def render_image_def render_code_def unknown_type_def
           hidden_style_def Let_def intro: render_good)

lemma link_mark_good [render_good]:
  "list_all safe_links cs \<Longrightarrow> good_res safe_links (link_mark v cs)"
  by (auto simp: link_mark_def render_error_def split: option.split json.split)

lemma render_mark_good [render_good]:
  "list_all safe_links cs \<Longrightarrow> good_res safe_links (render_mark defs m cs)"
  by (auto simp: render_mark_def pt_mark_def unknown_mark_def intro: link_mark_good split: prod.split)

lemma wrap_marks_good [render_good]:
  "list_all safe_links cs \<Longrightarrow> good_res (list_all safe_links) (wrap_marks defs ms cs)"
  by (induction ms) (auto intro!: good_bind render_mark_good)

lemma render_spans_good [render_good]: "good_res (list_all safe_links) (render_spans defs sps)"
  unfolding render_spans_def render_span_def
proof (rule good_bind)
  show "good_res (list_all (list_all safe_links))
          (map_res (\<lambda>sp. wrap_marks defs (span_marks sp) [Txt (span_text sp)]) sps)"
    by (rule good_map_res, rule wrap_marks_good) simp
next
  fix css :: "node list list"
  assume "list_all (list_all safe_links) css"
  then show "good_res (list_all safe_links) (Inr (concat css))"
    by (simp add: list_all_iff)
qed

lemma apply_block_style_safe [simp]: "safe_links (apply_block_style s cs) = list_all safe_links cs"
  by (simp add: apply_block_style_def pt_block_style_def unknown_block_style_def)

lemma render_block_good [render_good]: "good_res safe_links (render_block n)"
  by (cases n) (auto intro!: good_bind render_good)

lemma render_list_item_good [render_good]: "good_res safe_links (render_list_item k n)"
  by (cases n) (auto simp: pt_list_item_def unknown_list_item_def Let_def intro!: good_bind render_good)

lemma render_list_safe [simp]: "safe_links (render_list k items) = list_all safe_links items"
  by (simp add: render_list_def pt_list_def unknown_list_def)

lemma render_doc_good: "good_res (list_all safe_links) (render_doc doc)"
proof (induction doc rule: render_doc.induct)
  case 1
  then show ?case by simp
next
  case (2 n ns)
  show ?case
  proof (cases "list_kind n")
    case None
    with "2.IH"(1) show ?thesis by (auto intro!: good_bind render_block_good)
  next
    case (Some k)
    let ?P = "\<lambda>m. list_kind m = Some k"
    have items: "good_res (list_all safe_links) (map_res (render_list_item k) (n # takeWhile ?P ns))"
      by (rule good_map_res, rule render_list_item_good)
    from Some have rest: "good_res (list_all safe_links) (render_doc (dropWhile ?P ns))"
      by (rule "2.IH"(2))
    from Some show ?thesis
      by (simp del: map_res.simps) (rule good_bind [OF items], rule good_bind [OF rest], simp)
  qed
qed

subsection \<open>When rendering succeeds\<close>

lemma json_child_ok: "\<not> isl (json_child v) \<longleftrightarrow> child_ok v" "\<not> isl (json_children vs) \<longleftrightarrow> children_ok vs"
  by (induction v and vs rule: json_child_json_children.induct) (auto simp: isl_bind_res)

lemma opt_child_ok: "\<not> isl (opt_child v) \<longleftrightarrow> opt_child_ok v"
  by (cases v) (simp_all add: opt_child_ok_def json_child_ok)

lemma falsy_child_ok: "\<not> truthy_opt v \<Longrightarrow> opt_child_ok v"
proof (cases v)
  case (Some x)
  moreover assume "\<not> truthy_opt v"
  ultimately show ?thesis by (cases x) (simp_all add: opt_child_ok_def)
qed (simp add: opt_child_ok_def)

lemma jsx_and_child_ok:
  "\<not> isl (jsx_and v (bind_res (opt_child v) (\<lambda>cs. Inr (El t ps cs)))) \<longleftrightarrow> opt_child_ok v"
  by (cases "truthy_opt v") (auto simp: isl_bind_res opt_child_ok [symmetric] falsy_child_ok)

lemma highlighter_code_ok: "\<not> isl (highlighter_code c) \<longleftrightarrow> code_ok c"
  by (auto simp: highlighter_code_def code_ok_def js_or_def truthy_opt_def is_str_def Let_def
      split: option.split json.split list.split)

lemma render_object_ok: "\<not> isl (render_object v) \<longleftrightarrow> object_ok v"
  by (simp add: render_object_def object_ok_def Let_def pt_types_def render_image_def MemoizedImage_def
      render_code_def CodeBlock_def render_callout_def isl_bind_res jsx_and_child_ok opt_child_ok [symmetric]
      highlighter_code_ok)

lemma render_mark_ok: "\<not> isl (render_mark defs m cs) \<longleftrightarrow> mark_ok defs m"
  by (auto simp: render_mark_def mark_ok_def pt_mark_def link_mark_def json_string_def
      split: prod.split option.split json.split)

lemma wrap_marks_ok: "\<not> isl (wrap_marks defs ms cs) \<longleftrightarrow> list_all (mark_ok defs) ms"
  by (induction ms) (auto simp: isl_bind_res render_mark_ok)

lemma render_spans_ok:
  "\<not> isl (render_spans defs sps) \<longleftrightarrow> list_all (\<lambda>sp. list_all (mark_ok defs) (span_marks sp)) sps"
  by (simp add: render_spans_def render_span_def isl_bind_res isl_map_res wrap_marks_ok)

lemma render_block_ok: "\<not> isl (render_block n) \<longleftrightarrow> node_ok n"
  by (cases n) (auto simp: isl_bind_res render_spans_ok render_object_ok)

lemma render_list_item_ok: "\<not> isl (render_list_item k n) \<longleftrightarrow> node_ok n"
  by (cases n) (auto simp: isl_bind_res render_spans_ok render_object_ok Let_def)

text \<open>
  The two components never throw on props of their declared types; the
  exceptions of C12 come from the untyped \<open>value\<close> the table passes them.
\<close>

lemma MemoizedImage_typed:
  "is_MemoizedImageProps src alt className caption \<Longrightarrow> \<not> isl (MemoizedImage src alt w h className caption)"
  by (auto simp: is_MemoizedImageProps_def opt_str_def MemoizedImage_def jsx_and_def isl_bind_res
      split: option.splits json.splits)

lemma CodeBlock_typed:
  "is_CodeBlockProps language code filename \<Longrightarrow> \<not> isl (CodeBlock language code filename)"
  by (auto simp: is_CodeBlockProps_def opt_str_def is_str_def CodeBlock_def jsx_and_def isl_bind_res
      highlighter_code_def js_or_def truthy_opt_def split: option.splits json.splits)

section \<open>Properties\<close>

text \<open>
  C11. In every document that renders, every element that opens a new tab also carries rel="noopener noreferrer", at any depth.
\<close>

theorem render_doc_links_safe:
  assumes "render_doc doc = Inr ns"
  shows "list_all safe_links ns"
  using render_doc_good [of doc] assms by simp

theorem render_doc_links_safe_witness:
  "\<exists>ns. render_doc ext_link_doc = Inr ns \<and> list_all safe_links ns"
proof -
  have "\<not> isl (render_doc ext_link_doc)" unfolding ext_link_doc_def by code_simp
  then obtain ns where r: "render_doc ext_link_doc = Inr ns" by (cases "render_doc ext_link_doc") auto
  with render_doc_links_safe [OF r] show ?thesis by blast
qed

text \<open>
  C12. Rendering a document fails only in three ways: a link annotation whose
  href is not a string (value.href.startsWith throws), a text field that is a
  plain object (React refuses it as a child), or a code block whose code is
  neither a string nor falsy (the highlighter splits it with a string method).
\<close>

theorem render_doc_errors:
  assumes "render_doc doc = Inl e"
  shows "e = TypeError ''value.href.startsWith'' \<or> e = ObjectAsReactChild \<or> e = TypeError ''code.split''"
  using render_doc_good [of doc] assms by (simp add: render_error_def)

theorem render_doc_errors_witness:
  "render_doc [Block None None [Span ''x'' [''k'']] [JObj [(''_key'', JStr ''k''), (''_type'', JStr ''link'')]]]
     = Inl (TypeError ''value.href.startsWith'')"
proof -
  have r: "render_doc [Block None None [Span ''x'' [''k'']] [JObj [(''_key'', JStr ''k''), (''_type'', JStr ''link'')]]]
     = Inl (TypeError ''value.href.startsWith'')" by code_simp
  from render_doc_errors [OF r] r show ?thesis by simp
qed

text \<open>
  C13. A link with a string href renders as an anchor to that href that opens a new tab, with rel="noopener noreferrer", exactly when the href does not start with a slash.
\<close>

theorem link_mark_new_tab:
  assumes "get_prop d ''href'' = Some (JStr h)"
  shows "\<exists>ps. link_mark (Some d) cs = Inr (El ''a'' ps cs) \<and> map_of ps ''href'' = Some (JStr h) \<and>
           (map_of ps ''target'' = Some (JStr ''_blank'') \<longleftrightarrow> \<not> starts_with h ''/'') \<and>
           (map_of ps ''rel'' = Some (JStr ''noopener noreferrer'') \<longleftrightarrow> \<not> starts_with h ''/'')"
  using assms by (simp add: link_mark_def)

theorem link_mark_new_tab_witness:
  "\<exists>ps. link_mark (Some (JObj [(''href'', JStr ''https://x.org'')])) [] = Inr (El ''a'' ps []) \<and>
      map_of ps ''target'' = Some (JStr ''_blank'')"
  using link_mark_new_tab [of "JObj [(''href'', JStr ''https://x.org'')]" "''https://x.org''" "[]"] by auto

text \<open>
  A protocol-relative href such as //evil.example/x starts with a slash and is therefore treated as internal: it renders with neither target nor rel.
\<close>

theorem link_protocol_relative:
  "\<exists>ps. link_mark (Some (JObj [(''href'', JStr ''//evil.example/x'')])) cs = Inr (El ''a'' ps cs) \<and>
        map_of ps ''target'' = None \<and> map_of ps ''rel'' = None"
  by (simp add: link_mark_def)

text \<open>
  C14. The block-style table refines the spec's table: headings h1 to h6 and blockquote keep their tag, normal and every unknown style become a paragraph, and the block's content is kept as the element's children.
\<close>

theorem apply_block_style_refines:
  "tag_of (apply_block_style s cs) = spec_block_tag s \<and> children_of (apply_block_style s cs) = cs"
  by (simp add: apply_block_style_def pt_block_style_def spec_block_tag_def styled_def unknown_block_style_def)

text \<open>
  A run of list-item blocks of one kind renders as a single list element (ol for number, ul otherwise) with one item per block.
\<close>

theorem render_doc_list_group:
  assumes "bs \<noteq> []" and "list_all (\<lambda>b. list_kind b = Some k) bs" and "render_doc bs = Inr ns"
  shows "\<exists>n. ns = [n] \<and> length (children_of n) = length bs \<and>
             tag_of n = (if k = ''number'' then ''ol'' else ''ul'')"
proof -
  from assms(1) obtain b bs' where bs: "bs = b # bs'" by (cases bs) auto
  with assms(2) have kb: "list_kind b = Some k" and all: "\<forall>m\<in>set bs'. list_kind m = Some k"
    by (simp_all add: list_all_iff)
  then have tw: "takeWhile (\<lambda>m. list_kind m = Some k) bs' = bs'"
    and dw: "dropWhile (\<lambda>m. list_kind m = Some k) bs' = []"
    by (simp_all add: takeWhile_eq_all_conv dropWhile_eq_Nil_conv)
  from assms(3) bs kb tw dw obtain items where
    items: "map_res (render_list_item k) bs = Inr items" and ns: "ns = [render_list k items]"
    by (auto simp del: map_res.simps)
  from items have "length items = length bs" by (rule map_res_length)
  with ns show ?thesis
    by (simp add: render_list_def pt_list_def unknown_list_def styled_def)
qed

theorem render_doc_list_group_witness:
  "\<exists>n. render_doc [Block None (Some ''number'') [Span ''a'' []] [], Block None (Some ''number'') [Span ''b'' []] []] = Inr [n]
       \<and> length (children_of n) = 2 \<and> tag_of n = ''ol''"
proof -
  let ?bs = "[Block None (Some ''number'') [Span ''a'' []] [], Block None (Some ''number'') [Span ''b'' []] []]"
  have "\<not> isl (render_doc ?bs)" by code_simp
  then obtain ns where ns: "render_doc ?bs = Inr ns" by (cases "render_doc ?bs") auto
  have "\<exists>n. ns = [n] \<and> length (children_of n) = length ?bs \<and>
            tag_of n = (if ''number'' = ''number'' then ''ol'' else ''ul'')"
    by (rule render_doc_list_group [OF _ _ ns]) simp_all
  with ns show ?thesis by (simp del: render_doc.simps add: numeral_2_eq_2)
qed

text \<open>
  An image object whose asset carries no \<open>url\<close> (absent, or an unresolved
  reference holding only \<open>_ref\<close>) and no caption is still rendered, as a figure
  holding an Image whose src is the empty string.
\<close>

theorem render_image_no_asset:
  assumes "opt_prop (get_prop v ''asset'') ''url'' = None" and "get_prop v ''caption'' = None"
  shows "\<exists>ps. render_image v = Inr (El ''figure'' [(''className'', JStr ''my-8'')] [El ''Image'' ps []]) \<and>
             map_of ps ''src'' = Some (JStr [])"
  using assms by (simp add: render_image_def MemoizedImage_def)

theorem render_image_no_asset_witness:
  "\<exists>ps. render_image (JObj [(''_type'', JStr ''image''), (''asset'', JObj [(''_ref'', JStr ''image-a1-800x600-png'')])])
          = Inr (El ''figure'' [(''className'', JStr ''my-8'')] [El ''Image'' ps []]) \<and>
        map_of ps ''src'' = Some (JStr [])"
  by (rule render_image_no_asset) simp_all

text \<open>
  A code object without a truthy language is highlighted as typescript.
\<close>

theorem render_code_default_language:
  assumes "\<not> truthy_opt (get_prop v ''language'')" and "render_code v = Inr n"
  shows "\<exists>cls ps cs rest. n = El ''Suspense'' [] [El ''div'' cls (El ''SyntaxHighlighterPrism'' ps cs # rest)] \<and>
           map_of ps ''language'' = Some (JStr ''typescript'')"
  using assms by (auto simp: render_code_def CodeBlock_def)

theorem render_code_default_language_witness:
  "\<exists>cls ps cs rest. render_code (JObj [(''code'', JStr ''x'')]) =
      Inr (El ''Suspense'' [] [El ''div'' cls (El ''SyntaxHighlighterPrism'' ps cs # rest)]) \<and>
      map_of ps ''language'' = Some (JStr ''typescript'')"
proof -
  have "\<not> isl (render_code (JObj [(''code'', JStr ''x'')]))" by code_simp
  then obtain n where n: "render_code (JObj [(''code'', JStr ''x'')]) = Inr n"
    by (cases "render_code (JObj [(''code'', JStr ''x'')])") auto
  from render_code_default_language [OF _ n] n show ?thesis by auto
qed

text \<open>
  C34. Rendering a document succeeds exactly when every link mark of its
  blocks has a string href (a mark named link with no definition has none), no
  text field of an image, code or callout object is a plain object, and the
  code of every code object, after taking an array's first element, is a
  string or falsy.
\<close>

theorem render_doc_total: "\<not> isl (render_doc doc) \<longleftrightarrow> list_all node_ok doc"
proof (induction doc rule: render_doc.induct)
  case 1
  then show ?case by simp
next
  case (2 n ns)
  show ?case
  proof (cases "list_kind n")
    case None
    with 2 show ?thesis by (simp add: isl_bind_res render_block_ok)
  next
    case (Some k)
    have "list_all node_ok ns \<longleftrightarrow>
            list_all node_ok (takeWhile (\<lambda>m. list_kind m = Some k) ns) \<and>
            list_all node_ok (dropWhile (\<lambda>m. list_kind m = Some k) ns)"
      by (metis list_all_append takeWhile_dropWhile_id)
    with 2 Some show ?thesis by (auto simp: isl_bind_res isl_map_res render_list_item_ok)
  qed
qed

theorem render_doc_total_witness:
  "list_all node_ok ext_link_doc \<and> \<not> isl (render_doc ext_link_doc) \<and>
   \<not> list_all node_ok [Block None None [Span ''x'' [''link'']] []] \<and>
   isl (render_doc [Block None None [Span ''x'' [''link'']] []]) \<and>
   isl (render_doc [Obj (JObj [(''_type'', JStr ''code''), (''code'', JNum 42)])]) \<and>
   \<not> isl (render_doc [Obj (JObj [(''_type'', JStr ''code''), (''code'', JArr [JStr ''a'', JObj []])])])"
proof -
  have ok: "list_all node_ok ext_link_doc"
    by (simp add: ext_link_doc_def mark_ok_def resolve_mark_def json_string_def opt_prop_def)
  have bad: "\<not> list_all node_ok [Block None None [Span ''x'' [''link'']] []]"
    by (simp add: mark_ok_def resolve_mark_def json_string_def)
  have num: "\<not> list_all node_ok [Obj (JObj [(''_type'', JStr ''code''), (''code'', JNum 42)])]"
    by (simp add: object_ok_def code_ok_def is_str_def js_to_string_def)
  have arr: "list_all node_ok [Obj (JObj [(''_type'', JStr ''code''), (''code'', JArr [JStr ''a'', JObj []])])]"
    by (simp add: object_ok_def code_ok_def is_str_def js_to_string_def opt_child_ok_def)
  from ok bad num arr render_doc_total [of ext_link_doc] render_doc_total [of "[Block None None [Span ''x'' [''link'']] []]"]
    render_doc_total [of "[Obj (JObj [(''_type'', JStr ''code''), (''code'', JNum 42)])]"]
    render_doc_total [of "[Obj (JObj [(''_type'', JStr ''code''), (''code'', JArr [JStr ''a'', JObj []])])]"]
  show ?thesis by blast
qed

text \<open>
  The traversal terminates on every document: each recursive call of
  \<^const>\<open>render_doc\<close> is on a suffix strictly shorter than its argument,
  the rest after one block or after a whole run of list items.
\<close>

lemma render_doc_terminates: "render_doc_dom doc"
proof (induction doc rule: length_induct)
  case (1 doc)
  show ?case
  proof (cases doc)
    case Nil
    then show ?thesis by (auto intro: render_doc.domintros)
  next
    case (Cons n ns)
    have "length (dropWhile P ns) < length doc" for P
      using Cons length_dropWhile_le [of P ns] by simp
    with 1 Cons show ?thesis by (auto intro!: render_doc.domintros)
  qed
qed

end
