(* ===== verification/Content.thy ===== *)
theory Content
  imports Prelude "HOL-Library.Char_ord" "HOL-Library.List_Lexorder" "HOL-Library.Multiset"
begin

text \<open>
  The content fetcher: the three GROQ queries the pages send to the content
  store, evaluated over the store's documents, and the time-bounded cache the
  fetches go through.
  \<^item> \<open>getPosts\<close> (\<open>src/app/blog/page.tsx\<close>, lines 16--22):
    \<open>*[_type == "post" && publishedAt < now()] | order(publishedAt desc)\<close>;
  \<^item> \<open>POST_QUERY\<close> (\<open>src/app/blog/[slug]/page.tsx\<close>, line 17):
    \<open>*[_type == "post" && slug.current == $slug][0]\<close>;
  \<^item> \<open>ALL_POSTS_QUERY\<close> (line 18):
    \<open>*[_type == "post" && defined(slug.current)].slug.current\<close>.
  Documents are JSON objects. \<open>publishedAt\<close> is a string (an ISO date-time)
  and \<open>now()\<close> returns one, so GROQ compares them as strings, by code point;
  strings here are UTF-8 byte lists, whose lexicographic order is the same.
  A comparison with a missing or non-string \<open>publishedAt\<close> is \<open>null\<close>, which
  the filter drops.
\<close>

section \<open>The queries\<close>

definition is_post :: "json \<Rightarrow> bool" where
  "is_post d \<longleftrightarrow> get_prop d ''_type'' = Some (JStr ''post'')"

definition published_at :: "json \<Rightarrow> string option" where
  "published_at d = (case get_prop d ''publishedAt'' of Some (JStr s) \<Rightarrow> Some s | _ \<Rightarrow> None)"

text \<open>\<open>publishedAt < now()\<close>.\<close>

definition published_before :: "string \<Rightarrow> json \<Rightarrow> bool" where
  "published_before now d = (case published_at d of Some s \<Rightarrow> s < now | None \<Rightarrow> False)"

definition pub_key :: "json \<Rightarrow> string" where
  "pub_key d = (case published_at d of Some s \<Rightarrow> s | None \<Rightarrow> [])"

text \<open>
  \<open>order(publishedAt desc)\<close>: an insertion sort, latest first; a document is
  placed before the documents whose date is not later than its own, so equal
  dates keep the store's order. GROQ does not fix the order of equal dates;
  the claims about the listing (sortedness and the multiset of its documents)
  hold for every order of them.
\<close>

fun insort_desc :: "json \<Rightarrow> json list \<Rightarrow> json list" where
  "insort_desc d [] = [d]"
| "insort_desc d (e # es) = (if pub_key e \<le> pub_key d then d # e # es else e # insort_desc d es)"

fun order_desc :: "json list \<Rightarrow> json list" where
  "order_desc [] = []"
| "order_desc (d # ds) = insort_desc d (order_desc ds)"

definition posts_query :: "string \<Rightarrow> json list \<Rightarrow> json list" where
  "posts_query now docs = order_desc (filter (\<lambda>d. is_post d \<and> published_before now d) docs)"

text \<open>\<open>slug.current\<close>, \<open>null\<close> when the document has no slug object.\<close>

definition doc_slug :: "json \<Rightarrow> json option" where
  "doc_slug d = opt_prop (get_prop d ''slug'') ''current''"

text \<open>\<open>[0]\<close> of the filtered documents: the first match, or \<open>null\<close>.\<close>

definition post_query :: "string \<Rightarrow> json list \<Rightarrow> json option" where
  "post_query slug docs = find (\<lambda>d. is_post d \<and> doc_slug d = Some (JStr slug)) docs"

definition groq_defined :: "json option \<Rightarrow> bool" where
  "groq_defined v = (case v of None \<Rightarrow> False | Some JNull \<Rightarrow> False | Some _ \<Rightarrow> True)"

definition all_posts_query :: "json list \<Rightarrow> json list" where
  "all_posts_query docs = map (\<lambda>d. the (doc_slug d)) (filter (\<lambda>d. is_post d \<and> groq_defined (doc_slug d)) docs)"

section \<open>The fetch cache\<close>

text \<open>
  Each fetch passes \<open>{ next: { revalidate: 60 } }\<close>: a result is kept, keyed by
  query and parameters, and served again while it is younger than 60 seconds;
  an older or missing entry is fetched anew from the store. This is the
  framework's data cache, modelled from the spec (section 4.4 and design note
  9: a keyed store with timestamped entries and expiry on read). The store is
  a function of the time, so that content can change; \<open>calls\<close> counts the
  round trips, the probe of the spec's property 8.7. Times are in seconds.
\<close>

definition revalidate_window :: int where
  "revalidate_window = 60"

record ('k, 'v) fetch_cache =
  entries :: "'k \<Rightarrow> ('v \<times> int) option"
  calls :: nat

definition empty_cache :: "('k, 'v) fetch_cache" where
  "empty_cache = \<lparr>entries = Map.empty, calls = 0\<rparr>"

definition cached_fetch ::
  "(int \<Rightarrow> 'k \<Rightarrow> 'v) \<Rightarrow> int \<Rightarrow> 'k \<Rightarrow> ('k, 'v) fetch_cache \<Rightarrow> 'v \<times> ('k, 'v) fetch_cache" where
  "cached_fetch store now k c =
     (case entries c k of
        Some (v, t) \<Rightarrow>
          if now - t < revalidate_window then (v, c)
          else (store now k, c\<lparr>entries := (entries c)(k \<mapsto> (store now k, now)), calls := Suc (calls c)\<rparr>)
      | None \<Rightarrow> (store now k, c\<lparr>entries := (entries c)(k \<mapsto> (store now k, now)), calls := Suc (calls c)\<rparr>))"

text \<open>
  Runs of fetches: time never goes backwards, and each step is one fetch of
  some key at the current time.
\<close>

inductive fetch_run :: "(int \<Rightarrow> 'k \<Rightarrow> 'v) \<Rightarrow> ('k, 'v) fetch_cache \<Rightarrow> int \<Rightarrow> bool"
  for store :: "int \<Rightarrow> 'k \<Rightarrow> 'v" where
  start: "fetch_run store empty_cache t0"
| tick: "fetch_run store c t \<Longrightarrow> t \<le> t' \<Longrightarrow> fetch_run store c t'"
| fetch: "fetch_run store c t \<Longrightarrow> fetch_run store (snd (cached_fetch store t k c)) t"

text \<open>
  The cache invariant: every entry was fetched from the store at its
  timestamp, and no timestamp is in the future.
\<close>

definition cache_inv :: "(int \<Rightarrow> 'k \<Rightarrow> 'v) \<Rightarrow> ('k, 'v) fetch_cache \<Rightarrow> int \<Rightarrow> bool" where
  "cache_inv store c now \<longleftrightarrow> (\<forall>k v t. entries c k = Some (v, t) \<longrightarrow> v = store t k \<and> t \<le> now)"

section \<open>The fetches of the two pages\<close>

text \<open>
  The pages fetch through the cache with \<open>client.fetch(query, params, { next:
  { revalidate: 60 } })\<close>: \<open>getPosts\<close> (\<open>src/app/blog/page.tsx\<close>, lines
  16--22) and \<open>getPost\<close> (\<open>src/app/blog/[slug]/page.tsx\<close>, lines 27--33), and
  \<open>generateStaticParams\<close> fetches \<open>ALL_POSTS_QUERY\<close> (line 37). The key is
  the query with its parameters. The store answers a query over the documents
  it holds at the time of the fetch; \<open>clock\<close> gives the ISO date that
  \<open>now()\<close> reads at a time in seconds. React's \<open>cache\<close> wrapper only shares
  one call between the renders of one request, so each request makes one fetch
  per key.
\<close>

datatype query = PostsQuery | PostQuery string | AllPostsQuery

definition run_query :: "string \<Rightarrow> json list \<Rightarrow> query \<Rightarrow> json" where
  "run_query now docs q =
     (case q of
        PostsQuery \<Rightarrow> JArr (posts_query now docs)
      | PostQuery slug \<Rightarrow> (case post_query slug docs of None \<Rightarrow> JNull | Some d \<Rightarrow> d)
      | AllPostsQuery \<Rightarrow> JArr (all_posts_query docs))"

definition content_store :: "(int \<Rightarrow> string) \<Rightarrow> (int \<Rightarrow> json list) \<Rightarrow> int \<Rightarrow> query \<Rightarrow> json" where
  "content_store clock docs_at t q = run_query (clock t) (docs_at t) q"

definition getPosts :: "(int \<Rightarrow> query \<Rightarrow> json) \<Rightarrow> int \<Rightarrow> (query, json) fetch_cache \<Rightarrow> json \<times> (query, json) fetch_cache" where
  "getPosts store now c = cached_fetch store now PostsQuery c"

definition getPost ::
  "(int \<Rightarrow> query \<Rightarrow> json) \<Rightarrow> int \<Rightarrow> string \<Rightarrow> (query, json) fetch_cache \<Rightarrow> json \<times> (query, json) fetch_cache" where
  "getPost store now slug c = cached_fetch store now (PostQuery slug) c"

section \<open>Proof vocabulary\<close>

abbreviation sorted_desc :: "json list \<Rightarrow> bool" where
  "sorted_desc \<equiv> sorted_wrt (\<lambda>a b. pub_key b \<le> pub_key a)"

text \<open>A post fixture: identifier and publication time.\<close>

definition post_at :: "string \<Rightarrow> string \<Rightarrow> json" where
  "post_at i ts = JObj [(''_id'', JStr i), (''_type'', JStr ''post''), (''publishedAt'', JStr ts)]"

section \<open>Lemmas\<close>

lemma mset_insort_desc: "mset (insort_desc d ds) = add_mset d (mset ds)"
  by (induction ds) auto

lemma set_insort_desc: "set (insort_desc d ds) = insert d (set ds)"
  by (simp flip: set_mset_mset add: mset_insort_desc)

lemma sorted_insort_desc: "sorted_desc ds \<Longrightarrow> sorted_desc (insort_desc d ds)"
  by (induction ds) (auto simp: set_insort_desc)

lemma mset_order_desc: "mset (order_desc ds) = mset ds"
  by (induction ds) (simp_all add: mset_insort_desc)

lemma sorted_order_desc: "sorted_desc (order_desc ds)"
  by (induction ds) (simp_all add: sorted_insort_desc)

lemma set_posts_query:
  "set (posts_query now docs) = {d \<in> set docs. is_post d \<and> published_before now d}"
proof -
  have "set (order_desc (filter (\<lambda>d. is_post d \<and> published_before now d) docs)) =
        set (filter (\<lambda>d. is_post d \<and> published_before now d) docs)"
    by (metis mset_order_desc set_mset_mset)
  then show ?thesis by (auto simp: posts_query_def)
qed

lemma post_query_found:
  "d \<in> set docs \<Longrightarrow> is_post d \<Longrightarrow> doc_slug d = Some (JStr s) \<Longrightarrow> post_query s docs \<noteq> None"
  by (auto simp: post_query_def find_None_iff)

lemma groq_defined_iff: "groq_defined v \<longleftrightarrow> (\<exists>w. v = Some w \<and> w \<noteq> JNull)"
  by (auto simp: groq_defined_def split: option.split json.split)

lemma cache_inv_empty: "cache_inv store empty_cache t"
  by (simp add: cache_inv_def empty_cache_def)

lemma cache_inv_mono: "cache_inv store c t \<Longrightarrow> t \<le> t' \<Longrightarrow> cache_inv store c t'"
  by (fastforce simp: cache_inv_def)

lemma cache_inv_fetch: "cache_inv store c t \<Longrightarrow> cache_inv store (snd (cached_fetch store t k c)) t"
  by (auto simp: cache_inv_def cached_fetch_def split: option.split)

lemma cache_invD:
  "cache_inv store c now \<Longrightarrow> entries c k = Some (v, t) \<Longrightarrow> v = store t k \<and> t \<le> now"
  by (simp add: cache_inv_def)

lemma fetch_run_inv: "fetch_run store c t \<Longrightarrow> cache_inv store c t"
proof (induction rule: fetch_run.induct)
  case (start t0)
  then show ?case by (rule cache_inv_empty)
next
  case (tick c t t')
  then show ?case by (blast intro: cache_inv_mono)
next
  case (fetch c t k)
  then show ?case by (blast intro: cache_inv_fetch)
qed

text \<open>Under the invariant, a fetch returns the store's value at an instant of the last window.\<close>

lemma cached_fetch_from_store:
  assumes "cache_inv store c now"
  shows "\<exists>t. fst (cached_fetch store now k c) = store t k \<and> now - revalidate_window < t \<and> t \<le> now"
proof (cases "entries c k")
  case None
  then show ?thesis by (auto simp: cached_fetch_def revalidate_window_def)
next
  case (Some e)
  obtain v t where e: "e = (v, t)" by (cases e)
  with Some assms have "v = store t k \<and> t \<le> now" by (blast dest: cache_invD)
  with Some e show ?thesis
    by (auto simp: cached_fetch_def revalidate_window_def)
qed

lemma cached_fetch_hit:
  assumes "entries c k = Some (v, t)" and "now - t < revalidate_window"
  shows "cached_fetch store now k c = (v, c)"
  using assms by (simp add: cached_fetch_def)

section \<open>Properties\<close>

text \<open>
  C17. The listing query returns its documents latest first, and exactly the
  posts whose \<open>publishedAt\<close> is a string before \<open>now()\<close>, each as often as
  in the store.
\<close>

theorem posts_query_sorted_complete:
  "sorted_desc (posts_query now docs) \<and>
   mset (posts_query now docs) = mset (filter (\<lambda>d. is_post d \<and> published_before now d) docs)"
  by (simp add: posts_query_def sorted_order_desc mset_order_desc)

text \<open>
  The spec's example: of posts published a day after, a day before and
  two days before the current time, the listing holds the last two, the more
  recent first.
\<close>

theorem posts_query_example:
  "posts_query ''2025-06-10T12:00:00Z''
     [post_at ''a'' ''2025-06-11T12:00:00Z'', post_at ''b'' ''2025-06-09T12:00:00Z'', post_at ''c'' ''2025-06-08T12:00:00Z'']
   = [post_at ''b'' ''2025-06-09T12:00:00Z'', post_at ''c'' ''2025-06-08T12:00:00Z'']"
  by code_simp

text \<open>
  The single-post query finds a post exactly when the store holds a post
  with that \<open>slug.current\<close>, and what it finds is such a post.
\<close>

theorem post_query_spec:
  "(post_query s docs = None \<longleftrightarrow> \<not> (\<exists>d \<in> set docs. is_post d \<and> doc_slug d = Some (JStr s))) \<and>
   (post_query s docs = Some d \<longrightarrow> d \<in> set docs \<and> is_post d \<and> doc_slug d = Some (JStr s))"
  by (auto simp: post_query_def find_None_iff dest: find_Some_iff [THEN iffD1] intro: nth_mem)

theorem post_query_spec_witness:
  "post_query ''hello'' [JObj [(''_type'', JStr ''post''), (''slug'', JObj [(''current'', JStr ''hello'')])]]
     = Some (JObj [(''_type'', JStr ''post''), (''slug'', JObj [(''current'', JStr ''hello'')])])"
proof -
  let ?d = "JObj [(''_type'', JStr ''post''), (''slug'', JObj [(''current'', JStr ''hello'')])]"
  have "post_query ''hello'' [?d] \<noteq> None"
    using post_query_spec [of "''hello''" "[?d]" ?d] by (simp add: is_post_def doc_slug_def)
  then show ?thesis by (simp add: post_query_def is_post_def doc_slug_def)
qed

text \<open>
  C20. A fetch repeated within 60 seconds of one that went to the store is
  served from the cache: same value, no further round trip.
\<close>

theorem cached_fetch_repeat:
  assumes "calls (snd (cached_fetch store now k c)) = Suc (calls c)"
    and "now \<le> now'" and "now' - now < revalidate_window"
  shows "cached_fetch store now' k (snd (cached_fetch store now k c)) =
           (fst (cached_fetch store now k c), snd (cached_fetch store now k c))"
  using assms by (auto simp: cached_fetch_def split: option.splits if_splits)

theorem cached_fetch_repeat_witness:
  "cached_fetch (\<lambda>t k. t) 30 ''q'' (snd (cached_fetch (\<lambda>t k. t) 0 ''q'' (empty_cache :: (string, int) fetch_cache))) =
     (fst (cached_fetch (\<lambda>t k. t) 0 ''q'' (empty_cache :: (string, int) fetch_cache)),
      snd (cached_fetch (\<lambda>t k. t) 0 ''q'' (empty_cache :: (string, int) fetch_cache)))"
  by (rule cached_fetch_repeat) (simp_all add: cached_fetch_def empty_cache_def revalidate_window_def)

text \<open>
  C21. In every run of the cache, a fetch returns what the store held at some
  moment of the last 60 seconds.
\<close>

theorem cached_fetch_fresh:
  assumes "fetch_run store c now"
  shows "\<exists>t. fst (cached_fetch store now k c) = store t k \<and> now - revalidate_window < t \<and> t \<le> now"
  using fetch_run_inv [OF assms] by (rule cached_fetch_from_store)

theorem cached_fetch_fresh_witness:
  "\<exists>t. fst (cached_fetch (\<lambda>t k. t) 5 ''q'' (empty_cache :: (string, int) fetch_cache)) = t \<and> 5 - revalidate_window < t \<and> t \<le> 5"
proof -
  have "fetch_run (\<lambda>t k. t) (empty_cache :: (string, int) fetch_cache) 5" by (rule fetch_run.start)
  from cached_fetch_fresh [OF this, of "''q''"] show ?thesis by simp
qed


end
