(* ===== verification/Uri.thy ===== *)
theory Uri
  imports Prelude
begin

text \<open>
  URI component coding, as the two pages use it: the listing page links each
  post to \<open>/blog/${encodeURIComponent(post.slug.current)}\<close>
  (\<open>src/app/blog/page.tsx\<close>, line 77) and the post page reads its route
  parameter back with \<open>decodeURIComponent(slug)\<close>
  (\<open>src/app/blog/[slug]/page.tsx\<close>, lines 45 and 84). Both functions are
  ECMAScript built-ins, modelled from the ECMAScript specification (Encode and
  Decode of section 19.2.6). Strings are UTF-8 byte lists: encoding a code
  point to its UTF-8 bytes and percent-escaping each byte, as the built-in
  does, is then escaping each byte that is not unreserved.
\<close>

section \<open>Encoding\<close>

text \<open>The unreserved set of \<open>encodeURIComponent\<close>: letters, digits and \<open>-_.!~*'()\<close>.\<close>

definition unreserved :: "char \<Rightarrow> bool" where
  "unreserved c =
     (let b = of_char c :: nat in
      (65 \<le> b \<and> b \<le> 90) \<or> (97 \<le> b \<and> b \<le> 122) \<or> (48 \<le> b \<and> b \<le> 57) \<or>
      c \<in> set [CHR ''-'', CHR ''_'', CHR ''.'', CHR ''!'', CHR ''~'', CHR ''*'', CHR 0x27, CHR ''('', CHR '')''])"

definition hex_digit :: "nat \<Rightarrow> char" where
  "hex_digit d = char_of (if d < 10 then 48 + d else 55 + d)"

definition pct :: "nat \<Rightarrow> string" where
  "pct b = [CHR ''%'', hex_digit (b div 16), hex_digit (b mod 16)]"

definition encodeURIComponent :: "string \<Rightarrow> string" where
  "encodeURIComponent s = concat (map (\<lambda>c. if unreserved c then [c] else pct (of_char c)) s)"

section \<open>Decoding\<close>

text \<open>
  Decoding reads the string into literal characters and escaped bytes; a
  \<open>%\<close> not followed by two hexadecimal digits is a \<open>URIError\<close>.
\<close>

datatype utok = Lit char | Esc nat

definition hex_val :: "char \<Rightarrow> nat option" where
  "hex_val c =
     (let b = of_char c :: nat in
      if 48 \<le> b \<and> b \<le> 57 then Some (b - 48)
      else if 65 \<le> b \<and> b \<le> 70 then Some (b - 55)
      else if 97 \<le> b \<and> b \<le> 102 then Some (b - 87)
      else None)"

fun unescape :: "string \<Rightarrow> utok list option" where
  "unescape [] = Some []"
| "unescape (c # cs) =
     (if c = CHR ''%'' then
        (case cs of
           h1 # h2 # rest \<Rightarrow>
             (case (hex_val h1, hex_val h2) of
                (Some a, Some b) \<Rightarrow> map_option (Cons (Esc (16 * a + b))) (unescape rest)
              | _ \<Rightarrow> None)
         | _ \<Rightarrow> None)
      else map_option (Cons (Lit c)) (unescape cs))"

text \<open>
  An escaped byte of \<open>0x80\<close> or more starts a UTF-8 sequence whose length its
  leading bits give; the sequence must be escaped bytes, continuation bytes,
  and encode a code point in the range its length allows (no overlong form,
  no surrogate, nothing past \<open>0x10FFFF\<close>).
\<close>

definition utf8_len :: "nat \<Rightarrow> nat" where
  "utf8_len b =
     (if b < 128 then 1 else if b < 192 then 0 else if b < 224 then 2
      else if b < 240 then 3 else if b < 248 then 4 else 0)"

definition cont_byte :: "nat \<Rightarrow> bool" where
  "cont_byte b \<longleftrightarrow> 128 \<le> b \<and> b < 192"

definition code_point :: "nat list \<Rightarrow> nat" where
  "code_point bs =
     (case bs of
        [] \<Rightarrow> 0
      | b # cs \<Rightarrow> foldl (\<lambda>acc c. acc * 64 + (c - 128)) (b mod 2 ^ (7 - length bs)) cs)"

definition utf8_seq_ok :: "nat list \<Rightarrow> bool" where
  "utf8_seq_ok bs =
     (case bs of
        [] \<Rightarrow> False
      | b # cs \<Rightarrow>
          length bs = utf8_len b \<and> 2 \<le> length bs \<and> list_all cont_byte cs \<and>
          (let cp = code_point bs in
           if length bs = 2 then 128 \<le> cp
           else if length bs = 3 then 2048 \<le> cp \<and> \<not> (55296 \<le> cp \<and> cp \<le> 57343)
           else 65536 \<le> cp \<and> cp \<le> 1114111))"

fun esc_val :: "utok \<Rightarrow> nat option" where
  "esc_val (Esc b) = Some b"
| "esc_val (Lit _) = None"

function decode_toks :: "utok list \<Rightarrow> string option" where
  "decode_toks [] = Some []"
| "decode_toks (Lit c # ts) = map_option (Cons c) (decode_toks ts)"
| "decode_toks (Esc b # ts) =
     (if b < 128 then map_option (Cons (char_of b)) (decode_toks ts)
      else
        (let n = utf8_len b; conts = take (n - 1) ts in
         if 2 \<le> n \<and> length conts = n - 1 \<and> list_all (\<lambda>t. esc_val t \<noteq> None) conts
            \<and> utf8_seq_ok (b # map (the \<circ> esc_val) conts)
         then map_option (\<lambda>rest. char_of b # map (char_of \<circ> the \<circ> esc_val) conts @ rest)
                (decode_toks (drop (n - 1) ts))
         else None))"
  by pat_completeness auto
termination
  by (relation "measure length") auto

definition decodeURIComponent :: "string \<Rightarrow> string result" where
  "decodeURIComponent s =
     (case unescape s of
        None \<Rightarrow> Inl URIError
      | Some ts \<Rightarrow> (case decode_toks ts of None \<Rightarrow> Inl URIError | Some r \<Rightarrow> Inr r))"

section \<open>Well-formed UTF-8\<close>

text \<open>The byte strings that are the UTF-8 encoding of a sequence of code points.\<close>

function utf8_valid :: "string \<Rightarrow> bool" where
  "utf8_valid [] = True"
| "utf8_valid (c # cs) =
     (if of_char c < (128::nat) then utf8_valid cs
      else
        (let n = utf8_len (of_char c) in
         2 \<le> n \<and> n - 1 \<le> length cs \<and> utf8_seq_ok (map of_char (c # take (n - 1) cs))
         \<and> utf8_valid (drop (n - 1) cs)))"
  by pat_completeness auto
termination
  by (relation "measure length") auto

section \<open>Proof vocabulary\<close>

text \<open>The token a character of the input becomes once encoded and unescaped.\<close>

definition tok :: "char \<Rightarrow> utok" where
  "tok c = (if unreserved c then Lit c else Esc (of_char c))"

section \<open>Lemmas\<close>

lemma of_char_less_256: "of_char c < (256::nat)"
  by (metis of_char_mod_256 mod_less_divisor zero_less_numeral)

lemma hex_val_hex_digit: "d < 16 \<Longrightarrow> hex_val (hex_digit d) = Some d"
  by (auto simp: hex_val_def hex_digit_def Let_def)

lemma unreserved_ascii: "unreserved c \<Longrightarrow> of_char c < (128::nat)"
  by (auto simp: unreserved_def Let_def)

lemma unreserved_not_percent: "unreserved c \<Longrightarrow> c \<noteq> CHR ''%''"
  by (auto simp: unreserved_def Let_def)

lemma encodeURIComponent_Cons:
  "encodeURIComponent (c # s) = (if unreserved c then [c] else pct (of_char c)) @ encodeURIComponent s"
  by (simp add: encodeURIComponent_def)

lemma encodeURIComponent_Nil [simp]: "encodeURIComponent [] = []"
  by (simp add: encodeURIComponent_def)

lemma unescape_pct: "b < 256 \<Longrightarrow> unescape (pct b @ s) = map_option (Cons (Esc b)) (unescape s)"
proof -
  assume b: "b < 256"
  then have "b div 16 < 16" and "b mod 16 < 16" by simp_all
  then show ?thesis by (simp add: pct_def hex_val_hex_digit)
qed

lemma unescape_encode: "unescape (encodeURIComponent s) = Some (map tok s)"
proof (induction s)
  case Nil
  then show ?case by simp
next
  case (Cons c s)
  show ?case
  proof (cases "unreserved c")
    case True
    with Cons show ?thesis by (simp add: encodeURIComponent_Cons tok_def unreserved_not_percent)
  next
    case False
    with Cons show ?thesis by (simp add: encodeURIComponent_Cons tok_def unescape_pct of_char_less_256)
  qed
qed

lemma tok_high: "128 \<le> (of_char c :: nat) \<Longrightarrow> tok c = Esc (of_char c)"
  using unreserved_ascii [of c] by (auto simp: tok_def)

lemma map_tok_high:
  "list_all cont_byte (map of_char xs) \<Longrightarrow> map tok xs = map (Esc \<circ> of_char) xs"
  by (induction xs) (auto simp: cont_byte_def tok_high)

lemma decode_toks_tok: "utf8_valid s \<Longrightarrow> decode_toks (map tok s) = Some s"
proof (induction s rule: utf8_valid.induct)
  case 1
  then show ?case by simp
next
  case (2 c cs)
  show ?case
  proof (cases "of_char c < (128::nat)")
    case True
    with "2.IH"(1) "2.prems" show ?thesis by (simp add: tok_def)
  next
    case False
    let ?n = "utf8_len (of_char c)"
    let ?xs = "take (?n - 1) cs"
    from False "2.prems" have n: "2 \<le> ?n" "?n - 1 \<le> length cs"
      and ok: "utf8_seq_ok (map of_char (c # ?xs))" and rest: "utf8_valid (drop (?n - 1) cs)"
      by (simp_all add: Let_def)
    from ok have "list_all cont_byte (map of_char ?xs)"
      by (simp add: utf8_seq_ok_def)
    then have conts: "take (?n - 1) (map tok cs) = map (Esc \<circ> of_char) ?xs"
      by (simp add: take_map map_tok_high)
    from False rest "2.IH"(2) n have IH: "decode_toks (map tok (drop (?n - 1) cs)) = Some (drop (?n - 1) cs)"
      by (simp add: Let_def)
    have "map (char_of \<circ> the \<circ> esc_val) (map (Esc \<circ> of_char) ?xs) = ?xs"
      by (simp add: comp_def)
    with False n ok conts IH show ?thesis
      by (simp add: tok_high drop_map comp_def Let_def min_def list_all_iff)
  qed
qed

lemma length_encodeURIComponent:
  "length (encodeURIComponent s) = length s + 2 * length (filter (\<lambda>c. \<not> unreserved c) s)"
  by (induction s) (simp_all add: encodeURIComponent_Cons pct_def)

text \<open>A string without \<open>%\<close> decodes to itself.\<close>

lemma unescape_no_percent: "CHR ''%'' \<notin> set s \<Longrightarrow> unescape s = Some (map Lit s)"
  by (induction s) auto

lemma decode_toks_Lit: "decode_toks (map Lit s) = Some s"
  by (induction s) auto

lemma decodeURIComponent_no_percent: "CHR ''%'' \<notin> set s \<Longrightarrow> decodeURIComponent s = Inr s"
  by (simp add: decodeURIComponent_def unescape_no_percent decode_toks_Lit)

section \<open>Round trip and malformed input\<close>

text \<open>
  Decoding inverts encoding on every well-formed UTF-8 string.
\<close>

lemma uri_roundtrip:
  assumes "utf8_valid s"
  shows "decodeURIComponent (encodeURIComponent s) = Inr s"
  using assms by (simp add: decodeURIComponent_def unescape_encode decode_toks_tok)

text \<open>
  Encoding leaves a string unchanged exactly when every character is
  unreserved; any other character grows into a three-character escape.
\<close>

lemma encode_identity_iff:
  "encodeURIComponent s = s \<longleftrightarrow> list_all unreserved s"
proof
  assume "encodeURIComponent s = s"
  then have "length s + 2 * length (filter (\<lambda>c. \<not> unreserved c) s) = length s"
    by (metis length_encodeURIComponent)
  then show "list_all unreserved s"
    by (simp add: list_all_iff filter_empty_conv)
next
  assume "list_all unreserved s"
  then show "encodeURIComponent s = s"
    by (induction s) (simp_all add: encodeURIComponent_Cons)
qed

text \<open>
  A \<open>%\<close> that does not start an escape makes \<open>decodeURIComponent\<close> throw,
  as does a truncated or invalid UTF-8 escape sequence.
\<close>

lemma decode_malformed:
  "decodeURIComponent ''100%'' = Inl URIError \<and>
   decodeURIComponent ''%C3'' = Inl URIError \<and>
   decodeURIComponent ''%ED%A0%80'' = Inl URIError"
  by (simp add: decodeURIComponent_def hex_val_def utf8_len_def utf8_seq_ok_def code_point_def cont_byte_def)

end
