(* ===== verification/BlogList.thy ===== *)
theory BlogList
  imports Content Uri
begin

text \<open>
  The blog listing page, \<open>BlogPage\<close> in \<open>src/app/blog/page.tsx\<close> (lines 43--115):
  it awaits \<open>getPosts()\<close> and, unless the list is empty, maps every post to a
  card whose derived values the callback computes: the thumbnail URL (its
  construction is wrapped in \<open>try\<close>/\<open>catch\<close>), the formatted date with a
  fallback, the link to the post, eager loading for the first six posts, the
  alt text and the optional excerpt. Two collaborators are parameters: the
  image-URL builder of \<open>@sanity/image-url\<close>
  (\<open>urlFor(source).width(w).height(h).url()\<close>, which may throw) and
  \<open>toLocaleDateString\<close>.
\<close>

section \<open>Collaborators and the card\<close>

type_synonym image_url_builder = "json \<Rightarrow> nat \<Rightarrow> nat \<Rightarrow> string result"

type_synonym date_formatter = "json option \<Rightarrow> string"

text \<open>
  The values a card shows: link, React key, the thumbnail source (\<open>None\<close>
  for the "No image" placeholder), the image's alt text and \<open>priority\<close>, the
  title and excerpt as rendered children, and the date line.
\<close>

record card =
  card_href :: string
  card_key :: "json option"
  card_image :: "string option"
  card_alt :: json
  card_priority :: bool
  card_title :: "node list"
  card_date :: string
  card_excerpt :: "node list"

datatype blog_page = NoPosts | PostGrid "card list"

text \<open>
  The \<open>Post\<close> interface (lines 30--41), with the fields of the
  \<open>SanityDocument\<close> it extends: the shape the page's code assumes of every
  fetched document. Optional fields (\<open>?\<close>) may be absent.
\<close>

definition is_Post :: "json \<Rightarrow> bool" where
  "is_Post p \<longleftrightarrow>
     list_all (\<lambda>k. is_str (get_prop p k)) [''_id'', ''_type'', ''_createdAt'', ''_updatedAt'', ''_rev'', ''title'', ''publishedAt''] \<and>
     (case get_prop p ''slug'' of Some sl \<Rightarrow> is_str (get_prop sl ''current'') | None \<Rightarrow> False) \<and>
     (case get_prop p ''mainImage'' of
        None \<Rightarrow> True
      | Some img \<Rightarrow> is_str (get_prop img ''_type'') \<and>
                    (case get_prop img ''asset'' of Some a \<Rightarrow> is_str (get_prop a ''_ref'') | None \<Rightarrow> False)) \<and>
     (case get_prop p ''excerpt'' of None \<Rightarrow> True | Some e \<Rightarrow> is_str (Some e))"

section \<open>The card of one post\<close>

text \<open>
  Lines 58--64: \<open>post.mainImage ? urlFor(...).width(800).height(450).url() : null\<close>
  inside \<open>try\<close>; an exception leaves \<open>null\<close>. Line 82 then shows the image only
  for a truthy URL.
\<close>

definition card_image_url :: "image_url_builder \<Rightarrow> json \<Rightarrow> string option" where
  "card_image_url url_for post =
     (if truthy_opt (get_prop post ''mainImage'')
      then (case url_for (the (get_prop post ''mainImage'')) 800 450 of
              Inl _ \<Rightarrow> None
            | Inr u \<Rightarrow> if u = [] then None else Some u)
      else None)"

text \<open>Lines 67--73: the date, or \<open>'No date'\<close> when \<open>publishedAt\<close> is falsy.\<close>

definition card_date_text :: "date_formatter \<Rightarrow> json \<Rightarrow> string" where
  "card_date_text fmt post =
     (if truthy_opt (get_prop post ''publishedAt'') then fmt (get_prop post ''publishedAt'') else ''No date'')"

text \<open>
  Line 77: \<open>`/blog/${encodeURIComponent(post.slug.current)}`\<close>; reading
  \<open>current\<close> of an absent or \<open>null\<close> slug throws.
\<close>

definition card_link :: "json \<Rightarrow> string result" where
  "card_link post =
     (case get_prop post ''slug'' of
        None \<Rightarrow> Inl (TypeError ''post.slug.current'')
      | Some JNull \<Rightarrow> Inl (TypeError ''post.slug.current'')
      | Some sl \<Rightarrow> Inr (''/blog/'' @ encodeURIComponent (js_to_string (get_prop sl ''current''))))"

text \<open>
  The callback of \<open>posts.map\<close> (lines 57--109) for the post at index \<open>i\<close>;
  \<open>posts.indexOf(post)\<close> compares by reference, and every element of the
  fetched array is a distinct object, so it is the index.
\<close>

definition post_card :: "image_url_builder \<Rightarrow> date_formatter \<Rightarrow> nat \<Rightarrow> json \<Rightarrow> card result" where
  "post_card url_for fmt i post =
     bind_res (card_link post) (\<lambda>href.
     bind_res (opt_child (get_prop post ''title'')) (\<lambda>title.
     bind_res (jsx_and (get_prop post ''excerpt'')
                (bind_res (opt_child (get_prop post ''excerpt''))
                   (\<lambda>cs. Inr (El ''p'' [(''className'', JStr ''text-gray-700 flex-grow'')] cs)))) (\<lambda>excerpt.
       Inr \<lparr>card_href = href, card_key = get_prop post ''_id'',
            card_image = card_image_url url_for post,
            card_alt = js_or (get_prop post ''title'') (JStr ''Blog post thumbnail''),
            card_priority = i < 6, card_title = title,
            card_date = card_date_text fmt post, card_excerpt = excerpt\<rparr>)))"

text \<open>The page (lines 43--115): the placeholder for no posts, else one card per post.\<close>

definition BlogPage :: "image_url_builder \<Rightarrow> date_formatter \<Rightarrow> json list \<Rightarrow> blog_page result" where
  "BlogPage url_for fmt posts =
     (if posts = [] then Inr NoPosts
      else bind_res (map_res (\<lambda>(i, p). post_card url_for fmt i p) (enumerate 0 posts))
             (\<lambda>cards. Inr (PostGrid cards)))"

text \<open>The listing at time \<open>now\<close> over the store's documents.\<close>

definition blog_listing :: "image_url_builder \<Rightarrow> date_formatter \<Rightarrow> string \<Rightarrow> json list \<Rightarrow> blog_page result" where
  "blog_listing url_for fmt now docs = BlogPage url_for fmt (posts_query now docs)"

section \<open>Proof vocabulary\<close>

text \<open>The cards of a listing that rendered as a grid.\<close>

definition page_cards :: "blog_page result \<Rightarrow> card list option" where
  "page_cards r = (case r of Inr (PostGrid cs) \<Rightarrow> Some cs | _ \<Rightarrow> None)"

text \<open>Seven published posts, with one-letter identifiers, titles and slugs.\<close>

definition sample_posts :: "json list" where
  "sample_posts = map (\<lambda>c. JObj [(''_id'', JStr [c]), (''title'', JStr [c]), (''slug'', JObj [(''current'', JStr [c])])]) ''abcdefg''"

section \<open>Lemmas\<close>

lemma post_card_priority: "post_card u f i p = Inr c \<Longrightarrow> card_priority c = (i < 6)"
  by (auto simp: post_card_def)

lemma post_card_typed: "is_Post p \<Longrightarrow> \<not> isl (post_card u f i p)"
  by (auto simp: is_Post_def is_str_iff post_card_def card_link_def isl_bind_res jsx_and_def
      split: option.splits json.splits)

lemma post_card_isl: "isl (post_card u f i p) = isl (post_card u' f i p)"
  by (simp add: post_card_def bind_res_def split: sum.split)

section \<open>Properties\<close>

text \<open>
  C25. On a rendered listing, exactly the first six cards are marked for
  eager (priority) image loading, the others load lazily.
\<close>

theorem BlogPage_priority:
  assumes "BlogPage u f posts = Inr (PostGrid cards)"
  shows "map card_priority cards = map (\<lambda>i. i < 6) [0..<length posts]"
proof -
  from assms have "posts \<noteq> []" by (auto simp: BlogPage_def)
  with assms have r: "map_res (\<lambda>(i, p). post_card u f i p) (enumerate 0 posts) = Inr cards"
    by (auto simp: BlogPage_def)
  have "map card_priority cards = map (\<lambda>ip. fst ip < 6) (enumerate 0 posts)"
    by (rule map_res_map_eq [OF r]) (auto dest: post_card_priority)
  also have "\<dots> = map (\<lambda>i. i < 6) (map fst (enumerate 0 posts))"
    by (simp only: map_map comp_def)
  finally show ?thesis by (simp only: map_fst_enumerate) simp
qed

theorem BlogPage_priority_witness:
  "\<exists>cards. BlogPage (\<lambda>_ _ _. Inr ''u'') (\<lambda>_. ''d'') sample_posts = Inr (PostGrid cards) \<and>
     map card_priority cards = [True, True, True, True, True, True, False]"
proof -
  have "page_cards (BlogPage (\<lambda>_ _ _. Inr ''u'') (\<lambda>_. ''d'') sample_posts) \<noteq> None"
    unfolding sample_posts_def by code_simp
  then obtain cards where c: "BlogPage (\<lambda>_ _ _. Inr ''u'') (\<lambda>_. ''d'') sample_posts = Inr (PostGrid cards)"
    by (auto simp: page_cards_def split: sum.splits blog_page.splits)
  have "length sample_posts = 7" by (simp add: sample_posts_def)
  with BlogPage_priority [OF c] c show ?thesis by (simp add: upt_rec)
qed

text \<open>
  C26. Whether the listing renders does not depend on the image-URL builder:
  with a builder that throws for every image the page renders exactly when it
  renders with a working one.
\<close>

theorem BlogPage_builder_independent:
  "isl (BlogPage u f posts) = isl (BlogPage u' f posts)"
proof -
  have "isl (map_res (\<lambda>(i, p). post_card u f i p) (enumerate 0 posts)) =
        isl (map_res (\<lambda>(i, p). post_card u' f i p) (enumerate 0 posts))"
  proof (rule map_res_isl_cong)
    fix x :: "nat \<times> json"
    show "isl ((\<lambda>(i, p). post_card u f i p) x) = isl ((\<lambda>(i, p). post_card u' f i p) x)"
      by (cases x) (simp only: prod.case post_card_isl [of u f _ _ u'])
  qed
  then show ?thesis
    by (cases "map_res (\<lambda>(i, p). post_card u f i p) (enumerate 0 posts)";
        cases "map_res (\<lambda>(i, p). post_card u' f i p) (enumerate 0 posts)") (simp_all add: BlogPage_def)
qed

text \<open>
  C27. One listed post without a slug object (absent or \<open>null\<close>) makes the
  whole listing page throw.
\<close>

theorem BlogPage_missing_slug:
  assumes "p \<in> set posts" and "get_prop p ''slug'' = None \<or> get_prop p ''slug'' = Some JNull"
  shows "isl (BlogPage u f posts)"
proof -
  from assms(1) obtain i where "i < length posts" and "p = posts ! i"
    by (auto simp: in_set_conv_nth)
  then have i: "(i, p) \<in> set (enumerate 0 posts)"
    by (simp add: in_set_enumerate_eq)
  from assms(2) have "post_card u f i p = Inl (TypeError ''post.slug.current'')"
    by (auto simp: post_card_def card_link_def)
  with i obtain e where "map_res (\<lambda>(i, p). post_card u f i p) (enumerate 0 posts) = Inl e"
    using map_res_Inl [of "(i, p)" "enumerate 0 posts" "\<lambda>(i, p). post_card u f i p"] by auto
  with assms(1) show ?thesis by (auto simp: BlogPage_def)
qed

theorem BlogPage_missing_slug_witness:
  "isl (BlogPage (\<lambda>_ _ _. Inr ''u'') (\<lambda>_. ''d'') [JObj [(''_id'', JStr ''x''), (''title'', JStr ''Draft'')]])"
  by (rule BlogPage_missing_slug [of "JObj [(''_id'', JStr ''x''), (''title'', JStr ''Draft'')]"]) simp_all

text \<open>
  C30. The \<open>Post\<close> interface is enough for the listing: when every fetched
  document has the shape the interface declares, the page renders. Its
  failures (C27) come only from documents the query returns outside that type.
\<close>

theorem BlogPage_typed_renders:
  assumes "list_all is_Post posts"
  shows "\<not> isl (BlogPage u f posts)"
proof -
  from assms have "list_all (\<lambda>x. \<not> isl ((\<lambda>(i, p). post_card u f i p) x)) (enumerate 0 posts)"
    by (auto simp: list_all_iff in_set_enumerate_eq post_card_typed)
  then show ?thesis by (simp add: BlogPage_def isl_bind_res isl_map_res)
qed

theorem BlogPage_typed_renders_witness:
  "\<not> isl (BlogPage (\<lambda>_ _ _. Inl (BuilderError ''x'')) (\<lambda>_. ''d'')
      [JObj [(''_id'', JStr ''1''), (''_type'', JStr ''post''), (''_createdAt'', JStr ''c''), (''_updatedAt'', JStr ''u''),
             (''_rev'', JStr ''r''), (''title'', JStr ''T''), (''publishedAt'', JStr ''2024''),
             (''slug'', JObj [(''current'', JStr ''t'')])]])"
  by (rule BlogPage_typed_renders) (simp add: is_Post_def is_str_def)


end
