(* ===== verification/PostPage.thy ===== *)
theory PostPage
  imports BlogList PortableText
begin

text \<open>
  The post page, \<open>src/app/blog/[slug]/page.tsx\<close>, and the client configuration it
  reads, \<open>src/app/sanity/client.ts\<close>. From the route parameter the page decodes
  the slug, fetches the post with \<open>POST_QUERY\<close>, answers not-found when there
  is none, builds the header image URL when the client is configured and the
  post has a main image (without \<open>try\<close>: the builder's exception propagates),
  and renders the title, the date and the body through the Portable Text
  mapper. \<open>generateMetadata\<close> does the same lookup for the page's metadata and
  \<open>generateStaticParams\<close> lists the slugs to prerender. The route parameter is
  the URL's path segment as the router hands it over, still percent-encoded,
  which is what the page's own \<open>decodeURIComponent\<close> expects.
\<close>

section \<open>Client configuration\<close>

text \<open>
  \<open>createClient({projectId: process.env.NEXT_PUBLIC_SANITY_PROJECT_ID, dataset:
  process.env.NEXT_PUBLIC_SANITY_DATASET, ...})\<close>: an unset variable is
  \<open>undefined\<close>.
\<close>

record client_config =
  projectId :: "json option"
  dataset :: "json option"

definition client_of_env :: "(string \<Rightarrow> string option) \<Rightarrow> client_config" where
  "client_of_env env =
     \<lparr>projectId = map_option JStr (env ''NEXT_PUBLIC_SANITY_PROJECT_ID''),
      dataset = map_option JStr (env ''NEXT_PUBLIC_SANITY_DATASET'')\<rparr>"

text \<open>Lines 20--24: \<open>urlFor\<close> yields a builder only when both values are truthy.\<close>

definition url_for_available :: "client_config \<Rightarrow> bool" where
  "url_for_available cfg \<longleftrightarrow> truthy_opt (projectId cfg) \<and> truthy_opt (dataset cfg)"

section \<open>The page\<close>

text \<open>
  Lines 91--98 (and 51--57 with another size): the image URL when the post has
  a main image and a builder exists; \<open>.url()\<close> is not guarded, so its
  exception escapes. A falsy URL shows no image (line 117).
\<close>

definition post_image_url :: "client_config \<Rightarrow> image_url_builder \<Rightarrow> nat \<Rightarrow> nat \<Rightarrow> json \<Rightarrow> string option result" where
  "post_image_url cfg url_for w h post =
     (if truthy_opt (get_prop post ''mainImage'') \<and> url_for_available cfg
      then bind_res (url_for (the (get_prop post ''mainImage'')) w h)
             (\<lambda>u. Inr (if u = [] then None else Some u))
      else Inr None)"

text \<open>\<open>PostContent\<close> (lines 69--75): the body through the mapper, when it is truthy.\<close>

definition PostContent :: "json \<Rightarrow> node result" where
  "PostContent post =
     bind_res (if truthy_opt (get_prop post ''body'') then bind_res (body_nodes (the (get_prop post ''body''))) render_doc
               else opt_child (get_prop post ''body''))
       (\<lambda>cs. Inr (El ''div'' [(''className'', JStr ''prose prose-lg max-w-none'')] cs))"

datatype post_view = PostView (pv_title: "node list") (pv_date: string) (pv_image: "string option") (pv_content: node)

datatype page_outcome = NotFound | Page post_view

text \<open>
  \<open>PostPage\<close> (lines 77--137) for the route parameter \<open>slug\<close>, over the store's
  documents: \<open>decodeURIComponent\<close> may throw; \<open>notFound()\<close> ends the render with
  the not-found page.
\<close>

definition PostPage ::
  "client_config \<Rightarrow> image_url_builder \<Rightarrow> date_formatter \<Rightarrow> json list \<Rightarrow> string \<Rightarrow> page_outcome result" where
  "PostPage cfg url_for fmt docs slug =
     bind_res (decodeURIComponent slug) (\<lambda>decoded.
       case post_query decoded docs of
         None \<Rightarrow> Inr NotFound
       | Some post \<Rightarrow>
           bind_res (post_image_url cfg url_for 1200 675 post) (\<lambda>img.
           bind_res (opt_child (get_prop post ''title'')) (\<lambda>title.
           bind_res (PostContent post) (\<lambda>content.
             Inr (Page (PostView title (fmt (get_prop post ''publishedAt'')) img content))))))"

section \<open>Metadata and static parameters\<close>

record metadata =
  md_title :: "json option"
  md_description :: json
  md_images :: "string list"

datatype meta_outcome = MetaNotFound | Meta metadata

text \<open>
  \<open>generateMetadata\<close> (lines 42--66): \<open>{title: 'Post Not Found'}\<close> without a
  post; otherwise the title, the excerpt or \<open>`Read about ${post.title}`\<close>, and
  the Open Graph image of size 1200 by 630 when there is one.
\<close>

definition generateMetadata ::
  "client_config \<Rightarrow> image_url_builder \<Rightarrow> json list \<Rightarrow> string \<Rightarrow> meta_outcome result" where
  "generateMetadata cfg url_for docs slug =
     bind_res (decodeURIComponent slug) (\<lambda>decoded.
       case post_query decoded docs of
         None \<Rightarrow> Inr MetaNotFound
       | Some post \<Rightarrow>
           bind_res (post_image_url cfg url_for 1200 630 post) (\<lambda>og.
             Inr (Meta \<lparr>md_title = get_prop post ''title'',
                        md_description = js_or (get_prop post ''excerpt'')
                                           (JStr (''Read about '' @ js_to_string (get_prop post ''title''))),
                        md_images = (case og of Some u \<Rightarrow> [u] | None \<Rightarrow> [])\<rparr>)))"

text \<open>\<open>generateStaticParams\<close> (lines 36--39): one \<open>{slug}\<close> per slug of \<open>ALL_POSTS_QUERY\<close>.\<close>

definition generateStaticParams :: "json list \<Rightarrow> json list" where
  "generateStaticParams docs = map (\<lambda>s. JObj [(''slug'', s)]) (all_posts_query docs)"

section \<open>Proof vocabulary\<close>

text \<open>A post with a main image whose asset reference the builder may reject.\<close>

definition img_post :: json where
  "img_post = JObj [(''_type'', JStr ''post''), (''slug'', JObj [(''current'', JStr ''p'')]),
                    (''mainImage'', JObj [(''asset'', JObj [(''_ref'', JStr ''bad'')])])]"

text \<open>A post dated in the future: the listing query leaves it out.\<close>

definition future_post :: json where
  "future_post = JObj [(''_type'', JStr ''post''), (''publishedAt'', JStr ''2099-01-01T00:00:00Z''),
                       (''slug'', JObj [(''current'', JStr ''soon'')])]"

section \<open>Lemmas\<close>

text \<open>Once the single-post query finds a post, the page is never the not-found page.\<close>

lemma PostPage_found:
  "decodeURIComponent seg = Inr s \<Longrightarrow> post_query s docs \<noteq> None \<Longrightarrow> PostPage cfg u f docs seg \<noteq> Inr NotFound"
  by (auto simp: PostPage_def bind_res_def split: sum.splits)

section \<open>Properties\<close>

text \<open>
  C24. A route parameter that decodeURIComponent rejects (a bare %, a broken UTF-8 escape) makes the page throw instead of answering not-found: the decoding error propagates.
\<close>

theorem PostPage_malformed_segment:
  assumes "decodeURIComponent seg = Inl e"
  shows "PostPage cfg u f docs seg = Inl e"
  using assms by (simp add: PostPage_def)

theorem PostPage_malformed_segment_witness:
  "PostPage \<lparr>projectId = None, dataset = None\<rparr> (\<lambda>_ _ _. Inr ''u'') (\<lambda>_. ''d'') [] ''100%'' = Inl URIError"
  using decode_malformed by (intro PostPage_malformed_segment) simp

text \<open>
  C28. When the decoded route parameter matches no post, the page is the not-found page.
\<close>

theorem PostPage_not_found:
  assumes "decodeURIComponent seg = Inr s" and "post_query s docs = None"
  shows "PostPage cfg u f docs seg = Inr NotFound"
  using assms by (simp add: PostPage_def)

theorem PostPage_not_found_witness:
  "PostPage \<lparr>projectId = None, dataset = None\<rparr> (\<lambda>_ _ _. Inr ''u'') (\<lambda>_. ''d'') [] ''missing'' = Inr NotFound"
  by (rule PostPage_not_found [of _ "''missing''"]) (simp_all add: decodeURIComponent_def post_query_def)

text \<open>
  C29. On the post page an exception of the image-URL builder is not caught: for a configured client and a post with a main image, a throwing builder makes the whole page throw.
\<close>

theorem PostPage_image_uncaught:
  assumes "decodeURIComponent seg = Inr s" and "post_query s docs = Some p"
    and "truthy_opt (get_prop p ''mainImage'')" and "url_for_available cfg"
    and "u (the (get_prop p ''mainImage'')) 1200 675 = Inl e"
  shows "PostPage cfg u f docs seg = Inl e"
  using assms by (simp add: PostPage_def post_image_url_def)

theorem PostPage_image_uncaught_witness:
  "PostPage \<lparr>projectId = Some (JStr ''prj''), dataset = Some (JStr ''production'')\<rparr>
      (\<lambda>_ _ _. Inl (BuilderError ''Malformed asset _ref'')) (\<lambda>_. ''d'') [img_post] ''p''
     = Inl (BuilderError ''Malformed asset _ref'')"
  by (rule PostPage_image_uncaught [where s = "''p''" and p = img_post])
     (simp_all add: decodeURIComponent_def post_query_def img_post_def is_post_def doc_slug_def url_for_available_def)

text \<open>
  Without a truthy project id and dataset the post page never calls the image builder: its outcome is the same for every builder, and a rendered page has no header image.
\<close>

theorem PostPage_unconfigured:
  assumes "\<not> url_for_available cfg"
  shows "PostPage cfg u f docs seg = PostPage cfg u' f docs seg \<and>
         (\<forall>v. PostPage cfg u f docs seg = Inr (Page v) \<longrightarrow> pv_image v = None)"
proof -
  from assms have img: "\<And>p. post_image_url cfg u 1200 675 p = Inr None"
    "\<And>p. post_image_url cfg u' 1200 675 p = Inr None"
    by (simp_all add: post_image_url_def)
  show ?thesis
  proof (cases "decodeURIComponent seg")
    case (Inl e)
    then show ?thesis by (simp add: PostPage_def)
  next
    case (Inr s)
    then show ?thesis by (cases "post_query s docs") (auto simp: PostPage_def img)
  qed
qed

theorem PostPage_unconfigured_witness:
  "PostPage (client_of_env (\<lambda>_. None)) (\<lambda>_ _ _. Inr ''u'') (\<lambda>_. ''d'') [img_post] ''p'' =
   PostPage (client_of_env (\<lambda>_. None)) (\<lambda>_ _ _. Inl (BuilderError ''x'')) (\<lambda>_. ''d'') [img_post] ''p''"
proof -
  have "\<not> url_for_available (client_of_env (\<lambda>_. None))" by (simp add: url_for_available_def client_of_env_def)
  from PostPage_unconfigured [OF this] show ?thesis by blast
qed

text \<open>
  The metadata description of a post without a truthy excerpt is "Read about " followed by the post title.
\<close>

theorem generateMetadata_description:
  assumes "decodeURIComponent seg = Inr s" and "post_query s docs = Some p"
    and "\<not> truthy_opt (get_prop p ''excerpt'')" and "generateMetadata cfg u docs seg = Inr (Meta m)"
  shows "md_description m = JStr (''Read about '' @ js_to_string (get_prop p ''title''))"
  using assms by (auto simp: generateMetadata_def)

theorem generateMetadata_description_witness:
  "\<exists>m. generateMetadata \<lparr>projectId = None, dataset = None\<rparr> (\<lambda>_ _ _. Inr ''u'')
          [JObj [(''_type'', JStr ''post''), (''title'', JStr ''T''), (''slug'', JObj [(''current'', JStr ''p'')])]] ''p''
        = Inr (Meta m) \<and> md_description m = JStr ''Read about T''"
proof -
  let ?t = "JObj [(''_type'', JStr ''post''), (''title'', JStr ''T''), (''slug'', JObj [(''current'', JStr ''p'')])]"
  have d: "decodeURIComponent ''p'' = Inr ''p''" by (simp add: decodeURIComponent_def)
  have q: "post_query ''p'' [?t] = Some ?t"
    by (simp add: post_query_def is_post_def doc_slug_def)
  obtain m where m: "generateMetadata \<lparr>projectId = None, dataset = None\<rparr> (\<lambda>_ _ _. Inr ''u'') [?t] ''p'' = Inr (Meta m)"
    by (simp add: generateMetadata_def d q post_image_url_def url_for_available_def)
  have "md_description m = JStr (''Read about '' @ js_to_string (get_prop ?t ''title''))"
    by (rule generateMetadata_description [OF d q _ m]) simp
  with m show ?thesis by auto
qed

text \<open>
  C32. The post page serves every post document with a matching slug, whatever
  its \<open>publishedAt\<close>: \<open>POST_QUERY\<close> has no date filter, so a post the
  listing hides because it is dated in the future is reachable at its URL.
\<close>

theorem PostPage_serves_unpublished:
  assumes "d \<in> set docs" and "is_post d" and "doc_slug d = Some (JStr s)"
    and "decodeURIComponent seg = Inr s"
  shows "PostPage cfg u f docs seg \<noteq> Inr NotFound"
  using assms(4) by (rule PostPage_found) (rule post_query_found [OF assms(1-3)])

theorem PostPage_serves_unpublished_witness:
  "future_post \<notin> set (posts_query ''2025-06-10T12:00:00Z'' [future_post]) \<and>
   PostPage \<lparr>projectId = None, dataset = None\<rparr> (\<lambda>_ _ _. Inr ''u'') (\<lambda>_. ''d'') [future_post] ''soon'' \<noteq> Inr NotFound"
proof
  show "future_post \<notin> set (posts_query ''2025-06-10T12:00:00Z'' [future_post])"
    unfolding future_post_def by code_simp
  show "PostPage \<lparr>projectId = None, dataset = None\<rparr> (\<lambda>_ _ _. Inr ''u'') (\<lambda>_. ''d'') [future_post] ''soon'' \<noteq> Inr NotFound"
    by (rule PostPage_serves_unpublished [of future_post _ "''soon''"])
       (simp_all add: future_post_def is_post_def doc_slug_def decodeURIComponent_no_percent)
qed

text \<open>
  \<open>generateStaticParams\<close> lists one parameter for each post document whose
  \<open>slug.current\<close> is defined (neither absent nor \<open>null\<close>), published or
  not, and nothing else.
\<close>

theorem generateStaticParams_set:
  "set (generateStaticParams docs) =
     {JObj [(''slug'', v)] | d v. d \<in> set docs \<and> is_post d \<and> doc_slug d = Some v \<and> v \<noteq> JNull}"
proof -
  have "set (generateStaticParams docs) =
          (\<lambda>d. JObj [(''slug'', the (doc_slug d))]) ` {d \<in> set docs. is_post d \<and> groq_defined (doc_slug d)}"
    by (simp add: generateStaticParams_def all_posts_query_def image_image)
  also have "\<dots> = {JObj [(''slug'', v)] | d v. d \<in> set docs \<and> is_post d \<and> doc_slug d = Some v \<and> v \<noteq> JNull}"
    by (force simp: groq_defined_iff)
  finally show ?thesis .
qed

end
