(* ===== verification/Home.thy ===== *)
theory Home
  imports Prelude
begin

text \<open>
  The home page, \<open>Home\<close> in \<open>src/app/page.tsx\<close> (lines 3--50): a static
  element tree with a header (avatar, name, introduction), an "About Me" and
  a "Contact & Links" section, and a footer with the current year. The year,
  \<open>new Date().getFullYear()\<close>, is the page's only input. JSX text is
  translated as React reads it: lines are trimmed and joined with one space,
  the entities \<open>&ldquo;\<close>, \<open>&rdquo;\<close> and the copyright sign are their UTF-8
  bytes, and comments produce no child.
\<close>

section \<open>Text of the page\<close>

definition ldquo :: string where
  "ldquo = [char_of (0xE2::nat), char_of (0x80::nat), char_of (0x9C::nat)]"

definition rdquo :: string where
  "rdquo = [char_of (0xE2::nat), char_of (0x80::nat), char_of (0x9D::nat)]"

definition copyright_sign :: string where
  "copyright_sign = [char_of (0xC2::nat), char_of (0xA9::nat)]"

definition link_class :: json where
  "link_class = JStr ''hover:underline text-blue-600 dark:text-blue-400''"

section \<open>The page\<close>

text \<open>Lines 7--20: the header.\<close>

definition home_header :: node where
  "home_header =
     El ''header'' [(''className'', JStr ''text-center space-y-4'')]
       [El ''Image'' [(''className'', JStr ''centered-image rounded-full border-4 border-black/10 dark:border-white/20''),
                      (''src'', JStr ''/your-avatar.jpg''), (''alt'', JStr ''Your Name''),
                      (''width'', JNum 100), (''height'', JNum 100), (''priority'', JBool True)] [],
        El ''h1'' [(''className'', JStr ''text-3xl sm:text-1xl md:text-3xl font-bold'')] [Txt ''Heritier''],
        El ''p'' [(''className'', JStr ''text-base sm:text-base md:text-xl max-w-2xl text-gray-600 dark:text-gray-400 mx-auto'')]
          [Txt ''A short intro about you. Web developer, writer, and lifelong learner.'']]"

text \<open>Lines 34--40: the contact links; the three external ones open a new tab.\<close>

definition contact_links :: "node list" where
  "contact_links =
     [El ''a'' [(''href'', JStr ''mailto:herri2293@gmail.com''), (''className'', link_class)] [Txt ''Email''],
      El ''a'' [(''href'', JStr ''https://github.com/heriman22''), (''target'', JStr ''_blank''),
                (''rel'', JStr ''noopener noreferrer''), (''className'', link_class)] [Txt ''GitHub''],
      El ''a'' [(''href'', JStr ''https://www.linkedin.com/in/heri-b-61502423b/''), (''target'', JStr ''_blank''),
                (''rel'', JStr ''noopener noreferrer''), (''className'', link_class)] [Txt ''LinkedIn''],
      El ''a'' [(''href'', JStr ''https://huggingface.co/Heriman''), (''target'', JStr ''_blank''),
                (''rel'', JStr ''noopener noreferrer''), (''className'', link_class)] [Txt ''huggingface''],
      El ''Link'' [(''href'', JStr ''/blog''), (''className'', link_class)] [Txt ''Blog'']]"

text \<open>Lines 23--42: the main content.\<close>

definition home_main :: node where
  "home_main =
     El ''main'' [(''className'', JStr ''mt-10 text-center max-w-3xl w-full px-2'')]
       [El ''section'' [(''className'', JStr ''space-y-6'')]
          [El ''h2'' [(''className'', JStr ''text-2xl sm:text-1xl font-semibold'')] [Txt ''About Me''],
           El ''p'' [(''className'', JStr ''text-base sm:text-base md:text-xl text-gray-700 dark:text-gray-300'')]
             [Txt (''Write about your journey, skills, and passions. Example: '' @ ldquo @
                   ''I build fast, accessible web apps using Next.js, React, and Tailwind CSS. '' @
                   ''This blog shares my learnings, experiments, and thoughts.'' @ rdquo)]],
        El ''section'' [(''className'', JStr ''mt-12 space-y-6'')]
          [El ''h2'' [(''className'', JStr ''text-2xl sm:text-1xl font-semibold'')] [Txt ''Contact & Links''],
           El ''div'' [(''className'', JStr ''flex gap-6 justify-center flex-wrap text-base sm:text-lg'')] contact_links]]"

text \<open>Lines 45--47: the footer, with the year as a number child.\<close>

definition home_footer :: "int \<Rightarrow> node" where
  "home_footer year =
     El ''footer'' [(''className'', JStr ''mt-16 text-center text-sm sm:text-base text-gray-500 dark:text-gray-400'')]
       [Txt (copyright_sign @ '' ''), Txt (int_str year), Txt '' Heritier. All rights reserved.'']"

definition Home :: "int \<Rightarrow> node" where
  "Home year =
     El ''div'' [(''className'', JStr (''grid grid-rows-[auto_1fr_auto] items-center justify-items-center min-h-screen p-4 sm:p-1.2 '' @
                                    ''font-[family-name:var(--font-geist-sans)] bg-white dark:bg-black text-black dark:text-white''))]
       [home_header, home_main, home_footer year]"

section \<open>Proof vocabulary\<close>

text \<open>The link targets of an element tree, in document order.\<close>

fun hrefs :: "node \<Rightarrow> string list" where
  "hrefs (Txt _) = []"
| "hrefs (El t ps cs) =
     (case map_of ps ''href'' of Some (JStr h) \<Rightarrow> [h] | _ \<Rightarrow> []) @ concat (map hrefs cs)"

section \<open>Lemmas\<close>

lemma home_footer_text:
  "visible_text (home_footer year) = copyright_sign @ '' '' @ int_str year @ '' Heritier. All rights reserved.''"
  by (simp add: home_footer_def)

text \<open>
  On the home page, in every year, every link that opens a new tab
  carries \<open>rel="noopener noreferrer"\<close>, and the page links to exactly the
  mail address, the three profiles and the blog, in this order.
\<close>

lemma Home_links_safe:
  "safe_links (Home year) \<and>
   hrefs (Home year) = [''mailto:herri2293@gmail.com'', ''https://github.com/heriman22'',
                        ''https://www.linkedin.com/in/heri-b-61502423b/'', ''https://huggingface.co/Heriman'', ''/blog'']"
  by (simp add: Home_def home_header_def home_main_def home_footer_def contact_links_def link_class_def)

end
