(* ===== verification/Layout.thy ===== *)
theory Layout
  imports PostPage Home
begin

text \<open>
  The root layout, \<open>src/app/layout.tsx\<close>, and the page titles it shapes. The
  layout wraps every page in \<open>html\<close> with a \<open>head\<close> that preconnects to the
  image CDN and a \<open>body\<close> carrying the two fonts' class names (lines 36--55);
  its \<open>metadata\<close> (lines 19--34) gives the site's default title and a title
  template. Next.js resolves the document title of a page from the metadata
  of its segments, root first: a segment's string title is put into the
  template handed down by the segments above it, a title object gives its
  \<open>default\<close> put into that template (or its \<open>absolute\<close> as it is) and hands
  its \<open>template\<close> down, a falsy title or an array leaves the page without a
  title, and any other value makes the resolution throw. That resolution is
  the framework's (\<open>resolveTitle\<close> of \<open>next/dist/lib/metadata\<close>, with
  \<open>String.prototype.replace\<close>), modelled from the framework's implementation.
\<close>

section \<open>Fonts and the layout element\<close>

record font_options =
  font_variable :: string
  font_subsets :: "string list"
  font_display :: string
  font_preload :: bool

text \<open>Lines 5--17: the two \<open>next/font/google\<close> fonts.\<close>

definition geistSans :: font_options where
  "geistSans = \<lparr>font_variable = ''--font-geist-sans'', font_subsets = [''latin''], font_display = ''swap'', font_preload = True\<rparr>"

definition geistMono :: font_options where
  "geistMono = \<lparr>font_variable = ''--font-geist-mono'', font_subsets = [''latin''], font_display = ''swap'', font_preload = True\<rparr>"

text \<open>
  Lines 36--55. \<open>font.variable\<close> is the class name the font loader generates
  for a font, a parameter here; that class defines the font's CSS variable.
\<close>

definition RootLayout :: "(font_options \<Rightarrow> string) \<Rightarrow> node list \<Rightarrow> node" where
  "RootLayout font_class children =
     El ''html'' [(''lang'', JStr ''en'')]
       [El ''head'' []
          [El ''link'' [(''rel'', JStr ''preconnect''), (''href'', JStr ''https://cdn.sanity.io''),
                       (''crossOrigin'', JStr ''anonymous'')] [],
           El ''link'' [(''rel'', JStr ''dns-prefetch''), (''href'', JStr ''https://cdn.sanity.io'')] []],
        El ''body'' [(''className'', JStr (font_class geistSans @ '' '' @ font_class geistMono @ '' antialiased'')),
                     (''suppressHydrationWarning'', JBool True)] children]"

section \<open>Metadata\<close>

text \<open>
  A metadata object's \<open>title\<close> is kept as the JSON value the code writes:
  a string, or an object with \<open>default\<close> and \<open>template\<close>. The post page's
  title is whatever the post's \<open>title\<close> field holds.
\<close>

record site_metadata =
  sm_title :: json
  sm_description :: string
  sm_keywords :: "string list"
  sm_authors :: "string list"
  sm_creator :: string
  sm_open_graph :: "(string \<times> string) list"

text \<open>Lines 19--34: the layout's metadata.\<close>

definition root_metadata :: site_metadata where
  "root_metadata =
     \<lparr>sm_title = JObj [(''default'', JStr ''Heritier Akilimali's Blog''), (''template'', JStr ''%s | Heritier Akilimali'')],
      sm_description = ''Personal blog by Heritier Akilimali featuring articles on web development, Next.js, and Sanity CMS'',
      sm_keywords = [''Next.js'', ''Sanity'', ''Web Development'', ''Heritier Akilimali'', ''Blog''],
      sm_authors = [''Heritier Akilimali''], sm_creator = ''Heritier Akilimali'',
      sm_open_graph = [(''type'', ''website''), (''locale'', ''en_US''), (''url'', ''https://heritierakilimali.com''),
                       (''siteName'', ''Heritier Akilimali's Blog'')]\<rparr>"

text \<open>\<open>src/app/blog/page.tsx\<close>, lines 25--28: the listing's metadata.\<close>

definition blog_metadata :: "json \<times> string" where
  "blog_metadata =
     (JStr ''Blog | Heritier Akilimali'',
      ''Explore the latest articles and insights from Heritier Akilimali on AI, coding, and technology.'')"

text \<open>
  The \<open>title\<close> entry \<open>generateMetadata\<close> gives the post page
  (\<open>src/app/blog/[slug]/page.tsx\<close>, lines 48 and 60): \<open>'Post Not Found'\<close>, or
  \<open>post.title\<close>; the key is always present, its value \<open>undefined\<close> when the
  post has no title.
\<close>

definition meta_page_title :: "meta_outcome \<Rightarrow> json option" where
  "meta_page_title m =
     (case m of
        MetaNotFound \<Rightarrow> Some (JStr ''Post Not Found'')
      | Meta md \<Rightarrow> md_title md)"

section \<open>Title resolution\<close>

text \<open>
  \<open>GetSubstitution\<close> of \<open>String.prototype.replace\<close> for a match of the
  pattern \<open>/%s/\<close>, which has no capture groups: in the replacement,
  \<open>$$\<close> is a dollar sign, \<open>$&\<close> the matched \<open>%s\<close>, \<open>$`\<close> the part of the
  template before the match and \<open>$'\<close> the part after it; any other dollar sign
  stands for itself.
\<close>

fun get_substitution :: "string \<Rightarrow> string \<Rightarrow> string \<Rightarrow> string" where
  "get_substitution pre post [] = []"
| "get_substitution pre post (c # cs) =
     (if c = CHR ''$'' \<and> cs \<noteq> [] then
        (if hd cs = CHR ''$'' then CHR ''$'' # get_substitution pre post (tl cs)
         else if hd cs = CHR ''&'' then ''%s'' @ get_substitution pre post (tl cs)
         else if hd cs = CHR 0x60 then pre @ get_substitution pre post (tl cs)
         else if hd cs = CHR 0x27 then post @ get_substitution pre post (tl cs)
         else c # get_substitution pre post cs)
      else c # get_substitution pre post cs)"

text \<open>
  \<open>template.replace(/%s/g, r)\<close>: each \<open>%s\<close> of the template, left to right,
  is replaced by the substitution of \<open>r\<close>; \<open>pre\<close> is the part of the
  template already scanned.
\<close>

fun replace_pct :: "string \<Rightarrow> string \<Rightarrow> string \<Rightarrow> string" where
  "replace_pct r pre [] = []"
| "replace_pct r pre (c # cs) =
     (if c = CHR ''%'' \<and> cs \<noteq> [] \<and> hd cs = CHR ''s''
      then get_substitution pre (tl cs) r @ replace_pct r (pre @ ''%s'') (tl cs)
      else c # replace_pct r (pre @ [c]) cs)"

text \<open>
  Next.js's \<open>resolveTitleTemplate(template, title)\<close>: \<open>template ?
  template.replace(/%s/g, title) : title\<close>; the title is converted by
  \<open>ToString\<close>, and a template that is truthy but not a string has no
  \<open>replace\<close>.
\<close>

definition resolveTitleTemplate :: "json option \<Rightarrow> json \<Rightarrow> json result" where
  "resolveTitleTemplate template title =
     (if truthy_opt template then
        (case template of
           Some (JStr t) \<Rightarrow> Inr (JStr (replace_pct (json_str title) [] t))
         | _ \<Rightarrow> Inl (TypeError ''template.replace''))
      else Inr title)"

text \<open>
  Next.js's \<open>resolveTitle(title, stashedTemplate)\<close> on the value of a
  segment's \<open>title\<close> key: a string goes through the stashed template; an
  object gives its \<open>default\<close> through the stashed template, or its truthy
  \<open>absolute\<close> as it is, and hands its \<open>template\<close> down; a falsy value or an
  array gives no title; on any other truthy value the test \<open>'template' in
  title\<close> throws. The result is the title's \<open>absolute\<close> (rendered in
  \<open>title\<close> when truthy) and the template handed down.
\<close>

definition resolveTitle :: "json option \<Rightarrow> json option \<Rightarrow> (json \<times> json option) result" where
  "resolveTitle title stashed =
     (case title of
        None \<Rightarrow> Inr (JStr [], None)
      | Some JNull \<Rightarrow> Inr (JStr [], None)
      | Some (JBool b) \<Rightarrow> (if b then Inl (TypeError ''in'') else Inr (JStr [], None))
      | Some (JNum n) \<Rightarrow> (if n \<noteq> 0 then Inl (TypeError ''in'') else Inr (JStr [], None))
      | Some (JStr s) \<Rightarrow> bind_res (resolveTitleTemplate stashed (JStr s)) (\<lambda>r. Inr (js_or (Some r) (JStr s), None))
      | Some (JArr _) \<Rightarrow> Inr (JStr [], None)
      | Some (JObj ps) \<Rightarrow>
          bind_res (case get_prop (JObj ps) ''default'' of
                      None \<Rightarrow> Inr None
                    | Some d \<Rightarrow> bind_res (resolveTitleTemplate stashed d) (\<lambda>r. Inr (Some r)))
            (\<lambda>res. let abs = get_prop (JObj ps) ''absolute'' in
               Inr (js_or (if truthy_opt abs then abs else res) (JStr []), get_prop (JObj ps) ''template'')))"

text \<open>
  The segments' metadata, root first (\<open>accumulateMetadata\<close>): a segment
  without a \<open>title\<close> key keeps the title so far; one with the key resolves
  it against the template of the title so far, \<open>title?.template || null\<close>.
  The default title is \<open>null\<close>.
\<close>

definition merge_title ::
  "(json \<times> json option) result \<Rightarrow> json option option \<Rightarrow> (json \<times> json option) result" where
  "merge_title acc seg =
     (case seg of
        None \<Rightarrow> acc
      | Some t \<Rightarrow> bind_res acc (\<lambda>(_, tmpl). resolveTitle t (if truthy_opt tmpl then tmpl else None)))"

definition document_title :: "json option option list \<Rightarrow> json result" where
  "document_title segs = bind_res (foldl merge_title (Inr (JStr [], None)) segs) (\<lambda>(a, _). Inr a)"

section \<open>Lemmas\<close>

lemma get_substitution_no_dollar: "CHR ''$'' \<notin> set r \<Longrightarrow> get_substitution pre post r = r"
  by (induction pre post r rule: get_substitution.induct) auto

lemma replace_pct_root:
  "replace_pct r [] ''%s | Heritier Akilimali'' = get_substitution [] '' | Heritier Akilimali'' r @ '' | Heritier Akilimali''"
  by simp

lemma document_title_root:
  "document_title [Some (Some (sm_title root_metadata)), t] =
     (case t of
        None \<Rightarrow> Inr (JStr ''Heritier Akilimali's Blog'')
      | Some tv \<Rightarrow> bind_res (resolveTitle tv (Some (JStr ''%s | Heritier Akilimali''))) (\<lambda>(a, _). Inr a))"
  by (cases t) (simp_all add: document_title_def merge_title_def resolveTitle_def root_metadata_def
      resolveTitleTemplate_def truthy_opt_def js_or_def bind_res_def replace_pct_root)

lemma generateMetadata_title:
  assumes "generateMetadata cfg u docs seg = Inr m" and "decodeURIComponent seg = Inr s"
  shows "meta_page_title m =
           (case post_query s docs of None \<Rightarrow> Some (JStr ''Post Not Found'') | Some p \<Rightarrow> get_prop p ''title'')"
proof (cases "post_query s docs")
  case None
  with assms show ?thesis by (simp add: generateMetadata_def meta_page_title_def)
next
  case (Some p)
  with assms obtain md where "m = Meta md" and "md_title md = get_prop p ''title''"
    by (auto simp: generateMetadata_def)
  with Some show ?thesis by (simp add: meta_page_title_def)
qed

text \<open>
  The blog index's title is "Blog | Heritier Akilimali | Heritier Akilimali":
  its metadata already ends with the site name, and the root layout's
  template appends it again.
\<close>

lemma blog_title_duplicated:
  "document_title [Some (Some (sm_title root_metadata)), Some (Some (fst blog_metadata))] =
     Inr (JStr ''Blog | Heritier Akilimali | Heritier Akilimali'')"
  by (simp add: document_title_root resolveTitle_def resolveTitleTemplate_def truthy_opt_def js_or_def
      bind_res_def blog_metadata_def)

section \<open>Properties\<close>

text \<open>
  C31. The post page's document title: "Post Not Found | Heritier Akilimali"
  when no post has the decoded slug; for a string title, the title put into
  the layout's template "%s | Heritier Akilimali", where the replacement
  patterns $$, $&, $` and $' of the title are expanded; for an object, its
  truthy absolute, else its default put into the template; no title for an
  absent, null, false or zero title or an array; and a TypeError for a
  non-zero number or true.
\<close>

theorem post_document_title:
  assumes "generateMetadata cfg u docs seg = Inr m" and "decodeURIComponent seg = Inr s"
  shows "document_title [Some (Some (sm_title root_metadata)), Some (meta_page_title m)] =
           (case post_query s docs of
              None \<Rightarrow> Inr (JStr ''Post Not Found | Heritier Akilimali'')
            | Some p \<Rightarrow>
                (case get_prop p ''title'' of
                   Some (JStr t) \<Rightarrow> Inr (JStr (get_substitution [] '' | Heritier Akilimali'' t @ '' | Heritier Akilimali''))
                 | Some (JObj ps) \<Rightarrow>
                     Inr (if truthy_opt (get_prop (JObj ps) ''absolute'') then the (get_prop (JObj ps) ''absolute'')
                          else case get_prop (JObj ps) ''default'' of
                                 None \<Rightarrow> JStr []
                               | Some d \<Rightarrow> JStr (get_substitution [] '' | Heritier Akilimali'' (json_str d) @ '' | Heritier Akilimali''))
                 | Some (JNum n) \<Rightarrow> (if n = 0 then Inr (JStr []) else Inl (TypeError ''in''))
                 | Some (JBool b) \<Rightarrow> (if b then Inl (TypeError ''in'') else Inr (JStr []))
                 | _ \<Rightarrow> Inr (JStr [])))"
  unfolding generateMetadata_title [OF assms] document_title_root
  by (auto simp: resolveTitle_def resolveTitleTemplate_def truthy_opt_def js_or_def bind_res_def Let_def
      split: option.split json.split)

theorem post_document_title_witness:
  "document_title [Some (Some (sm_title root_metadata)),
                   Some (meta_page_title (projr (generateMetadata \<lparr>projectId = None, dataset = None\<rparr> (\<lambda>_ _ _. Inr ''u'')
                      [JObj [(''_type'', JStr ''post''), (''title'', JStr ''Save $& now''), (''slug'', JObj [(''current'', JStr ''h'')])]] ''h'')))]
     = Inr (JStr ''Save %s now | Heritier Akilimali'')"
proof -
  let ?d = "[JObj [(''_type'', JStr ''post''), (''title'', JStr ''Save $& now''), (''slug'', JObj [(''current'', JStr ''h'')])]]"
  have dec: "decodeURIComponent ''h'' = Inr ''h''" by (simp add: decodeURIComponent_no_percent)
  have q: "post_query ''h'' ?d = Some (hd ?d)"
    by (simp add: post_query_def is_post_def doc_slug_def)
  have "\<not> isl (generateMetadata \<lparr>projectId = None, dataset = None\<rparr> (\<lambda>_ _ _. Inr ''u'') ?d ''h'')"
    by (simp add: generateMetadata_def dec q post_image_url_def url_for_available_def)
  then obtain m where g: "generateMetadata \<lparr>projectId = None, dataset = None\<rparr> (\<lambda>_ _ _. Inr ''u'') ?d ''h'' = Inr m"
    by (cases "generateMetadata \<lparr>projectId = None, dataset = None\<rparr> (\<lambda>_ _ _. Inr ''u'') ?d ''h''") auto
  from post_document_title [OF g dec] q g show ?thesis by simp
qed

end
