(* ===== verification/NextConfig.thy ===== *)
theory NextConfig
  imports Prelude
begin

text \<open>
  The Next.js configuration, \<open>src/next.config.js\<close> (lines 2--18): the
  image optimiser accepts remote images only from the listed remote patterns,
  serves them as AVIF or WebP, and caches them for at least 60 seconds; the
  \<open>X-Powered-By\<close> header is disabled. Which URLs a pattern admits is the
  framework's \<open>matchRemotePattern\<close> (\<open>next/dist/shared/lib/match-remote-pattern\<close>),
  modelled from its documentation: an absent protocol, port or search admits
  any, the hostname and pathname are glob patterns in which \<open>*\<close> matches one
  label or segment and \<open>**\<close> any number of them, and an absent pathname is
  \<open>**\<close>. The URL is given by the components the WHATWG URL parser yields.
\<close>

section \<open>Configuration\<close>

record remote_pattern =
  rp_protocol :: "string option"
  rp_hostname :: string
  rp_port :: "string option"
  rp_pathname :: "string option"
  rp_search :: "string option"

record images_config =
  remotePatterns :: "remote_pattern list"
  formats :: "string list"
  minimumCacheTTL :: nat

record next_config =
  images :: images_config
  poweredByHeader :: bool

definition nextConfig :: next_config where
  "nextConfig =
     \<lparr>images = \<lparr>remotePatterns = [\<lparr>rp_protocol = Some ''https'', rp_hostname = ''cdn.sanity.io'', rp_port = None,
                                    rp_pathname = Some ''/images/**'', rp_search = None\<rparr>],
                formats = [''image/avif'', ''image/webp''], minimumCacheTTL = 60\<rparr>,
      poweredByHeader = False\<rparr>"

section \<open>Matching a URL\<close>

record url =
  url_protocol :: string
  url_hostname :: string
  url_port :: string
  url_pathname :: string
  url_search :: string

text \<open>\<open>s.split(d)\<close>: the pieces between the delimiters, never an empty list.\<close>

fun split_on :: "char \<Rightarrow> string \<Rightarrow> string list" where
  "split_on d [] = [[]]"
| "split_on d (c # cs) =
     (if c = d then [] # split_on d cs
      else (case split_on d cs of w # ws \<Rightarrow> (c # w) # ws | [] \<Rightarrow> [[c]]))"

text \<open>A glob over the pieces of a name: \<open>**\<close> any number of pieces, \<open>*\<close> one piece.\<close>

fun glob_match :: "string list \<Rightarrow> string list \<Rightarrow> bool" where
  "glob_match [] ss = (ss = [])"
| "glob_match (p # ps) [] = (p = ''**'' \<and> glob_match ps [])"
| "glob_match (p # ps) (s # ss) =
     (if p = ''**'' then glob_match ps (s # ss) \<or> glob_match (p # ps) ss
      else (p = ''*'' \<or> p = s) \<and> glob_match ps ss)"

definition strip_colon :: "string \<Rightarrow> string" where
  "strip_colon s = (if s \<noteq> [] \<and> last s = CHR '':'' then butlast s else s)"

definition matchRemotePattern :: "remote_pattern \<Rightarrow> url \<Rightarrow> bool" where
  "matchRemotePattern p u \<longleftrightarrow>
     (case rp_protocol p of None \<Rightarrow> True | Some pr \<Rightarrow> strip_colon pr = strip_colon (url_protocol u)) \<and>
     (case rp_port p of None \<Rightarrow> True | Some po \<Rightarrow> po = url_port u) \<and>
     glob_match (split_on CHR ''.'' (rp_hostname p)) (split_on CHR ''.'' (url_hostname u)) \<and>
     (case rp_search p of None \<Rightarrow> True | Some se \<Rightarrow> se = url_search u) \<and>
     glob_match (split_on CHR ''/'' (case rp_pathname p of None \<Rightarrow> ''**'' | Some pa \<Rightarrow> pa))
                (split_on CHR ''/'' (url_pathname u))"

definition image_allowed :: "next_config \<Rightarrow> url \<Rightarrow> bool" where
  "image_allowed cfg u \<longleftrightarrow> list_ex (\<lambda>p. matchRemotePattern p u) (remotePatterns (images cfg))"

section \<open>Lemmas\<close>

lemma split_on_nonempty [simp]: "split_on d s \<noteq> []"
  by (induction s) (auto split: list.split)

lemma split_on_no_delim: "d \<notin> set w \<Longrightarrow> split_on d w = [w]"
  by (induction w) auto

lemma split_on_delim: "d \<notin> set w \<Longrightarrow> split_on d (w @ d # r) = w # split_on d r"
  by (induction w) auto

lemma join_split_on: "join [d] (split_on d s) = s"
proof (induction s)
  case Nil
  then show ?case by simp
next
  case (Cons c cs)
  then show ?case
    by (cases "split_on d cs"; cases "tl (split_on d cs)") auto
qed

lemma split_on_inj: "split_on d s = split_on d t \<Longrightarrow> s = t"
  by (metis join_split_on)

lemma glob_match_literal:
  "list_all (\<lambda>p. p \<noteq> ''**'' \<and> p \<noteq> ''*'') ps \<Longrightarrow> glob_match ps ss \<longleftrightarrow> ps = ss"
  by (induction ps ss rule: glob_match.induct) auto

lemma glob_match_prefix_globstar:
  "list_all (\<lambda>p. p \<noteq> ''**'' \<and> p \<noteq> ''*'') ps \<Longrightarrow> glob_match (ps @ [''**'']) ss \<longleftrightarrow> take (length ps) ss = ps"
proof (induction ps arbitrary: ss)
  case Nil
  have "glob_match [''**''] ss" for ss by (induction ss) auto
  then show ?case by simp
next
  case (Cons p ps)
  then show ?case by (cases ss) auto
qed

lemma split_on_images:
  "take 2 (split_on CHR ''/'' s) = [[], ''images''] \<longleftrightarrow> s = ''/images'' \<or> starts_with s ''/images/''"
proof
  assume t: "take 2 (split_on CHR ''/'' s) = [[], ''images'']"
  show "s = ''/images'' \<or> starts_with s ''/images/''"
  proof (cases "CHR ''/'' \<in> set s")
    case False
    with t show ?thesis by (simp add: split_on_no_delim)
  next
    case True
    then obtain w r where s: "s = w @ CHR ''/'' # r" and w: "CHR ''/'' \<notin> set w"
      by (blast dest: split_list_first)
    from t s w have t': "w # take 1 (split_on CHR ''/'' r) = [[], ''images'']"
      by (simp add: split_on_delim)
    obtain x xs where sx: "split_on CHR ''/'' r = x # xs"
      using split_on_nonempty by (cases "split_on CHR ''/'' r") auto
    from t' sx have "w = []" and r: "x = ''images''" by auto
    show ?thesis
    proof (cases "CHR ''/'' \<in> set r")
      case False
      with r sx s \<open>w = []\<close> show ?thesis by (simp add: split_on_no_delim)
    next
      case True
      then obtain w2 r2 where "r = w2 @ CHR ''/'' # r2" and "CHR ''/'' \<notin> set w2"
        by (blast dest: split_list_first)
      with r sx s \<open>w = []\<close> show ?thesis by (simp add: split_on_delim)
    qed
  qed
next
  assume "s = ''/images'' \<or> starts_with s ''/images/''"
  then show "take 2 (split_on CHR ''/'' s) = [[], ''images'']"
  proof
    assume "starts_with s ''/images/''"
    then obtain r where "s = ''/images/'' @ r" by auto
    then show ?thesis by simp
  qed simp
qed

lemma host_literal:
  "glob_match (split_on CHR ''.'' ''cdn.sanity.io'') (split_on CHR ''.'' h) \<longleftrightarrow> h = ''cdn.sanity.io''"
proof -
  have "glob_match (split_on CHR ''.'' ''cdn.sanity.io'') (split_on CHR ''.'' h) \<longleftrightarrow>
        split_on CHR ''.'' ''cdn.sanity.io'' = split_on CHR ''.'' h"
    by (rule glob_match_literal) simp
  then show ?thesis using split_on_inj [of "CHR ''.''" "''cdn.sanity.io''" h] by auto
qed

lemma path_images:
  "glob_match (split_on CHR ''/'' ''/images/**'') (split_on CHR ''/'' p) \<longleftrightarrow>
     p = ''/images'' \<or> starts_with p ''/images/''"
proof -
  have e: "split_on CHR ''/'' ''/images/**'' = [[], ''images''] @ [''**'']" by simp
  have g: "glob_match ([[], ''images''] @ [''**'']) (split_on CHR ''/'' p) \<longleftrightarrow>
           take (length [[], ''images'']) (split_on CHR ''/'' p) = [[], ''images'']"
    by (rule glob_match_prefix_globstar) simp
  show ?thesis unfolding e g using split_on_images [of p] by (simp add: numeral_2_eq_2)
qed

section \<open>Properties\<close>

text \<open>
  C16. The image optimiser admits exactly the HTTPS images of
  \<open>cdn.sanity.io\<close> whose path is \<open>/images\<close> or lies below it, on any port and
  with any query; in particular no look-alike host such as
  \<open>cdn.sanity.io.example.com\<close> and no other path of the CDN.
\<close>

theorem image_allowed_iff:
  "image_allowed nextConfig u \<longleftrightarrow>
     strip_colon (url_protocol u) = ''https'' \<and> url_hostname u = ''cdn.sanity.io'' \<and>
     (url_pathname u = ''/images'' \<or> starts_with (url_pathname u) ''/images/'')"
proof -
  have "image_allowed nextConfig u \<longleftrightarrow>
          strip_colon ''https'' = strip_colon (url_protocol u) \<and>
          glob_match (split_on CHR ''.'' ''cdn.sanity.io'') (split_on CHR ''.'' (url_hostname u)) \<and>
          glob_match (split_on CHR ''/'' ''/images/**'') (split_on CHR ''/'' (url_pathname u))"
    by (simp add: image_allowed_def nextConfig_def matchRemotePattern_def del: split_on.simps)
  then show ?thesis by (simp only: host_literal path_images) (auto simp: strip_colon_def)
qed

theorem image_allowed_iff_witness:
  "image_allowed nextConfig \<lparr>url_protocol = ''https:'', url_hostname = ''cdn.sanity.io'', url_port = [],
                              url_pathname = ''/images/p/production/a.png'', url_search = []\<rparr> \<and>
   \<not> image_allowed nextConfig \<lparr>url_protocol = ''https:'', url_hostname = ''cdn.sanity.io.example.com'', url_port = [],
                                url_pathname = ''/images/a.png'', url_search = []\<rparr>"
  using image_allowed_iff [of "\<lparr>url_protocol = ''https:'', url_hostname = ''cdn.sanity.io'', url_port = [],
                                url_pathname = ''/images/p/production/a.png'', url_search = []\<rparr>"]
        image_allowed_iff [of "\<lparr>url_protocol = ''https:'', url_hostname = ''cdn.sanity.io.example.com'', url_port = [],
                                url_pathname = ''/images/a.png'', url_search = []\<rparr>"]
  by (simp add: strip_colon_def)

end
