(* ===== verification/Site.thy ===== *)
theory Site
  imports Revalidate Content Uri
begin

text \<open>
  The site as one system: the webhook handler and the two caches it and the
  pages share. The framework's page cache (Next.js's full route cache) keeps
  each rendered page with the time it was rendered. A page's revalidation
  period is the lowest \<open>revalidate\<close> of its fetches, the 60 seconds of
  \<open>{ next: { revalidate: 60 } }\<close>. A request for a path that
  \<open>revalidatePath\<close> marked stale renders the page again and serves the new
  rendering (section 4.3 of the spec: "forcing regeneration on next
  request"); a request for a kept page older than the period is served the
  kept page while the page is rendered again in the background
  (stale-while-revalidate); otherwise the kept page is served. A rendering
  fetches the page's query through the data cache of the Content theory
  (section 4.4), and \<open>revalidatePath\<close> also drops the data-cache entries
  that the path's page fetched. Both caches are the framework's, modelled
  from the spec and the framework's documentation; the handler is
  \<^const>\<open>POST\<close> of \<open>src/app/api/revalidate/route.ts\<close>, and a page's query is
  the one \<open>getPosts\<close> or \<open>getPost\<close> fetches. A page stands for the content
  it was rendered from. A background rendering completes before the next
  request.
\<close>

section \<open>State and events\<close>

record site =
  site_now :: int
  data_cache :: "(query, json) fetch_cache"
  pages :: "string \<Rightarrow> (json \<times> int) option"
  page_cache :: cache_state

definition site0 :: "int \<Rightarrow> site" where
  "site0 t = \<lparr>site_now = t, data_cache = empty_cache, pages = Map.empty,
              page_cache = \<lparr>revalidated = [], stale = {}\<rparr>\<rparr>"

text \<open>
  The query a path's page fetches: the listing's for \<open>/blog\<close>, the single-post
  query with the decoded segment for \<open>/blog/<segment>\<close>; the home page, a
  path of more segments and a segment that does not decode fetch nothing.
\<close>

definition page_query :: "string \<Rightarrow> query option" where
  "page_query p =
     (if p = ''/blog'' then Some PostsQuery
      else if starts_with p ''/blog/'' \<and> 6 < length p \<and> CHR ''/'' \<notin> set (drop 6 p) then
        (case decodeURIComponent (drop 6 p) of Inr s \<Rightarrow> Some (PostQuery s) | Inl _ \<Rightarrow> None)
      else None)"

definition render_page :: "(int \<Rightarrow> query \<Rightarrow> json) \<Rightarrow> string \<Rightarrow> site \<Rightarrow> json \<times> site" where
  "render_page store p s =
     (case page_query p of
        None \<Rightarrow> (JNull, s)
      | Some q \<Rightarrow> (let (v, d) = cached_fetch store (site_now s) q (data_cache s) in (v, s\<lparr>data_cache := d\<rparr>)))"

text \<open>A rendering of a page, kept with the time and no longer stale.\<close>

definition regenerate :: "(int \<Rightarrow> query \<Rightarrow> json) \<Rightarrow> string \<Rightarrow> site \<Rightarrow> json \<times> site" where
  "regenerate store p s =
     (let (v, s') = render_page store p s in
      (v, s'\<lparr>pages := (pages s')(p \<mapsto> (v, site_now s)),
             page_cache := (page_cache s')\<lparr>stale := stale (page_cache s') - {p}\<rparr>\<rparr>))"

text \<open>A request for a page.\<close>

definition visit :: "(int \<Rightarrow> query \<Rightarrow> json) \<Rightarrow> string \<Rightarrow> site \<Rightarrow> json \<times> site" where
  "visit store p s =
     (case pages s p of
        Some (v, t) \<Rightarrow>
          if p \<in> stale (page_cache s) then regenerate store p s
          else if site_now s - t < revalidate_window then (v, s)
          else (v, snd (regenerate store p s))
      | None \<Rightarrow> regenerate store p s)"

text \<open>
  What \<open>revalidatePath\<close> does to the data cache: the entries the pages of
  the given paths fetched are dropped.
\<close>

definition purge_paths :: "string list \<Rightarrow> (query, json) fetch_cache \<Rightarrow> (query, json) fetch_cache" where
  "purge_paths ps c = c\<lparr>entries := (\<lambda>q. if Some q \<in> set (map page_query ps) then None else entries c q)\<rparr>"

text \<open>
  A webhook request: \<^const>\<open>POST\<close> on the page cache, and the purge of the
  data cache for the paths it invalidated, those it appended to the log.
\<close>

definition webhook :: "string option \<Rightarrow> request \<Rightarrow> site \<Rightarrow> response \<times> site" where
  "webhook env req s =
     (let (r, c) = POST env req (page_cache s) in
      (r, s\<lparr>page_cache := c,
            data_cache := purge_paths (drop (length (revalidated (page_cache s))) (revalidated c)) (data_cache s)\<rparr>))"

text \<open>Runs of the site: time goes forward, requests arrive in any order.\<close>

inductive site_run :: "string option \<Rightarrow> (int \<Rightarrow> query \<Rightarrow> json) \<Rightarrow> site \<Rightarrow> bool"
  for env :: "string option" and store :: "int \<Rightarrow> query \<Rightarrow> json" where
  start: "site_run env store (site0 t)"
| tick: "site_run env store s \<Longrightarrow> site_now s \<le> t \<Longrightarrow> site_run env store (s\<lparr>site_now := t\<rparr>)"
| hook: "site_run env store s \<Longrightarrow> site_run env store (snd (webhook env req s))"
| get: "site_run env store s \<Longrightarrow> site_run env store (snd (visit store p s))"

text \<open>What the page of a path shows when rendered from the store at time \<open>t\<close>.\<close>

definition page_content :: "(int \<Rightarrow> query \<Rightarrow> json) \<Rightarrow> int \<Rightarrow> string \<Rightarrow> json" where
  "page_content store t p = (case page_query p of None \<Rightarrow> JNull | Some q \<Rightarrow> store t q)"

text \<open>
  The invariant: the data cache's, and every kept page was rendered at or
  before the current time from the store's content of the window before.
\<close>

definition site_inv :: "(int \<Rightarrow> query \<Rightarrow> json) \<Rightarrow> site \<Rightarrow> bool" where
  "site_inv store s \<longleftrightarrow>
     cache_inv store (data_cache s) (site_now s) \<and>
     (\<forall>p v t. pages s p = Some (v, t) \<longrightarrow>
        t \<le> site_now s \<and> (\<exists>tf. v = page_content store tf p \<and> t - revalidate_window < tf \<and> tf \<le> t))"

section \<open>Lemmas\<close>

lemma render_page_fields [simp]:
  "site_now (snd (render_page store p s)) = site_now s"
  "pages (snd (render_page store p s)) = pages s"
  "page_cache (snd (render_page store p s)) = page_cache s"
  "data_cache (snd (render_page store p s)) =
     (case page_query p of None \<Rightarrow> data_cache s | Some q \<Rightarrow> snd (cached_fetch store (site_now s) q (data_cache s)))"
  by (simp_all add: render_page_def case_prod_beta split: option.split)

lemma regenerate_fields [simp]:
  "fst (regenerate store p s) = fst (render_page store p s)"
  "site_now (snd (regenerate store p s)) = site_now s"
  "pages (snd (regenerate store p s)) = (pages s)(p \<mapsto> (fst (render_page store p s), site_now s))"
  "data_cache (snd (regenerate store p s)) = data_cache (snd (render_page store p s))"
  by (simp_all add: regenerate_def case_prod_beta)

lemma render_page_fresh:
  assumes "cache_inv store (data_cache s) (site_now s)"
  shows "\<exists>tf. fst (render_page store p s) = page_content store tf p \<and>
              site_now s - revalidate_window < tf \<and> tf \<le> site_now s"
proof (cases "page_query p")
  case None
  then have "fst (render_page store p s) = page_content store (site_now s) p"
    by (simp add: render_page_def page_content_def)
  then show ?thesis by (auto simp: revalidate_window_def)
next
  case (Some q)
  from cached_fetch_from_store [OF assms, of q] Some show ?thesis
    by (auto simp: render_page_def page_content_def case_prod_beta)
qed

lemma render_page_inv:
  "cache_inv store (data_cache s) (site_now s) \<Longrightarrow>
   cache_inv store (data_cache (snd (render_page store p s))) (site_now s)"
  by (simp add: cache_inv_fetch split: option.split)

lemma cache_inv_purge: "cache_inv store c t \<Longrightarrow> cache_inv store (purge_paths ps c) t"
  by (simp add: cache_inv_def purge_paths_def)

lemma site_inv_start: "site_inv store (site0 t)"
  by (simp add: site_inv_def site0_def cache_inv_empty)

lemma site_inv_tick: "site_inv store s \<Longrightarrow> site_now s \<le> t \<Longrightarrow> site_inv store (s\<lparr>site_now := t\<rparr>)"
  unfolding site_inv_def by (fastforce intro: cache_inv_mono)

lemma site_inv_hook: "site_inv store s \<Longrightarrow> site_inv store (snd (webhook env req s))"
  by (auto simp: site_inv_def webhook_def cache_inv_purge split: prod.split)

lemma site_inv_regenerate:
  assumes "site_inv store s"
  shows "site_inv store (snd (regenerate store p s))"
proof -
  from assms have c: "cache_inv store (data_cache s) (site_now s)" by (simp add: site_inv_def)
  obtain tf where "fst (render_page store p s) = page_content store tf p"
      "site_now s - revalidate_window < tf" "tf \<le> site_now s"
    using render_page_fresh [OF c] by blast
  with assms render_page_inv [OF c, of p] show ?thesis
    by (auto simp: site_inv_def)
qed

lemma site_inv_get:
  assumes "site_inv store s"
  shows "site_inv store (snd (visit store p s))"
  using assms site_inv_regenerate [OF assms, of p]
  by (auto simp: visit_def split: option.split)

lemma site_run_inv: "site_run env store s \<Longrightarrow> site_inv store s"
  by (induction rule: site_run.induct)
     (blast intro: site_inv_start site_inv_tick site_inv_hook site_inv_get)+

lemma webhook_authorized:
  assumes "req_body req = Some body" and "body \<noteq> JNull"
    and "headers_get (req_headers req) ''x-webhook-secret'' = Some k" and "env = Some k"
  shows "site_now (snd (webhook env req s)) = site_now s"
    and "pages (snd (webhook env req s)) = pages s"
    and "stale (page_cache (snd (webhook env req s))) = stale (page_cache s) \<union> set (paths_to_revalidate body)"
    and "data_cache (snd (webhook env req s)) = purge_paths (paths_to_revalidate body) (data_cache s)"
  using assms by (simp_all add: webhook_def POST_def revalidate_all_state)

lemma visit_stale: "p \<in> stale (page_cache s) \<Longrightarrow> fst (visit store p s) = fst (render_page store p s)"
  by (simp add: visit_def split: option.split)

lemma render_page_purged:
  "page_query p = Some q \<Longrightarrow> entries (data_cache s) q = None \<Longrightarrow> fst (render_page store p s) = store (site_now s) q"
  by (simp add: render_page_def cached_fetch_def case_prod_beta)

lemma page_query_post:
  "s \<noteq> [] \<Longrightarrow> CHR ''/'' \<notin> set s \<Longrightarrow> decodeURIComponent s = Inr d \<Longrightarrow> page_query (''/blog/'' @ s) = Some (PostQuery d)"
  by (simp add: page_query_def starts_with_def)

text \<open>
  A kept page that has grown older than the period is served once more
  while it is rendered again: with content changing at time 50, the listing
  rendered at 0 is served at 100, and the request after it gets the new one.
\<close>

lemma expired_page_served_once:
  "fst (visit (\<lambda>t q. JNum (if t < 50 then 0 else 1)) ''/blog''
          ((snd (visit (\<lambda>t q. JNum (if t < 50 then 0 else 1)) ''/blog'' (site0 0)))\<lparr>site_now := 100\<rparr>)) = JNum 0 \<and>
   fst (visit (\<lambda>t q. JNum (if t < 50 then 0 else 1)) ''/blog''
          (snd (visit (\<lambda>t q. JNum (if t < 50 then 0 else 1)) ''/blog''
             ((snd (visit (\<lambda>t q. JNum (if t < 50 then 0 else 1)) ''/blog'' (site0 0)))\<lparr>site_now := 100\<rparr>)))) = JNum 1"
  by (simp add: visit_def regenerate_def render_page_def page_query_def site0_def empty_cache_def
      cached_fetch_def revalidate_window_def case_prod_beta)

lemma visit_kept_young:
  "\<exists>v t. pages (snd (visit store p s)) p = Some (v, t) \<and> site_now s - revalidate_window < t"
proof -
  have w: "0 < revalidate_window" by (simp add: revalidate_window_def)
  show ?thesis
    using w by (cases "pages s p") (auto simp: visit_def)
qed

section \<open>Properties\<close>

text \<open>
  C15. The webhook for a post reaches its readers: after an authorised
  webhook whose body is a post with slug s, the next request for the listing
  shows the store's current listing, and the next request for /blog/s shows
  the store's current answer for the decoded slug, whatever the two caches
  held before.
\<close>

theorem webhook_refreshes_post:
  assumes "req_body req = Some (JObj [(''_type'', JStr ''post''), (''slug'', JObj [(''current'', JStr sl)])])"
    and "headers_get (req_headers req) ''x-webhook-secret'' = Some k" and "env = Some k"
    and "sl \<noteq> []" and "CHR ''/'' \<notin> set sl" and "decodeURIComponent sl = Inr d"
  shows "fst (visit store ''/blog'' (snd (webhook env req s))) = store (site_now s) PostsQuery \<and>
         fst (visit store (''/blog/'' @ sl) (snd (webhook env req s))) = store (site_now s) (PostQuery d)"
proof -
  let ?b = "JObj [(''_type'', JStr ''post''), (''slug'', JObj [(''current'', JStr sl)])]"
  have paths: "paths_to_revalidate ?b = [''/'', ''/blog'', ''/blog/'' @ sl]"
    using assms(4) by (simp add: paths_to_revalidate_def slug_current_def)
  have pq: "page_query ''/blog'' = Some PostsQuery" "page_query (''/blog/'' @ sl) = Some (PostQuery d)"
    using page_query_post [OF assms(4-6)] by (simp_all add: page_query_def)
  note w = webhook_authorized [OF assms(1) _ assms(2,3), of s, unfolded paths]
  have "''/blog'' \<in> stale (page_cache (snd (webhook env req s)))"
       "''/blog/'' @ sl \<in> stale (page_cache (snd (webhook env req s)))"
    using w(3) by auto
  moreover have "entries (data_cache (snd (webhook env req s))) PostsQuery = None"
                "entries (data_cache (snd (webhook env req s))) (PostQuery d) = None"
    using w(4) pq by (simp_all add: purge_paths_def)
  ultimately show ?thesis
    using pq w(1) by (simp add: visit_stale render_page_purged)
qed

theorem webhook_refreshes_post_witness:
  "fst (visit (\<lambda>t q. JNum t) ''/blog''
          (snd (webhook (Some ''k'') \<lparr>req_headers = [(''x-webhook-secret'', ''k'')],
                    req_body = Some (JObj [(''_type'', JStr ''post''), (''slug'', JObj [(''current'', JStr ''hello'')])])\<rparr>
                  ((snd (visit (\<lambda>t q. JNum t) ''/blog'' (site0 0)))\<lparr>site_now := 10\<rparr>)))) = JNum 10 \<and>
   fst (visit (\<lambda>t q. JNum t) ''/blog/hello''
          (snd (webhook (Some ''k'') \<lparr>req_headers = [(''x-webhook-secret'', ''k'')],
                    req_body = Some (JObj [(''_type'', JStr ''post''), (''slug'', JObj [(''current'', JStr ''hello'')])])\<rparr>
                  ((snd (visit (\<lambda>t q. JNum t) ''/blog'' (site0 0)))\<lparr>site_now := 10\<rparr>)))) = JNum 10"
proof -
  have "decodeURIComponent ''hello'' = Inr ''hello''" by (simp add: decodeURIComponent_no_percent)
  from webhook_refreshes_post [where sl = "''hello''" and k = "''k''" and d = "''hello''", OF _ _ _ _ _ this,
      of "\<lparr>req_headers = [(''x-webhook-secret'', ''k'')],
           req_body = Some (JObj [(''_type'', JStr ''post''), (''slug'', JObj [(''current'', JStr ''hello'')])])\<rparr>"
         "Some ''k''" "\<lambda>t q. JNum t" "(snd (visit (\<lambda>t q. JNum t) ''/blog'' (site0 0)))\<lparr>site_now := 10\<rparr>"]
  show ?thesis by (simp add: headers_get_def)
qed

text \<open>
  C18. In every run, a request for a page is answered with the store's
  content of some instant of the last two minutes, except when the kept page
  is older than the 60-second period and not marked stale: then that page,
  rendered from content no newer than the request, is served once more. After
  every request the path's kept page is younger than the period.
\<close>

theorem site_served_bounded:
  assumes "site_run env store s"
  shows "(\<exists>tf. fst (visit store p s) = page_content store tf p \<and> tf \<le> site_now s \<and>
            (site_now s - 2 * revalidate_window < tf \<or>
             (\<exists>t. map_option snd (pages s p) = Some t \<and> p \<notin> stale (page_cache s) \<and>
                  revalidate_window \<le> site_now s - t))) \<and>
         (\<exists>v t. pages (snd (visit store p s)) p = Some (v, t) \<and> site_now s - revalidate_window < t \<and> t \<le> site_now s)"
proof -
  from site_run_inv [OF assms] have inv: "site_inv store s" .
  then have c: "cache_inv store (data_cache s) (site_now s)" by (simp add: site_inv_def)
  obtain tf where r: "fst (render_page store p s) = page_content store tf p"
      "site_now s - revalidate_window < tf" "tf \<le> site_now s"
    using render_page_fresh [OF c] by blast
  have w: "0 < revalidate_window" by (simp add: revalidate_window_def)
  show ?thesis
  proof (cases "pages s p")
    case None
    with r w show ?thesis by (auto simp: visit_def)
  next
    case (Some e)
    obtain v t where e: "e = (v, t)" by (cases e)
    from inv Some e have "t \<le> site_now s \<and> (\<exists>tk. v = page_content store tk p \<and> t - revalidate_window < tk \<and> tk \<le> t)"
      by (simp add: site_inv_def)
    then obtain tk where k: "v = page_content store tk p" "t - revalidate_window < tk" "tk \<le> t" "t \<le> site_now s"
      by blast
    consider (st) "p \<in> stale (page_cache s)"
      | (fresh) "p \<notin> stale (page_cache s)" "site_now s - t < revalidate_window"
      | (old) "p \<notin> stale (page_cache s)" "\<not> site_now s - t < revalidate_window"
      by blast
    then show ?thesis
    proof cases
      case st
      with Some e r w show ?thesis by (auto simp: visit_def)
    next
      case fresh
      with Some e k show ?thesis by (auto simp: visit_def)
    next
      case old
      with Some e k r w show ?thesis by (auto simp: visit_def)
    qed
  qed
qed

theorem site_served_bounded_witness:
  "(\<exists>tf. fst (visit (\<lambda>t q. JNum t) ''/blog'' (site0 0)) = page_content (\<lambda>t q. JNum t) tf ''/blog'' \<and> tf \<le> 0 \<and>
      (0 - 2 * revalidate_window < tf \<or>
       (\<exists>t. map_option snd (pages (site0 0) ''/blog'') = Some t \<and> ''/blog'' \<notin> stale (page_cache (site0 0)) \<and>
            revalidate_window \<le> 0 - t))) \<and>
   (\<exists>v t. pages (snd (visit (\<lambda>t q. JNum t) ''/blog'' (site0 0))) ''/blog'' = Some (v, t) \<and>
      0 - revalidate_window < t \<and> t \<le> 0)"
  using site_served_bounded [OF site_run.start [of "None" "\<lambda>t q. JNum t" 0], of "''/blog''"]
  by (simp add: site0_def)

text \<open>
  C19. Changed content reaches the readers: when the store's content for a
  page no longer changes from time t0 on, then from t0 + 120 s on, in every
  run, the request after any request for the page shows the new content,
  whenever it comes.
\<close>

theorem site_eventually_fresh:
  assumes "site_run env store s"
    and "\<forall>t \<ge> t0. page_content store t p = page_content store t0 p"
    and "t0 + 2 * revalidate_window \<le> site_now s" and "site_now s \<le> u"
  shows "fst (visit store p ((snd (visit store p s))\<lparr>site_now := u\<rparr>)) = page_content store t0 p"
proof -
  let ?s1 = "snd (visit store p s)"
  have run1: "site_run env store ?s1" using assms(1) by (rule site_run.get)
  have now1: "site_now ?s1 = site_now s"
    by (auto simp: visit_def split: option.split)
  have run2: "site_run env store (?s1\<lparr>site_now := u\<rparr>)"
    using run1 assms(4) now1 by (intro site_run.tick) simp_all
  have c2: "cache_inv store (data_cache (?s1\<lparr>site_now := u\<rparr>)) (site_now (?s1\<lparr>site_now := u\<rparr>))"
    using site_run_inv [OF run2] by (simp add: site_inv_def)
  from site_run_inv [OF run1] have inv1: "site_inv store ?s1" .
  have new: "v = page_content store t0 p" if "t0 \<le> tf" "v = page_content store tf p" for v tf
  proof -
    from assms(2) that(1) have "page_content store tf p = page_content store t0 p" by blast
    with that(2) show ?thesis by simp
  qed
  obtain tr where r: "fst (render_page store p (?s1\<lparr>site_now := u\<rparr>)) = page_content store tr p"
      "u - revalidate_window < tr"
    using render_page_fresh [OF c2] by auto
  have "t0 \<le> tr" using r(2) assms(3,4) by (simp add: revalidate_window_def)
  then have rnew: "fst (render_page store p (?s1\<lparr>site_now := u\<rparr>)) = page_content store t0 p"
    using new r(1) by blast
  obtain v t where kept: "pages ?s1 p = Some (v, t)" "site_now s - revalidate_window < t"
    using visit_kept_young by blast
  from inv1 kept have "\<exists>tk. v = page_content store tk p \<and> t - revalidate_window < tk \<and> tk \<le> t"
    by (simp add: site_inv_def)
  then obtain tk where "v = page_content store tk p" "t - revalidate_window < tk"
    by blast
  with kept(2) assms(3) new have vnew: "v = page_content store t0 p"
    by (simp add: revalidate_window_def)
  show ?thesis
    using kept(1) vnew rnew by (auto simp: visit_def)
qed

theorem site_eventually_fresh_witness:
  "fst (visit (\<lambda>t q. JNum (if t < 5 then 0 else 1)) ''/blog''
          ((snd (visit (\<lambda>t q. JNum (if t < 5 then 0 else 1)) ''/blog'' (site0 200)))\<lparr>site_now := 300\<rparr>))
     = page_content (\<lambda>t q. JNum (if t < 5 then 0 else 1)) 5 ''/blog''"
  by (rule site_eventually_fresh [OF site_run.start [of None]])
     (simp_all add: page_content_def page_query_def site0_def revalidate_window_def)

end
