(* ===== verification/Client.thy ===== *)
theory Client
  imports PostPage
begin

text \<open>
  The content-store client, \<open>src/app/sanity/client.ts\<close>: \<open>createClient\<close> with
  the project, dataset and API version from the environment, the CDN in
  production, the \<open>published\<close> perspective and stega encoding off. The page
  reads back \<open>projectId\<close> and \<open>dataset\<close> with \<open>client.config()\<close>
  (\<open>src/app/blog/[slug]/page.tsx\<close>, line 19), the \<^typ>\<open>client_config\<close> part
  of the options. The perspective decides which documents a query sees: with
  \<open>published\<close>, Sanity leaves out drafts, the documents whose \<open>_id\<close> starts
  with \<open>drafts.\<close>; that is the content store's behaviour, modelled from its
  documentation. The CDN and the API version choose the transport and are
  recorded only.
\<close>

section \<open>The client\<close>

record client_options = client_config +
  apiVersion :: "json option"
  useCdn :: bool
  perspective :: string
  stega :: bool

definition createClient :: "(string \<Rightarrow> string option) \<Rightarrow> client_options" where
  "createClient env =
     \<lparr>projectId = map_option JStr (env ''NEXT_PUBLIC_SANITY_PROJECT_ID''),
      dataset = map_option JStr (env ''NEXT_PUBLIC_SANITY_DATASET''),
      apiVersion = map_option JStr (env ''NEXT_PUBLIC_SANITY_API_VERSION''),
      useCdn = (env ''NODE_ENV'' = Some ''production''),
      perspective = ''published'', stega = False\<rparr>"

definition is_draft :: "json \<Rightarrow> bool" where
  "is_draft d \<longleftrightarrow> starts_with (js_to_string (get_prop d ''_id'')) ''drafts.''"

definition visible_docs :: "client_options \<Rightarrow> json list \<Rightarrow> json list" where
  "visible_docs cfg docs = (if perspective cfg = ''published'' then filter (\<lambda>d. \<not> is_draft d) docs else docs)"

text \<open>The store as the client sees it, at the time of each fetch.\<close>

definition client_store ::
  "client_options \<Rightarrow> (int \<Rightarrow> string) \<Rightarrow> (int \<Rightarrow> json list) \<Rightarrow> int \<Rightarrow> query \<Rightarrow> json" where
  "client_store cfg clock docs_at t q = run_query (clock t) (visible_docs cfg (docs_at t)) q"

section \<open>Lemmas\<close>

lemma client_of_createClient: "client_config.truncate (createClient env) = client_of_env env"
  by (simp add: createClient_def client_of_env_def client_config.truncate_def)

lemma set_posts_query_sub: "set (posts_query now docs) \<subseteq> set docs"
  by (auto simp: set_posts_query)

lemma post_query_in: "post_query s docs = Some d \<Longrightarrow> d \<in> set docs"
  by (auto simp: post_query_def dest: find_Some_iff [THEN iffD1] intro: nth_mem)

section \<open>Properties\<close>

text \<open>
  C33. No draft reaches the pages: with the site's client, whatever the
  environment, the listing query returns only published documents, and the
  single-post query returns either nothing or a published document.
\<close>

theorem client_store_no_drafts:
  "list_all (\<lambda>d. \<not> is_draft d) (json_items (Some (client_store (createClient env) clock docs_at t PostsQuery))) \<and>
   (client_store (createClient env) clock docs_at t (PostQuery s) = JNull \<or>
    \<not> is_draft (client_store (createClient env) clock docs_at t (PostQuery s)))"
  using set_posts_query_sub [of "clock t" "filter (\<lambda>d. \<not> is_draft d) (docs_at t)"]
  by (auto simp: client_store_def run_query_def visible_docs_def createClient_def list_all_iff json_items_def
      dest: post_query_in split: option.splits)

theorem client_store_no_drafts_witness:
  "\<not> is_draft (client_store (createClient (\<lambda>_. None)) (\<lambda>_. ''2025'')
      (\<lambda>_. [JObj [(''_id'', JStr ''drafts.p''), (''_type'', JStr ''post''), (''slug'', JObj [(''current'', JStr ''p'')])],
             JObj [(''_id'', JStr ''p''), (''_type'', JStr ''post''), (''slug'', JObj [(''current'', JStr ''p'')])]])
      0 (PostQuery ''p''))"
proof -
  let ?c = "client_store (createClient (\<lambda>_. None)) (\<lambda>_. ''2025'')
      (\<lambda>_. [JObj [(''_id'', JStr ''drafts.p''), (''_type'', JStr ''post''), (''slug'', JObj [(''current'', JStr ''p'')])],
             JObj [(''_id'', JStr ''p''), (''_type'', JStr ''post''), (''slug'', JObj [(''current'', JStr ''p'')])]])
      0 (PostQuery ''p'')"
  have "?c = JNull \<or> \<not> is_draft ?c" using client_store_no_drafts by blast
  moreover have "?c \<noteq> JNull"
    by (simp add: client_store_def run_query_def visible_docs_def createClient_def is_draft_def post_query_def
        is_post_def doc_slug_def)
  ultimately show ?thesis by blast
qed

end
