(* ===== verification/Spec2Isabelle.thy ===== *)
theory Spec2Isabelle
  imports Revalidate PortableText Content Uri BlogList PostPage Home Layout NextConfig Site Client
begin

text \<open>
  \<^bold>\<open>A verified model of the blog front end.\<close>

  The repository is a Next.js site that renders blog posts fetched from a
  Sanity content store and invalidates its page cache from a webhook. Its
  parts, and the theory that models each:

  \<^item> \<^emph>\<open>Prelude\<close>: the JavaScript the sources rely on: JSON values
    (\<^typ>\<open>json\<close>), property access and optional chaining (\<^const>\<open>get_prop\<close>,
    \<^const>\<open>opt_prop\<close>), truthiness (\<^const>\<open>truthy\<close>), \<open>||\<close> (\<^const>\<open>js_or\<close>),
    \<open>ToString\<close> (\<^const>\<open>js_to_string\<close>), exceptions as the sum type
    \<^typ>\<open>'a result\<close> with \<^const>\<open>bind_res\<close> and \<^const>\<open>map_res\<close>, the React
    element tree (\<^typ>\<open>node\<close>) with React's rules for child expressions
    (\<^const>\<open>json_child\<close>, \<^const>\<open>jsx_and\<close>), and the shared lemmas.
  \<^item> \<^emph>\<open>Revalidate\<close>: \<open>src/app/api/revalidate/route.ts\<close>. \<^const>\<open>POST\<close> is the
    handler with its state: the request (\<^typ>\<open>request\<close>) and the page cache
    (\<^typ>\<open>cache_state\<close>: the log of \<open>revalidatePath\<close> calls and the stale
    paths). \<^const>\<open>paths_to_revalidate\<close> is the path selector (lines 15--29),
    \<^const>\<open>revalidate_all\<close> the invalidation loop, \<^const>\<open>secret_matches\<close> the
    strict comparison of the header with the configured secret, read with the
    Fetch API's \<^const>\<open>headers_get\<close>.
  \<^item> \<^emph>\<open>PortableText\<close>: \<open>src/app/components/PortableTextComponents.tsx\<close>, the
    document-to-view mapper. One definition per entry of the component table
    (\<^const>\<open>pt_types\<close>, \<^const>\<open>pt_block_style\<close>, \<^const>\<open>pt_list\<close>,
    \<^const>\<open>pt_list_item\<close>, \<^const>\<open>pt_mark\<close>, with \<^const>\<open>MemoizedImage\<close>,
    \<^const>\<open>CodeBlock\<close>, \<^const>\<open>render_callout\<close>, \<^const>\<open>link_mark\<close>); the
    code block's highlighter reads its children as a code string
    (\<^const>\<open>highlighter_code\<close>). The traversal of \<open>@portabletext/react\<close>
    (\<^const>\<open>render_doc\<close>: list grouping, mark resolution, the fallbacks for
    unknown kinds) works on documents read from JSON by \<^const>\<open>body_nodes\<close>,
    which recognises blocks by the shape the toolkit's
    \<open>isPortableTextBlock\<close> checks (\<^const>\<open>is_pt_block\<close>).
  \<^item> \<^emph>\<open>Content\<close>: the GROQ queries of \<open>src/app/blog/page.tsx\<close> and
    \<open>src/app/blog/[slug]/page.tsx\<close> over the store's documents
    (\<^const>\<open>posts_query\<close> with the insertion sort \<^const>\<open>order_desc\<close>,
    \<^const>\<open>post_query\<close>, \<^const>\<open>all_posts_query\<close>), and the 60-second fetch
    cache (\<^const>\<open>cached_fetch\<close>, runs \<^const>\<open>fetch_run\<close>).
  \<^item> \<^emph>\<open>Uri\<close>: \<^const>\<open>encodeURIComponent\<close> and \<^const>\<open>decodeURIComponent\<close>,
    the built-ins the two pages use on slugs, over UTF-8 byte strings.
  \<^item> \<^emph>\<open>BlogList\<close>: \<open>BlogPage\<close> of \<open>src/app/blog/page.tsx\<close> (\<^const>\<open>BlogPage\<close>,
    one \<^const>\<open>post_card\<close> per post).
  \<^item> \<^emph>\<open>PostPage\<close>: \<open>PostPage\<close>, \<open>generateMetadata\<close> and
    \<open>generateStaticParams\<close> of \<open>src/app/blog/[slug]/page.tsx\<close>, and the
    client configuration of \<open>src/app/sanity/client.ts\<close>
    (\<^const>\<open>url_for_available\<close>).
  \<^item> \<^emph>\<open>Home\<close>: \<open>Home\<close> of \<open>src/app/page.tsx\<close>, the element tree of the home
    page as a function of the current year (\<^const>\<open>Home\<close>).
  \<^item> \<^emph>\<open>Layout\<close>: \<open>RootLayout\<close> and \<open>metadata\<close> of \<open>src/app/layout.tsx\<close>
    (\<^const>\<open>RootLayout\<close>, \<^const>\<open>root_metadata\<close>), the listing's metadata
    (\<^const>\<open>blog_metadata\<close>), the post page's \<open>title\<close> entry
    (\<^const>\<open>meta_page_title\<close>), and Next.js title resolution over the JSON
    value of each segment's title (\<^const>\<open>resolveTitle\<close>,
    \<^const>\<open>document_title\<close>), with the replacement patterns of
    \<open>String.prototype.replace\<close> (\<^const>\<open>get_substitution\<close>).
  \<^item> \<^emph>\<open>NextConfig\<close>: \<open>src/next.config.js\<close> (\<^const>\<open>nextConfig\<close>) and the
    framework's remote-image matching (\<^const>\<open>image_allowed\<close>,
    \<^const>\<open>matchRemotePattern\<close>, globs by \<^const>\<open>glob_match\<close>).
  \<^item> \<^emph>\<open>Site\<close>: the site as one system: the framework's page cache
    (\<^const>\<open>visit\<close>: a path marked stale is rendered again before it is
    served, a kept page older than 60 seconds is served once more while it is
    rendered again, stale-while-revalidate), the webhook handler acting on it
    and dropping the data-cache entries of the paths it invalidates
    (\<^const>\<open>webhook\<close>, \<^const>\<open>purge_paths\<close>), the data cache beneath, and
    runs of requests in any order (\<^const>\<open>site_run\<close>).
  \<^item> \<^emph>\<open>Client\<close>: \<open>createClient\<close> of \<open>src/app/sanity/client.ts\<close>
    (\<^const>\<open>createClient\<close>) and the published perspective it sets
    (\<^const>\<open>visible_docs\<close>).

  How they interact: the listing page fetches the listing query through the
  fetch cache (\<^const>\<open>getPosts\<close>) and links each post to \<open>/blog/\<close> followed
  by its encoded slug; the post page decodes its route parameter, fetches the
  single-post query (\<^const>\<open>getPost\<close>) and hands the body to the mapper; the
  webhook invalidates \<open>/\<close>, \<open>/blog\<close> and \<open>/blog/\<close> followed by the raw slug;
  the root layout wraps every page and its title template shapes every page
  title. This theory states the properties that span components.

  What the lemmas show, by theory. Revalidate: the spec's path table (C1--C3),
  the well-formedness of the path set (C4), the handler on each branch,
  success and errors (C5--C9), and at most three invalidations per request
  (C10). PortableText: every rendered link opening a new tab carries
  \<open>rel="noopener noreferrer"\<close> at any depth (C11, by a rule set
  \<open>render_good\<close> over every rendering step), the exact failure modes of
  rendering (C12) and the exact condition for success (C34), the link rule
  (C13), the refinement of the spec's block-style table (C14); the traversal
  terminates on every document (lemma \<open>render_doc_terminates\<close>, by its domain
  predicate); the components never throw on props of their declared
  interfaces (lemmas \<open>MemoizedImage_typed\<close>, \<open>CodeBlock_typed\<close>), and the
  protocol-relative link, the image without asset
  URL, the default code language and list grouping are lemmas. Home: the
  safe links and the link list of the home page (lemma). NextConfig: the
  remote images admitted are exactly those under
  \<open>https://cdn.sanity.io/images\<close> (C16). Layout: the post page's document
  title on every kind of title value, including the expansion of
  \<open>$&\<close>, \<open>$`\<close>, \<open>$'\<close> and \<open>$$\<close> in a string title (C31); the blog index's
  duplicated site name is a lemma. Content: the listing query is sorted and
  complete (C17), the single-post query (lemma \<open>post_query_spec\<close>), cache hits
  within the window (C20) and bounded staleness in every run, by rule
  induction over \<^const>\<open>fetch_run\<close> with the invariant \<^const>\<open>cache_inv\<close>
  (C21). Across components: a listed post's link decodes to its slug and
  never leads to the not-found page (C22, through the round trip
  \<open>uri_roundtrip\<close> proved in Uri), and the webhook's post path equals the
  listing's link only for slugs made of unreserved characters (C23). Pages:
  malformed parameters (C24), priority loading of the first six cards (C25),
  independence of the listing from the image builder (C26), the listing's
  crash on a post without slug (C27) and its success on documents of the
  \<open>Post\<close> interface (C30), the post page's not-found (C28), its uncaught
  builder exception (C29), that it serves posts the listing hides as
  future-dated (C32), and the set of prerendered parameters (lemma
  \<open>generateStaticParams_set\<close>). Site: after an authorised webhook for a post,
  the next requests for the listing and for the post's page show the store's
  current content, whatever either cache held (C15); in every run, by rule
  induction over \<^const>\<open>site_run\<close> with the invariant \<^const>\<open>site_inv\<close>, a
  request is answered with content of the last two minutes except for the
  one request that finds the kept page expired, and leaves a kept page
  younger than 60 seconds (C18); once the store's content stops changing,
  the second request 120 seconds later shows it at the latest (C19); a
  concrete run shows the expired page served once (lemma
  \<open>expired_page_served_once\<close>). Client: no query of the site's client
  returns a draft (C33).

  Bounds and fuel: no loop of the program needs fuel; every recursion is
  structural or has a length measure (\<^const>\<open>render_doc\<close>,
  \<^const>\<open>decode_toks\<close>, \<^const>\<open>utf8_valid\<close>, \<^const>\<open>get_substitution\<close>), or
  a lexicographic one (\<^const>\<open>glob_match\<close>). The cache window is the
  source's \<open>revalidate: 60\<close> (\<^const>\<open>revalidate_window\<close>), in seconds; it is
  also the pages' revalidation period, the lowest \<open>revalidate\<close> of their
  fetches.

  Not modelled, and why: \<open>globals.css\<close> and the Tailwind classes are styling;
  image optimisation, font loading (the class name a font gets is a
  parameter of \<^const>\<open>RootLayout\<close>), the effect of \<open>formats\<close>,
  \<open>minimumCacheTTL\<close> and \<open>poweredByHeader\<close> on responses, and the WHATWG URL
  parser belong to the framework or the platform; the image-URL builder and
  \<open>toLocaleDateString\<close> are parameters (\<^typ>\<open>image_url_builder\<close>,
  \<^typ>\<open>date_formatter\<close>), so every theorem holds for any of them;
  \<open>next/image\<close>'s own checks of its \<open>src\<close> are the framework's. Of the
  Portable Text renderer, nested list levels, hard line breaks, the merging
  of adjacent spans under a shared mark, inline objects inside blocks (read
  as empty spans) and the toolkit's internal \<open>@\<close>-types are not modelled. The
  highlighter is modelled by the code it reads and shows, not by its
  tokenised markup. Of the framework's caches, the data cache follows the
  spec's expiry on read rather than stale-while-revalidate, a background
  rendering of a page completes before the next request, the data-cache
  entries a path's invalidation drops are taken to be those of the query its
  page fetches, and React's per-request \<open>cache\<close> wrapper is one fetch per
  key and request. How React prints a non-string \<open>title\<close> is left open: the
  document title is the JSON value Next.js hands to the \<open>title\<close> element.
  The client's API version, CDN use and stega only choose the transport, and
  its validation of the configuration is the library's. JSON numbers are
  integers. The router is taken to pass the path segment still
  percent-encoded, as the post page's own decoding assumes.
\<close>

section \<open>Fixtures\<close>

text \<open>A published post whose slug contains a space.\<close>

definition spaced_post :: json where
  "spaced_post = JObj [(''_type'', JStr ''post''), (''publishedAt'', JStr ''2025-01-01T00:00:00Z''),
                       (''slug'', JObj [(''current'', JStr ''hello world'')])]"

section \<open>Properties across components\<close>

text \<open>
  C22. The link a listed post gets decodes back to the post's slug, and
  following it never reaches the not-found page: the post page finds a post
  with that slug.
\<close>

theorem listed_post_resolves:
  assumes "p \<in> set (posts_query now docs)" and "doc_slug p = Some (JStr s)" and "utf8_valid s"
    and "card_link p = Inr (''/blog/'' @ seg)"
  shows "decodeURIComponent seg = Inr s \<and> PostPage cfg u f docs seg \<noteq> Inr NotFound"
proof -
  from assms(1) have p: "p \<in> set docs" "is_post p" by (auto simp: set_posts_query)
  from assms(2) obtain sl where sl: "get_prop p ''slug'' = Some sl" "sl \<noteq> JNull"
    "get_prop sl ''current'' = Some (JStr s)"
    by (auto simp: doc_slug_def opt_prop_def split: option.splits json.splits)
  then have "card_link p = Inr (''/blog/'' @ encodeURIComponent s)"
    by (cases sl) (simp_all add: card_link_def)
  with assms(4) have seg: "seg = encodeURIComponent s" by simp
  with assms(3) have dec: "decodeURIComponent seg = Inr s" by (simp add: uri_roundtrip)
  from p assms(2) obtain q where "post_query s docs = Some q"
    by (cases "post_query s docs") (auto simp: post_query_def find_None_iff)
  with dec show ?thesis by (auto simp: PostPage_def bind_res_def split: sum.split)
qed

theorem listed_post_resolves_witness:
  "decodeURIComponent ''hello%20world'' = Inr ''hello world'' \<and>
   PostPage \<lparr>projectId = None, dataset = None\<rparr> (\<lambda>_ _ _. Inr ''u'') (\<lambda>_. ''d'') [spaced_post] ''hello%20world'' \<noteq> Inr NotFound"
proof (rule listed_post_resolves)
  show "spaced_post \<in> set (posts_query ''2025-06-10T12:00:00Z'' [spaced_post])"
    by (simp add: spaced_post_def posts_query_def is_post_def published_before_def published_at_def)
  show "doc_slug spaced_post = Some (JStr ''hello world'')"
    by (simp add: spaced_post_def doc_slug_def)
  show "utf8_valid ''hello world''" by simp
  show "card_link spaced_post = Inr (''/blog/'' @ ''hello%20world'')"
    unfolding spaced_post_def card_link_def by code_simp
qed

text \<open>
  C23. For a post document sent as the webhook body, the webhook invalidates
  \<open>/blog/\<close> followed by the raw slug, while the listing links to the encoded
  slug: the two paths agree exactly when every character of the slug is
  unreserved.
\<close>

theorem webhook_path_matches_link:
  assumes "is_post p" and "doc_slug p = Some (JStr s)" and "s \<noteq> []"
  shows "''/blog/'' @ s \<in> set (paths_to_revalidate p) \<and>
         (card_link p = Inr (''/blog/'' @ s) \<longleftrightarrow> list_all unreserved s)"
proof -
  from assms(2) obtain sl where sl: "get_prop p ''slug'' = Some sl" "sl \<noteq> JNull"
    "get_prop sl ''current'' = Some (JStr s)"
    by (auto simp: doc_slug_def opt_prop_def split: option.splits json.splits)
  then have link: "card_link p = Inr (''/blog/'' @ encodeURIComponent s)"
    by (cases sl) (simp_all add: card_link_def)
  from assms have "''/blog/'' @ s \<in> set (paths_to_revalidate p)"
    by (simp add: paths_to_revalidate_def slug_current_def is_post_def doc_slug_def [symmetric])
  with link show ?thesis by (simp add: encode_identity_iff)
qed

theorem webhook_path_matches_link_witness:
  "''/blog/hello world'' \<in> set (paths_to_revalidate spaced_post) \<and>
   (card_link spaced_post = Inr ''/blog/hello world'' \<longleftrightarrow> list_all unreserved ''hello world'')"
  using webhook_path_matches_link [of spaced_post "''hello world''"]
  by (simp add: spaced_post_def is_post_def doc_slug_def)

end
